theory Spec2Isabelle
  imports Complex_Main "HOL-Library.Word"
begin

unbundle bit_operations_syntax

section \<open>IMX500 MobileNet SSD post-processing stage\<close>

text \<open>
  A shallow embedding of \<^verbatim>\<open>post_processing_stages/imx500_mobilenet.cpp\<close>.

  Conventions of the model.
  \<^item> \<^verbatim>\<open>uint8_t\<close>, \<^verbatim>\<open>uint16_t\<close> and \<^verbatim>\<open>uint32_t\<close>/\<^verbatim>\<open>unsigned int\<close> are words of
    that width, so that \<open>*\<close> and \<open>+\<close> wrap as they do in C++. Loop counters that
    cannot overflow are natural numbers.
  \<^item> The raw buffer is a list of bytes. The C++ reads it through a raw pointer without
    a length; in the model a read past the end of the list is the fault
    \<open>OutOfBoundsRead\<close>. Integer division by zero, unchecked vector accesses out of
    range, \<^verbatim>\<open>std::vector::at\<close> out of range and a failed \<^verbatim>\<open>assert\<close> are faults too.
  \<^item> Every \<^verbatim>\<open>return -1\<close> is an \<open>Error\<close> tagged after the message logged just before it.
  \<^item> \<^verbatim>\<open>float\<close> values are the elements of a type \<open>'f\<close>, and the operations of the
    source on them (the conversion of an integer, product, quotient, \<^verbatim>\<open>ceil\<close>, \<^verbatim>\<open>round\<close>,
    \<open><\<close> and the conversions to unsigned integers) are the fields of a record
    \<open>float_ops\<close> that every function of the model takes. Nothing is assumed of them, so
    a theorem about all \<open>F\<close> holds of binary32 arithmetic with its rounding, its
    infinities, its NaN and whatever a conversion out of range yields.
\<close>

type_synonym u8 = "8 word"
type_synonym u16 = "16 word"
type_synonym u32 = "32 word"

datatype error =
    InvalidFrame
  | NonZeroPadding
  | InvalidTotalDimensionSize
  | InvalidTotalOutSize
  | ZeroTotalOutSize
  | InvalidOutputTensorInfo
  | ZeroNumOutputTensors
  | InvalidNumOutputTensors
  | TotalSizeTooLarge
  | InvalidTensorOutSize
  | OffsetExceedsOutputSize
  | ZeroOutputTensorSize
  | InvalidBitsPerElement
  | InvalidCountIndex
  | OutputTensorBodyFailed

datatype fault =
    DivisionByZero
  | OutOfBoundsRead
  | OutOfBoundsWrite
  | OutOfRangeException
  | AssertionFailure

datatype failure = Error error | Fault fault

subsection \<open>Float operations\<close>

record 'f float_ops =
  f_zero :: 'f
  f_of_int :: "int \<Rightarrow> 'f"
  f_mul :: "'f \<Rightarrow> 'f \<Rightarrow> 'f"
  f_div :: "'f \<Rightarrow> 'f \<Rightarrow> 'f"
  f_ceil :: "'f \<Rightarrow> 'f"
  f_round :: "'f \<Rightarrow> 'f"
  f_less :: "'f \<Rightarrow> 'f \<Rightarrow> bool"
  f_to_u8 :: "'f \<Rightarrow> 8 word"
  f_to_u16 :: "'f \<Rightarrow> 16 word"
  f_to_u32 :: "'f \<Rightarrow> 32 word"

subsection \<open>Data model\<close>

definition PplTotalDetections :: nat where
  "PplTotalDetections = 10"

definition PplDnnOutputTensorSize :: nat where
  "PplDnnOutputTensorSize = 61"

definition UINT32_MAX :: u32 where
  "UINT32_MAX = 0xFFFFFFFF"

record DnnHeader =
  frameValid :: u8
  frameCount :: u8
  maxLineLen :: u16
  apParamSize :: u16
  networkId :: u16
  tensorType :: u8

subsection \<open>Header parser\<close>

definition le16 :: "u8 \<Rightarrow> u8 \<Rightarrow> u16" where
  "le16 lo hi = word_of_nat (unat lo + 256 * unat hi)"

text \<open>
  \<^verbatim>\<open>dnnHeader_ = *(DnnHeader *)src\<close>: the struct is 10 bytes long with its fields at
  their natural alignment (offsets 0, 1, 2, 4, 6 and 8), read little-endian.
\<close>

definition readDnnHeader :: "u8 list \<Rightarrow> DnnHeader" where
  "readDnnHeader src =
     \<lparr> frameValid = src ! 0,
       frameCount = src ! 1,
       maxLineLen = le16 (src ! 2) (src ! 3),
       apParamSize = le16 (src ! 4) (src ! 5),
       networkId = le16 (src ! 6) (src ! 7),
       tensorType = src ! 8 \<rparr>"

definition DnnHeaderSize :: nat where
  "DnnHeaderSize = 12"

definition MipiPhSize :: nat where
  "MipiPhSize = 0"

text \<open>
  The copy loop of \<^verbatim>\<open>parseHeader\<close>. \<open>src\<close> is the offset of the moving pointer from the
  start of the buffer, \<open>i\<close> the cursor, and the last argument the number of bytes still to
  copy. The cursor never exceeds \<open>max stride (12 + 65535)\<close>, so \<^verbatim>\<open>i++\<close> cannot wrap.
\<close>

fun copyApParams :: "u8 list \<Rightarrow> nat \<Rightarrow> nat \<Rightarrow> nat \<Rightarrow> nat \<Rightarrow> failure + u8 list" where
  "copyApParams buf stride src i 0 = Inr []"
| "copyApParams buf stride src i (Suc n) =
     (let wrap = (stride \<noteq> 0 \<and> i \<ge> stride);
          i' = (if wrap then 0 else i);
          src' = (if wrap then src + stride + MipiPhSize else src)
      in if src' + i' < length buf
         then (case copyApParams buf stride src' (i' + 1) n of
                 Inl f \<Rightarrow> Inl f
               | Inr bs \<Rightarrow> Inr (buf ! (src' + i') # bs))
         else Inl (Fault OutOfBoundsRead))"

definition parseHeader :: "u8 list \<Rightarrow> u32 \<Rightarrow> failure + (DnnHeader \<times> u8 list)" where
  "parseHeader buf stride =
     (if length buf < 10 then Inl (Fault OutOfBoundsRead)
      else let h = readDnnHeader buf in
        if frameValid h = 0 then Inl (Error InvalidFrame)
        else (case copyApParams buf (unat stride) 0 DnnHeaderSize (unat (apParamSize h)) of
                Inl f \<Rightarrow> Inl f
              | Inr bs \<Rightarrow> Inr (h, bs)))"

subsection \<open>Schema interpreter\<close>

record Dimensions =
  ordinal :: u8
  dimSize :: u16
  serializationIndex :: u8
  padding :: u8

record 'f OutputTensorApParams =
  tensorId :: u8
  name :: string
  numDimensions :: u16
  bitsPerElement :: u8
  vecDim :: "Dimensions list"
  shift :: u16
  scale :: 'f
  format :: u8

definition TYPE_SIGNED :: u8 where
  "TYPE_SIGNED = 0"

definition TYPE_UNSIGNED :: u8 where
  "TYPE_UNSIGNED = 1"

text \<open>
  Modelled from the spec: the reader generated from the schema
  (\<^verbatim>\<open>apParams.flatbuffers_generated.h\<close>) is not among the sources. The serialized table is a
  list of networks, each with an id, a type and its output tensors; an output tensor has
  the fields of a tensor descriptor and a list of dimension records. The function that
  turns the schema bytes into this table (\<^verbatim>\<open>GetFBApParams\<close>) is a parameter of \<open>Process\<close>.
\<close>

record FBDimension =
  fb_id :: u8
  fb_size :: u16
  fb_serializationIndex :: u8
  fb_padding :: u8

record 'f FBOutputTensor =
  fbt_id :: u8
  fbt_name :: string
  fbt_numOfDimensions :: u8
  fbt_dimensions :: "FBDimension list"
  fbt_bitsPerElement :: u8
  fbt_shift :: u16
  fbt_scale :: 'f
  fbt_format :: u8

record 'f FBNetwork =
  fbn_id :: u16
  fbn_type :: string
  fbn_outputTensors :: "'f FBOutputTensor list"

record 'f FBApParams =
  networks :: "'f FBNetwork list"

text \<open>
  The loop over \<open>k < numOfDimensions\<close>; \<^verbatim>\<open>dimensions()->Get(k)\<close> past the end of the vector
  is a read out of bounds.
\<close>

fun parseDimensions :: "FBDimension list \<Rightarrow> nat \<Rightarrow> nat \<Rightarrow> failure + Dimensions list" where
  "parseDimensions fb k 0 = Inr []"
| "parseDimensions fb k (Suc n) =
     (if k < length fb
      then let d = \<lparr> ordinal = fb_id (fb ! k), dimSize = fb_size (fb ! k),
                        serializationIndex = fb_serializationIndex (fb ! k),
                        padding = fb_padding (fb ! k) \<rparr>
           in if padding d \<noteq> 0 then Inl (Error NonZeroPadding)
              else (case parseDimensions fb (k + 1) n of
                      Inl f \<Rightarrow> Inl f
                    | Inr ds \<Rightarrow> Inr (d # ds))
      else Inl (Fault OutOfBoundsRead))"

fun parseOutputTensors :: "'f FBOutputTensor list \<Rightarrow> failure + 'f OutputTensorApParams list" where
  "parseOutputTensors [] = Inr []"
| "parseOutputTensors (t # ts) =
     (case parseDimensions (fbt_dimensions t) 0 (unat (fbt_numOfDimensions t)) of
        Inl f \<Rightarrow> Inl f
      | Inr ds \<Rightarrow>
          (case parseOutputTensors ts of
             Inl f \<Rightarrow> Inl f
           | Inr aps \<Rightarrow>
               Inr (\<lparr> tensorId = fbt_id t, name = fbt_name t,
                       numDimensions = ucast (fbt_numOfDimensions t),
                       bitsPerElement = fbt_bitsPerElement t, vecDim = ds,
                       shift = fbt_shift t, scale = fbt_scale t, format = fbt_format t \<rparr> # aps)))"

text \<open>The first network whose id is the header's is parsed; the others are skipped.\<close>

fun parseNetworks :: "'f FBNetwork list \<Rightarrow> u16 \<Rightarrow> failure + 'f OutputTensorApParams list" where
  "parseNetworks [] nid = Inr []"
| "parseNetworks (n # ns) nid =
     (if fbn_id n \<noteq> nid then parseNetworks ns nid
      else parseOutputTensors (fbn_outputTensors n))"

definition parseApParams :: "'f FBApParams \<Rightarrow> DnnHeader \<Rightarrow> failure + 'f OutputTensorApParams list" where
  "parseApParams fbApParams dnnHeader = parseNetworks (networks fbApParams) (networkId dnnHeader)"

subsection \<open>Layout planner\<close>

record 'f OutputTensorInfo =
  address :: "'f list"
  totalSize :: nat
  tensorNum :: u32
  tensorDataNum :: "u32 list"

text \<open>
  The inner loop of \<^verbatim>\<open>populateOutputBodyInfo\<close> over the dimensions of one tensor.
  \<^verbatim>\<open>UINT32_MAX / dim.size\<close> is an unsigned division; with \<open>dim.size = 0\<close> it divides by zero.
\<close>

fun totalDimensionSizeLoop :: "Dimensions list \<Rightarrow> u32 \<Rightarrow> failure + u32" where
  "totalDimensionSizeLoop [] totalDimensionSize = Inr totalDimensionSize"
| "totalDimensionSizeLoop (d # dims) totalDimensionSize =
     (if dimSize d = 0 then Inl (Fault DivisionByZero)
      else if totalDimensionSize \<ge> UINT32_MAX div ucast (dimSize d)
      then Inl (Error InvalidTotalDimensionSize)
      else totalDimensionSizeLoop dims (totalDimensionSize * ucast (dimSize d)))"

fun totalOutSizeLoop :: "'f OutputTensorApParams list \<Rightarrow> u32 \<Rightarrow> failure + u32" where
  "totalOutSizeLoop [] totalOutSize = Inr totalOutSize"
| "totalOutSizeLoop (ap # aps) totalOutSize =
     (case totalDimensionSizeLoop (vecDim ap) 1 of
        Inl f \<Rightarrow> Inl f
      | Inr totalDimensionSize \<Rightarrow>
          if totalOutSize \<ge> UINT32_MAX - totalDimensionSize
          then Inl (Error InvalidTotalOutSize)
          else totalOutSizeLoop aps (totalOutSize + totalDimensionSize))"

definition populateOutputBodyInfo :: "'f float_ops \<Rightarrow> 'f OutputTensorApParams list
    \<Rightarrow> failure + 'f OutputTensorInfo" where
  "populateOutputBodyInfo F outputApParams =
     (case totalOutSizeLoop outputApParams 0 of
        Inl f \<Rightarrow> Inl f
      | Inr totalOutSize \<Rightarrow>
          if totalOutSize = 0 then Inl (Error ZeroTotalOutSize)
          else if totalOutSize \<ge> UINT32_MAX div 4 then Inl (Error InvalidOutputTensorInfo)
          else let numOutputTensors = (word_of_nat (length outputApParams) :: u32) in
            if numOutputTensors = 0 then Inl (Error ZeroNumOutputTensors)
            else if numOutputTensors \<ge> UINT32_MAX div 4 then Inl (Error InvalidNumOutputTensors)
            else Inr \<lparr> address = replicate (unat totalOutSize) (f_zero F),
                       totalSize = unat totalOutSize,
                       tensorNum = numOutputTensors,
                       tensorDataNum = replicate (unat numOutputTensors) 0 \<rparr>)"


subsection \<open>Tensor body decoder: planning loop\<close>

text \<open>
  \<^verbatim>\<open>(uint16_t)std::ceil(tensorOutSize / (float)dnnHeader_.maxLineLen)\<close>: both operands are
  converted to \<^verbatim>\<open>float\<close>, and the quotient, its ceiling and the conversion to \<^verbatim>\<open>uint16_t\<close>
  are those of the float operations.
\<close>

definition numLinesOf :: "'f float_ops \<Rightarrow> u32 \<Rightarrow> u16 \<Rightarrow> u16" where
  "numLinesOf F tensorOutSize mll =
     f_to_u16 F (f_ceil F (f_div F (f_of_int F (uint tensorOutSize)) (f_of_int F (uint mll))))"

text \<open>
  Entry \<open>tensorIdx\<close> of the vectors \<^verbatim>\<open>numLinesVec\<close>, \<^verbatim>\<open>outSizes\<close>, \<^verbatim>\<open>offsets\<close>, \<^verbatim>\<open>srcArr\<close>,
  \<^verbatim>\<open>serializedDims\<close> and \<^verbatim>\<open>actualDims\<close>. A pointer into the raw buffer is its index.
\<close>

record TensorPlan =
  numLines :: u16
  outSize :: u32
  offset :: u32
  srcPos :: nat
  serializedDim :: "Dimensions list"
  actualDim :: "Dimensions list"

definition zeroDimensions :: Dimensions where
  "zeroDimensions = \<lparr> ordinal = 0, dimSize = 0, serializationIndex = 0, padding = 0 \<rparr>"

text \<open>
  The loop over \<open>idx < numDimensions\<close> for one tensor; the state is
  \<open>(serializedDim, actualDim, tensorOutSize)\<close>. \<^verbatim>\<open>vecDim.at(idx)\<close> throws out of range,
  \<^verbatim>\<open>serializedDim[serializationIndex]\<close> is an unchecked write, and
  \<^verbatim>\<open>UINT32_MAX / param.bitsPerElement\<close> divides by zero when \<open>bitsPerElement = 0\<close>.
\<close>

fun dimensionLoop :: "'f OutputTensorApParams \<Rightarrow> nat \<Rightarrow> nat
    \<Rightarrow> Dimensions list \<times> Dimensions list \<times> u32
    \<Rightarrow> failure + Dimensions list \<times> Dimensions list \<times> u32" where
  "dimensionLoop param idx 0 st = Inr st"
| "dimensionLoop param idx (Suc n) (serDim, actDim, tensorOutSize) =
     (if idx \<ge> length (vecDim param) then Inl (Fault OutOfRangeException)
      else let d = vecDim param ! idx; si = unat (serializationIndex d) in
        if si \<ge> length serDim then Inl (Fault OutOfBoundsWrite)
        else let actDim1 = actDim[idx := (actDim ! idx)\<lparr>dimSize := dimSize d\<rparr>];
                 serDim1 = serDim[si := (serDim ! si)\<lparr>dimSize := dimSize d\<rparr>];
                 tensorOutSize1 = tensorOutSize * ucast (dimSize d)
             in if bitsPerElement param = 0 then Inl (Fault DivisionByZero)
                else if tensorOutSize1 \<ge> UINT32_MAX div ucast (bitsPerElement param) div 8
                then Inl (Error InvalidTensorOutSize)
                else let actDim2 =
                           actDim1[idx := (actDim1 ! idx)\<lparr>serializationIndex := serializationIndex d\<rparr>];
                         serDim2 =
                           serDim1[si := (serDim1 ! si)\<lparr>serializationIndex := word_of_nat idx\<rparr>]
                     in dimensionLoop param (idx + 1) n (serDim2, actDim2, tensorOutSize1))"

text \<open>
  The loop over the tensors. \<open>src1\<close> and \<open>off\<close> are the running source position and
  output offset; the last argument is \<^verbatim>\<open>outputBodyInfo_.tensorDataNum\<close>.
  \<^verbatim>\<open>outputTensorSize / (param.bitsPerElement / 8)\<close> divides by zero when
  \<open>bitsPerElement < 8\<close>.
\<close>

fun planLoop :: "'f float_ops \<Rightarrow> DnnHeader \<Rightarrow> u32 \<Rightarrow> nat \<Rightarrow> 'f OutputTensorApParams list \<Rightarrow> nat \<Rightarrow> nat
    \<Rightarrow> u32 \<Rightarrow> u32 list \<Rightarrow> failure + TensorPlan list \<times> u32 list" where
  "planLoop F hdr stride totalSz [] tensorIdx src1 off tdn = Inr ([], tdn)"
| "planLoop F hdr stride totalSz (param # params) tensorIdx src1 off tdn =
     (let n = unat (numDimensions param) in
      case dimensionLoop param 0 n
             (replicate n zeroDimensions, replicate n zeroDimensions,
              ucast (bitsPerElement param div 8)) of
        Inl f \<Rightarrow> Inl f
      | Inr (serDim, actDim, tensorOutSize) \<Rightarrow>
          let nl = numLinesOf F tensorOutSize (maxLineLen hdr);
              src1' = src1 + unat (ucast nl * stride)
          in if bitsPerElement param div 8 = 0 then Inl (Fault DivisionByZero)
             else let tensorDataNum1 = tensorOutSize div ucast (bitsPerElement param div 8);
                      off' = off + tensorDataNum1
                  in if tensorIdx \<ge> length tdn then Inl (Fault OutOfBoundsWrite)
                     else if unat off' > totalSz then Inl (Error OffsetExceedsOutputSize)
                     else (case planLoop F hdr stride totalSz params (tensorIdx + 1) src1' off'
                                  (tdn[tensorIdx := tensorDataNum1]) of
                             Inl f \<Rightarrow> Inl f
                           | Inr (plans, tdn') \<Rightarrow>
                               Inr (\<lparr> numLines = nl, outSize = tensorOutSize, offset = off,
                                       srcPos = src1, serializedDim = serDim,
                                       actualDim = actDim \<rparr> # plans, tdn')))"

text \<open>The exchange sort that orders the tensor indices by descending line count.\<close>

definition sortStep :: "TensorPlan list \<Rightarrow> nat \<Rightarrow> nat \<Rightarrow> nat list \<Rightarrow> nat list" where
  "sortStep plans i j idxs =
     (if numLines (plans ! (idxs ! i)) > numLines (plans ! (idxs ! j))
      then idxs[i := idxs ! j, j := idxs ! i] else idxs)"

definition sortIdxs :: "TensorPlan list \<Rightarrow> nat list" where
  "sortIdxs plans =
     (let n = length plans
      in fold (\<lambda>i. fold (\<lambda>j. sortStep plans i j) [0..<n]) [0..<n] [0..<n])"

subsection \<open>Tensor body decoder: one tensor\<close>

text \<open>
  \<^verbatim>\<open>getVal8<int8_t>\<close> and \<^verbatim>\<open>getVal8<uint8_t>\<close>: the subtraction is done in \<^verbatim>\<open>int\<close>, the
  difference is converted to \<^verbatim>\<open>float\<close> and the product is a float product.
\<close>

definition getVal8_int8 :: "'f float_ops \<Rightarrow> u8 \<Rightarrow> 'f OutputTensorApParams \<Rightarrow> 'f" where
  "getVal8_int8 F b param = f_mul F (f_of_int F (sint b - uint (shift param))) (scale param)"

definition getVal8_uint8 :: "'f float_ops \<Rightarrow> u8 \<Rightarrow> 'f OutputTensorApParams \<Rightarrow> 'f" where
  "getVal8_uint8 F b param = f_mul F (f_of_int F (uint b - uint (shift param))) (scale param)"

text \<open>
  The macros \<^verbatim>\<open>bytes_to_uint16\<close> and \<^verbatim>\<open>bytes_to_int16\<close>: both expand to the \<^verbatim>\<open>int\<close>
  expression \<^verbatim>\<open>(MSB & 255) << 8 | (LSB & 255)\<close> on the bytes taken as unsigned.
\<close>

definition bytes_to_16 :: "u8 \<Rightarrow> u8 \<Rightarrow> int" where
  "bytes_to_16 MSB LSB = (push_bit 8 (uint MSB AND 255)) OR (uint LSB AND 255)"

text \<open>The macro result stored to \<^verbatim>\<open>int16_t temp\<close>, respectively \<^verbatim>\<open>uint16_t temp\<close>.\<close>

definition getVal16_int16 :: "'f float_ops \<Rightarrow> u8 \<Rightarrow> u8 \<Rightarrow> 'f OutputTensorApParams \<Rightarrow> 'f" where
  "getVal16_int16 F MSB LSB param =
     f_mul F (f_of_int F (sint (word_of_int (bytes_to_16 MSB LSB) :: u16) - uint (shift param)))
       (scale param)"

definition getVal16_uint16 :: "'f float_ops \<Rightarrow> u8 \<Rightarrow> u8 \<Rightarrow> 'f OutputTensorApParams \<Rightarrow> 'f" where
  "getVal16_uint16 F MSB LSB param =
     f_mul F (f_of_int F (uint (word_of_int (bytes_to_16 MSB LSB) :: u16) - uint (shift param)))
       (scale param)"

text \<open>\<^verbatim>\<open>offset + index\<close> for an \<^verbatim>\<open>int\<close> offset and an unsigned index: unsigned, 32 bits.\<close>

definition at32 :: "u32 \<Rightarrow> nat \<Rightarrow> nat" where
  "at32 off n = unat (off + word_of_nat n)"

text \<open>
  The \<^verbatim>\<open>while (lineIndex < maxLineLen)\<close> loop of the 8-bit branch. It returns the new
  \<open>elementIndex\<close> and \<open>tmpDst\<close>.
\<close>

function readLine8 :: "'f float_ops \<Rightarrow> u8 list \<Rightarrow> 'f OutputTensorApParams \<Rightarrow> nat \<Rightarrow> nat \<Rightarrow> u32 \<Rightarrow> nat \<Rightarrow> nat \<Rightarrow> nat
    \<Rightarrow> 'f list \<Rightarrow> failure + nat \<times> 'f list" where
  "readLine8 F buf param mll outputTensorSize off src lineIndex elementIndex tmpDst =
     (if lineIndex < mll then
        if src + lineIndex < length buf then
          if at32 off elementIndex < length tmpDst then
            let v = (if format param = TYPE_SIGNED
                     then getVal8_int8 F (buf ! (src + lineIndex)) param
                     else getVal8_uint8 F (buf ! (src + lineIndex)) param);
                tmpDst' = tmpDst[at32 off elementIndex := v]
            in if elementIndex + 1 = outputTensorSize then Inr (elementIndex + 1, tmpDst')
               else readLine8 F buf param mll outputTensorSize off src (lineIndex + 1)
                      (elementIndex + 1) tmpDst'
          else Inl (Fault OutOfBoundsWrite)
        else Inl (Fault OutOfBoundsRead)
      else Inr (elementIndex, tmpDst))"
  by pat_completeness auto
termination
  by (relation "measure (\<lambda>(F, buf, param, mll, outputTensorSize, off, src, lineIndex, elementIndex, tmpDst).
        mll - lineIndex)") auto

text \<open>The \<^verbatim>\<open>for (i < numLines)\<close> loop of the 8-bit branch; the counter is the lines left.\<close>

fun readLines8 :: "'f float_ops \<Rightarrow> u8 list \<Rightarrow> 'f OutputTensorApParams \<Rightarrow> nat \<Rightarrow> nat \<Rightarrow> u32 \<Rightarrow> nat \<Rightarrow> nat \<Rightarrow> nat \<Rightarrow> nat
    \<Rightarrow> 'f list \<Rightarrow> failure + nat \<times> 'f list" where
  "readLines8 F buf param mll outputTensorSize off stride 0 src elementIndex tmpDst =
     Inr (elementIndex, tmpDst)"
| "readLines8 F buf param mll outputTensorSize off stride (Suc n) src elementIndex tmpDst =
     (case readLine8 F buf param mll outputTensorSize off src 0 elementIndex tmpDst of
        Inl f \<Rightarrow> Inl f
      | Inr (elementIndex', tmpDst') \<Rightarrow>
          if elementIndex' = outputTensorSize then Inr (elementIndex', tmpDst')
          else readLines8 F buf param mll outputTensorSize off stride n (src + stride)
                 elementIndex' tmpDst')"

text \<open>The same two loops of the 16-bit branch; the byte at \<open>lineIndex + 1\<close> is read first.\<close>

function readLine16 :: "'f float_ops \<Rightarrow> u8 list \<Rightarrow> 'f OutputTensorApParams \<Rightarrow> nat \<Rightarrow> nat \<Rightarrow> u32 \<Rightarrow> nat \<Rightarrow> nat \<Rightarrow> nat
    \<Rightarrow> 'f list \<Rightarrow> failure + nat \<times> 'f list" where
  "readLine16 F buf param mll outputTensorSize off src lineIndex elementIndex tmpDst =
     (if lineIndex < mll then
        if src + lineIndex + 1 < length buf then
          if at32 off elementIndex < length tmpDst then
            let v = (if format param = TYPE_SIGNED
                     then getVal16_int16 F (buf ! (src + lineIndex + 1)) (buf ! (src + lineIndex)) param
                     else getVal16_uint16 F (buf ! (src + lineIndex + 1)) (buf ! (src + lineIndex)) param);
                tmpDst' = tmpDst[at32 off elementIndex := v]
            in if elementIndex + 1 \<ge> outputTensorSize div 2 then Inr (elementIndex + 1, tmpDst')
               else readLine16 F buf param mll outputTensorSize off src (lineIndex + 2)
                      (elementIndex + 1) tmpDst'
          else Inl (Fault OutOfBoundsWrite)
        else Inl (Fault OutOfBoundsRead)
      else Inr (elementIndex, tmpDst))"
  by pat_completeness auto
termination
  by (relation "measure (\<lambda>(F, buf, param, mll, outputTensorSize, off, src, lineIndex, elementIndex, tmpDst).
        mll - lineIndex)") auto

fun readLines16 :: "'f float_ops \<Rightarrow> u8 list \<Rightarrow> 'f OutputTensorApParams \<Rightarrow> nat \<Rightarrow> nat \<Rightarrow> u32 \<Rightarrow> nat \<Rightarrow> nat \<Rightarrow> nat \<Rightarrow> nat
    \<Rightarrow> 'f list \<Rightarrow> failure + nat \<times> 'f list" where
  "readLines16 F buf param mll outputTensorSize off stride 0 src elementIndex tmpDst =
     Inr (elementIndex, tmpDst)"
| "readLines16 F buf param mll outputTensorSize off stride (Suc n) src elementIndex tmpDst =
     (case readLine16 F buf param mll outputTensorSize off src 0 elementIndex tmpDst of
        Inl f \<Rightarrow> Inl f
      | Inr (elementIndex', tmpDst') \<Rightarrow>
          if elementIndex' \<ge> outputTensorSize div 2 then Inr (elementIndex', tmpDst')
          else readLines16 F buf param mll outputTensorSize off stride n (src + stride)
                 elementIndex' tmpDst')"


text \<open>
  \<open>sortingRequired\<close>: some dimension among the first \<open>numDimensions\<close> has a
  \<open>serializationIndex\<close> that differs from its \<open>ordinal\<close>.
\<close>

definition sortingRequired :: "'f OutputTensorApParams \<Rightarrow> failure + bool" where
  "sortingRequired param =
     (if unat (numDimensions param) > length (vecDim param) then Inl (Fault OutOfRangeException)
      else Inr (list_ex (\<lambda>d. serializationIndex d \<noteq> ordinal d)
                  (take (unat (numDimensions param)) (vecDim param))))"

definition DimensionMax :: nat where
  "DimensionMax = 3"

text \<open>
  \<^verbatim>\<open>for (j = serializationIndex; j > 0; j--) coef[i] *= actualDim.at(j - 1).size\<close>; the
  counter is \<open>j\<close>.
\<close>

fun coefLoop :: "Dimensions list \<Rightarrow> nat \<Rightarrow> u32 \<Rightarrow> failure + u32" where
  "coefLoop actDim 0 c = Inr c"
| "coefLoop actDim (Suc j) c =
     (if j < length actDim then coefLoop actDim j (c * ucast (dimSize (actDim ! j)))
      else Inl (Fault OutOfRangeException))"

text \<open>
  The preparation loop over \<open>i < numDimensions\<close>; the state is \<open>(loopCnt, coef)\<close>. At
  \<open>i \<ge> DimensionMax\<close> the source logs an error and leaves the loop with \<^verbatim>\<open>break\<close>.
\<close>

fun prepLoop :: "Dimensions list \<Rightarrow> Dimensions list \<Rightarrow> nat \<Rightarrow> nat \<Rightarrow> u32 list \<times> u32 list
    \<Rightarrow> failure + u32 list \<times> u32 list" where
  "prepLoop serDim actDim i 0 st = Inr st"
| "prepLoop serDim actDim i (Suc n) (loopCnt, coef) =
     (if i \<ge> DimensionMax then Inr (loopCnt, coef)
      else if i \<ge> length serDim then Inl (Fault OutOfRangeException)
      else (case coefLoop actDim (unat (serializationIndex (serDim ! i))) (coef ! i) of
              Inl f \<Rightarrow> Inl f
            | Inr ci \<Rightarrow>
                prepLoop serDim actDim (i + 1) n
                  (loopCnt[i := ucast (dimSize (serDim ! i))], coef[i := ci])))"

text \<open>
  The destination indices \<^verbatim>\<open>dst_index\<close> in the order in which the three nested loops of the
  sort visit them: \<open>i\<close> outermost, \<open>k\<close> innermost.
\<close>

definition dstIndexes :: "u32 list \<Rightarrow> u32 list \<Rightarrow> u32 list" where
  "dstIndexes loopCnt coef =
     concat (map (\<lambda>i. concat (map (\<lambda>j. map (\<lambda>k.
         (coef ! 2 * word_of_nat i) + (coef ! 1 * word_of_nat j) + (coef ! 0 * word_of_nat k))
       [0..<unat (loopCnt ! 0)]) [0..<unat (loopCnt ! 1)])) [0..<unat (loopCnt ! 2)])"

text \<open>
  \<^verbatim>\<open>dst[offset + dst_index] = tmpDst[offset + src_index++]\<close> for each visit; both accesses
  are unchecked.
\<close>

fun sortLoop :: "u32 \<Rightarrow> u32 list \<Rightarrow> nat \<Rightarrow> 'f list \<Rightarrow> 'f list \<Rightarrow> failure + 'f list" where
  "sortLoop off [] src_index tmpDst dst = Inr dst"
| "sortLoop off (dst_index # rest) src_index tmpDst dst =
     (if at32 off src_index < length tmpDst then
        if unat (off + dst_index) < length dst
        then sortLoop off rest (src_index + 1) tmpDst
               (dst[unat (off + dst_index) := tmpDst ! at32 off src_index])
        else Inl (Fault OutOfBoundsWrite)
      else Inl (Fault OutOfBoundsRead))"

text \<open>\<^verbatim>\<open>memcpy(dst + offset, tmpDst.data() + offset, n * sizeof(float))\<close>.\<close>

definition memcpyFloats :: "nat \<Rightarrow> nat \<Rightarrow> 'f list \<Rightarrow> 'f list \<Rightarrow> failure + 'f list" where
  "memcpyFloats off n tmpDst dst =
     (if off + n > length tmpDst then Inl (Fault OutOfBoundsRead)
      else if off + n > length dst then Inl (Fault OutOfBoundsWrite)
      else Inr (take off dst @ take n (drop off tmpDst) @ drop (off + n) dst))"

text \<open>
  The task started for tensor \<open>tensorIdx\<close>. It returns the arrays \<open>(tmpDst, dst)\<close>; each
  \<^verbatim>\<open>return -1\<close> of the task happens before it has written anything.
\<close>

definition tensorTask :: "'f float_ops \<Rightarrow> DnnHeader \<Rightarrow> 'f OutputTensorApParams list
    \<Rightarrow> TensorPlan list \<Rightarrow> u32 \<Rightarrow> u8 list \<Rightarrow> nat \<Rightarrow> 'f list \<times> 'f list
    \<Rightarrow> failure + 'f list \<times> 'f list" where
  "tensorTask F hdr outputApParams plans stride buf tensorIdx arrays =
     (let (tmpDst, dst) = arrays;
          param = outputApParams ! tensorIdx;
          plan = plans ! tensorIdx;
          outputTensorSize = unat (outSize plan);
          mll = unat (maxLineLen hdr)
      in case sortingRequired param of
           Inl f \<Rightarrow> Inl f
         | Inr sorting \<Rightarrow>
             if outputTensorSize = 0 then Inl (Error ZeroOutputTensorSize)
             else
               (case (if bitsPerElement param = 8
                      then readLines8 F buf param mll outputTensorSize (offset plan) (unat stride)
                             (unat (numLines plan)) (srcPos plan) 0 tmpDst
                      else if bitsPerElement param = 16
                      then readLines16 F buf param mll outputTensorSize (offset plan) (unat stride)
                             (unat (numLines plan)) (srcPos plan) 0 tmpDst
                      else Inl (Error InvalidBitsPerElement)) of
                  Inl f \<Rightarrow> Inl f
                | Inr (elementIndex, tmpDst') \<Rightarrow>
                    if sorting then
                      (case prepLoop (serializedDim plan) (actualDim plan) 0
                              (unat (numDimensions param)) ([1, 1, 1], [1, 1, 1]) of
                         Inl f \<Rightarrow> Inl f
                       | Inr (loopCnt, coef) \<Rightarrow>
                           (case sortLoop (offset plan) (dstIndexes loopCnt coef) 0 tmpDst' dst of
                              Inl f \<Rightarrow> Inl f
                            | Inr dst' \<Rightarrow> Inr (tmpDst', dst')))
                    else
                      (case (if bitsPerElement param = 8
                             then memcpyFloats (unat (offset plan)) outputTensorSize tmpDst' dst
                             else if bitsPerElement param = 16
                             then memcpyFloats (unat (offset plan)) (outputTensorSize div 2) tmpDst' dst
                             else Inl (Error InvalidBitsPerElement)) of
                         Inl f \<Rightarrow> Inl f
                       | Inr dst' \<Rightarrow> Inr (tmpDst', dst'))))"

text \<open>
  The tasks in the order in which they are started, \<open>ret\<close> summing their return values.
  A task that returns \<open>-1\<close> leaves the arrays as they were. The tasks of the source may run
  concurrently; the model runs them one after the other in starting order.
\<close>

fun runTasks :: "'f float_ops \<Rightarrow> DnnHeader \<Rightarrow> 'f OutputTensorApParams list \<Rightarrow> TensorPlan list
    \<Rightarrow> u32 \<Rightarrow> u8 list \<Rightarrow> nat list \<Rightarrow> int \<times> 'f list \<times> 'f list
    \<Rightarrow> failure + int \<times> 'f list \<times> 'f list" where
  "runTasks F hdr outputApParams plans stride buf [] st = Inr st"
| "runTasks F hdr outputApParams plans stride buf (tensorIdx # rest) (ret, tmpDst, dst) =
     (case tensorTask F hdr outputApParams plans stride buf tensorIdx (tmpDst, dst) of
        Inl (Fault f) \<Rightarrow> Inl (Fault f)
      | Inl (Error e) \<Rightarrow> runTasks F hdr outputApParams plans stride buf rest (ret - 1, tmpDst, dst)
      | Inr (tmpDst', dst') \<Rightarrow> runTasks F hdr outputApParams plans stride buf rest (ret, tmpDst', dst'))"

text \<open>
  \<^verbatim>\<open>parseOutputTensorBody\<close>: \<open>src\<close> is the position in \<open>buf\<close> of the first body line. The
  result is the return value \<open>ret\<close> and the updated \<^verbatim>\<open>outputBodyInfo_\<close>.
\<close>

definition parseOutputTensorBody :: "'f float_ops \<Rightarrow> DnnHeader \<Rightarrow> 'f OutputTensorApParams list
    \<Rightarrow> 'f OutputTensorInfo \<Rightarrow> u8 list \<Rightarrow> nat \<Rightarrow> u32 \<Rightarrow> failure + int \<times> 'f OutputTensorInfo" where
  "parseOutputTensorBody F hdr outputApParams info buf src stride =
     (if totalSize info > unat (UINT32_MAX div 4) then Inl (Error TotalSizeTooLarge)
      else let tmpDst = replicate (totalSize info) (f_zero F) in
        case planLoop F hdr stride (totalSize info) outputApParams 0 src 0 (tensorDataNum info) of
          Inl f \<Rightarrow> Inl f
        | Inr (plans, tdn) \<Rightarrow>
            (case runTasks F hdr outputApParams plans stride buf (sortIdxs plans)
                    (0, tmpDst, address info) of
               Inl f \<Rightarrow> Inl f
             | Inr (ret, tmpDst', dst') \<Rightarrow>
                 Inr (ret, info\<lparr>address := dst', tensorDataNum := tdn\<rparr>)))"


subsection \<open>Detection interpreter\<close>

record 'f Bbox =
  xMin :: 'f
  yMin :: 'f
  xMax :: 'f
  yMax :: 'f

record 'f ObjectDetectionSsdOutputTensor =
  tensorNumDetections :: u32
  bboxes :: "'f Bbox list"
  scores :: "'f list"
  classes :: "'f list"

record PplBbox =
  mXmin :: u16
  mYmin :: u16
  mXmax :: u16
  mYmax :: u16

record 'f ObjectDetectionSsdData =
  numDetections :: u32
  vBbox :: "PplBbox list"
  vScores :: "'f list"
  vClasses :: "u8 list"

definition emptySsdData :: "'f ObjectDetectionSsdData" where
  "emptySsdData = \<lparr> numDetections = 0, vBbox = [], vScores = [], vClasses = [] \<rparr>"

text \<open>\<^verbatim>\<open>data.at(i)\<close>: throws \<^verbatim>\<open>std::out_of_range\<close> past the end.\<close>

definition data_at :: "'f list \<Rightarrow> nat \<Rightarrow> failure + 'f" where
  "data_at data i = (if i < length data then Inr (data ! i) else Inl (Fault OutOfRangeException))"

text \<open>The loop that extracts the bounding boxes; the second counter is the boxes left.\<close>

fun bboxLoop :: "'f list \<Rightarrow> nat \<Rightarrow> nat \<Rightarrow> nat \<Rightarrow> nat \<Rightarrow> failure + 'f Bbox list" where
  "bboxLoop data count totalDetections i 0 = Inr []"
| "bboxLoop data count totalDetections i (Suc n) =
     (case data_at data (count + i) of Inl f \<Rightarrow> Inl f | Inr y0 \<Rightarrow>
      case data_at data (count + i + 1 * totalDetections) of Inl f \<Rightarrow> Inl f | Inr x0 \<Rightarrow>
      case data_at data (count + i + 2 * totalDetections) of Inl f \<Rightarrow> Inl f | Inr y1 \<Rightarrow>
      case data_at data (count + i + 3 * totalDetections) of Inl f \<Rightarrow> Inl f | Inr x1 \<Rightarrow>
      case bboxLoop data count totalDetections (i + 1) n of Inl f \<Rightarrow> Inl f | Inr bs \<Rightarrow>
        Inr (\<lparr> xMin = x0, yMin = y0, xMax = x1, yMax = y1 \<rparr> # bs))"

text \<open>
  The loops that extract the class indices and the scores: each reads one value at
  \<open>count\<close> and advances it. The result is the values and the new \<open>count\<close>.
\<close>

fun valueLoop :: "'f list \<Rightarrow> nat \<Rightarrow> nat \<Rightarrow> failure + 'f list \<times> nat" where
  "valueLoop data count 0 = Inr ([], count)"
| "valueLoop data count (Suc n) =
     (if count > PplDnnOutputTensorSize then Inl (Error InvalidCountIndex)
      else case data_at data count of Inl f \<Rightarrow> Inl f | Inr v \<Rightarrow>
           case valueLoop data (count + 1) n of Inl f \<Rightarrow> Inl f | Inr (vs, count') \<Rightarrow>
             Inr (v # vs, count'))"

definition createObjectDetectionSsdData :: "'f float_ops \<Rightarrow> 'f list \<Rightarrow> nat
    \<Rightarrow> failure + 'f ObjectDetectionSsdOutputTensor" where
  "createObjectDetectionSsdData F data totalDetections =
     (let count = 0 in
      if count + totalDetections * 4 > PplDnnOutputTensorSize then Inl (Error InvalidCountIndex)
      else case bboxLoop data count totalDetections 0 totalDetections of Inl f \<Rightarrow> Inl f | Inr bs \<Rightarrow>
        let count1 = count + totalDetections * 4 in
        case valueLoop data count1 totalDetections of Inl f \<Rightarrow> Inl f | Inr (cls, count2) \<Rightarrow>
        case valueLoop data count2 totalDetections of Inl f \<Rightarrow> Inl f | Inr (scs, count3) \<Rightarrow>
          if count3 > PplDnnOutputTensorSize then Inl (Error InvalidCountIndex)
          else case data_at data count3 of Inl f \<Rightarrow> Inl f | Inr nd \<Rightarrow>
            let numDetections0 = f_to_u32 F nd;
                numDetections1 = (if unat numDetections0 > totalDetections
                                  then word_of_nat totalDetections else numDetections0)
            in Inr \<lparr> tensorNumDetections = numDetections1, bboxes = bs, scores = scs,
                     classes = cls \<rparr>)"

record Size =
  width :: u32
  height :: u32

text \<open>
  The loop of \<^verbatim>\<open>analyseObjectDetectionSsdOutput\<close> over \<open>i < tensor.numDetections\<close>; the second
  counter is the candidates left. \<^verbatim>\<open>tensor.scores[i]\<close>, \<^verbatim>\<open>tensor.bboxes[i]\<close> and
  \<^verbatim>\<open>tensor.classes[i]\<close> are unchecked reads.
\<close>

fun analyseLoop :: "'f float_ops \<Rightarrow> 'f ObjectDetectionSsdOutputTensor \<Rightarrow> 'f \<Rightarrow> Size \<Rightarrow> nat \<Rightarrow> nat
    \<Rightarrow> failure + 'f ObjectDetectionSsdData" where
  "analyseLoop F tensor threshold sz i 0 = Inr emptySsdData"
| "analyseLoop F tensor threshold sz i (Suc n) =
     (if i \<ge> length (scores tensor) then Inl (Fault OutOfBoundsRead)
      else if f_less F (scores tensor ! i) threshold then analyseLoop F tensor threshold sz (i + 1) n
      else if i \<ge> length (bboxes tensor) \<or> i \<ge> length (classes tensor)
      then Inl (Fault OutOfBoundsRead)
      else let b = bboxes tensor ! i;
               bbox = \<lparr> mXmin = f_to_u16 F (f_round F (f_mul F (xMin b) (f_of_int F (uint (width sz - 1))))),
                        mYmin = f_to_u16 F (f_round F (f_mul F (yMin b) (f_of_int F (uint (height sz - 1))))),
                        mXmax = f_to_u16 F (f_round F (f_mul F (xMax b) (f_of_int F (uint (width sz - 1))))),
                        mYmax = f_to_u16 F (f_round F (f_mul F (yMax b) (f_of_int F (uint (height sz - 1))))) \<rparr>
           in case analyseLoop F tensor threshold sz (i + 1) n of
                Inl f \<Rightarrow> Inl f
              | Inr data \<Rightarrow>
                  Inr (data\<lparr> vScores := scores tensor ! i # vScores data,
                             vBbox := bbox # vBbox data,
                             vClasses := f_to_u8 F (classes tensor ! i) # vClasses data \<rparr>))"

definition analyseObjectDetectionSsdOutput :: "'f float_ops \<Rightarrow> 'f ObjectDetectionSsdOutputTensor
    \<Rightarrow> u32 \<Rightarrow> 'f \<Rightarrow> Size \<Rightarrow> failure + 'f ObjectDetectionSsdData" where
  "analyseObjectDetectionSsdOutput F tensor maxDetections threshold sz =
     (case analyseLoop F tensor threshold sz 0 (unat (tensorNumDetections tensor)) of
        Inl f \<Rightarrow> Inl f
      | Inr data0 \<Rightarrow>
          let data1 = data0\<lparr>numDetections := word_of_nat (length (vClasses data0))\<rparr> in
          if numDetections data1 > maxDetections
          then Inr (data1\<lparr> numDetections := maxDetections,
                           vBbox := take (unat maxDetections) (vBbox data1),
                           vClasses := take (unat maxDetections) (vClasses data1),
                           vScores := take (unat maxDetections) (vScores data1) \<rparr>)
          else Inr data1)"

text \<open>
  \<^verbatim>\<open>processOutputTensor\<close> returns an empty record both when \<open>totalSize\<close> is not 61 and when
  \<^verbatim>\<open>createObjectDetectionSsdData\<close> returns an error.
\<close>

definition processOutputTensor :: "'f float_ops \<Rightarrow> 'f OutputTensorInfo \<Rightarrow> u32 \<Rightarrow> 'f \<Rightarrow> Size
    \<Rightarrow> failure + 'f ObjectDetectionSsdData" where
  "processOutputTensor F info maxDetections threshold sz =
     (if totalSize info \<noteq> PplDnnOutputTensorSize then Inr emptySsdData
      else case createObjectDetectionSsdData F (address info) PplTotalDetections of
             Inl (Error e) \<Rightarrow> Inr emptySsdData
           | Inl (Fault f) \<Rightarrow> Inl (Fault f)
           | Inr output \<Rightarrow> analyseObjectDetectionSsdOutput F output maxDetections threshold sz)"

subsection \<open>The stage\<close>

text \<open>
  Modelled from the spec: \<^verbatim>\<open>Detection\<close> is declared in \<^verbatim>\<open>object_detect.hpp\<close>, which is not
  among the sources. An entry carries the class id, the label, the score and the box as
  \<open>(x, y, width, height)\<close>.
\<close>

record 'f Detection =
  category :: int
  label :: string
  confidence :: 'f
  box_x :: int
  box_y :: int
  box_width :: int
  box_height :: int

text \<open>The configuration read by \<^verbatim>\<open>Read\<close> and \<^verbatim>\<open>Configure\<close>.\<close>

record 'f MobileNet =
  maxDetections :: u32
  threshold :: 'f
  classLabels :: "string list"
  streamSize :: Size

text \<open>The loop of \<^verbatim>\<open>Process\<close> that builds the detections; the assertion may fail.\<close>

fun detectionLoop :: "string list \<Rightarrow> 'f ObjectDetectionSsdData \<Rightarrow> nat \<Rightarrow> nat
    \<Rightarrow> failure + 'f Detection list" where
  "detectionLoop labels data i 0 = Inr []"
| "detectionLoop labels data i (Suc n) =
     (if i \<ge> length (vClasses data) \<or> i \<ge> length (vScores data) \<or> i \<ge> length (vBbox data)
      then Inl (Fault OutOfBoundsRead)
      else if unat (vClasses data ! i) \<ge> length labels then Inl (Fault AssertionFailure)
      else case detectionLoop labels data (i + 1) n of
             Inl f \<Rightarrow> Inl f
           | Inr ds \<Rightarrow>
               Inr (\<lparr> category = uint (vClasses data ! i),
                       label = labels ! unat (vClasses data ! i),
                       confidence = vScores data ! i,
                       box_x = uint (mXmin (vBbox data ! i)),
                       box_y = uint (mYmin (vBbox data ! i)),
                       box_width = uint (mXmax (vBbox data ! i)) - uint (mXmin (vBbox data ! i)),
                       box_height = uint (mYmax (vBbox data ! i)) - uint (mYmin (vBbox data ! i)) \<rparr>
                    # ds))"

definition bindF :: "failure + 'a \<Rightarrow> ('a \<Rightarrow> failure + 'b) \<Rightarrow> failure + 'b" where
  "bindF x f = (case x of Inl e \<Rightarrow> Inl e | Inr v \<Rightarrow> f v)"

definition ProcessStride :: u32 where
  "ProcessStride = 4064"

text \<open>
  The decode steps of \<^verbatim>\<open>Process\<close> up to \<^verbatim>\<open>processOutputTensor\<close>. A step that returns
  non-zero ends the decode with its error; \<open>OutputTensorBodyFailed\<close> stands for a non-zero
  sum of the task results.
\<close>

definition decode :: "'f float_ops \<Rightarrow> (u8 list \<Rightarrow> 'f FBApParams) \<Rightarrow> 'f MobileNet \<Rightarrow> u8 list
    \<Rightarrow> failure + 'f ObjectDetectionSsdData" where
  "decode F GetFBApParams this buf =
     bindF (parseHeader buf ProcessStride) (\<lambda>(hdr, apParams).
     bindF (parseApParams (GetFBApParams apParams) hdr) (\<lambda>outputApParams.
     bindF (populateOutputBodyInfo F outputApParams) (\<lambda>info.
     bindF (parseOutputTensorBody F hdr outputApParams info buf (unat ProcessStride) ProcessStride)
       (\<lambda>(ret, info').
          if ret \<noteq> 0 then Inl (Error OutputTensorBodyFailed)
          else processOutputTensor F info' (maxDetections this) (threshold this)
                 (streamSize this)))))"

text \<open>
  \<^verbatim>\<open>Process\<close>: the argument is the \<^verbatim>\<open>Imx500OutputTensor\<close> entry of the request's metadata, if
  there is one. The result is the returned boolean and the value set for
  \<^verbatim>\<open>"object_detect.results"\<close>, if it is set.
\<close>

definition Process :: "'f float_ops \<Rightarrow> (u8 list \<Rightarrow> 'f FBApParams) \<Rightarrow> 'f MobileNet \<Rightarrow> u8 list option
    \<Rightarrow> failure + bool \<times> 'f Detection list option" where
  "Process F GetFBApParams this output =
     (case output of
        None \<Rightarrow> Inr (False, None)
      | Some buf \<Rightarrow>
          (case decode F GetFBApParams this buf of
             Inl (Error e) \<Rightarrow> Inr (False, None)
           | Inl (Fault f) \<Rightarrow> Inl (Fault f)
           | Inr data \<Rightarrow>
               if numDetections data \<noteq> 0
               then (case detectionLoop (classLabels this) data 0 (unat (numDetections data)) of
                       Inl f \<Rightarrow> Inl f
                     | Inr detections \<Rightarrow> Inr (False, Some detections))
               else Inr (False, None)))"

subsection \<open>Quantities the properties are stated with\<close>

definition dimProduct :: "Dimensions list \<Rightarrow> nat" where
  "dimProduct dims = prod_list (map (\<lambda>d. unat (dimSize d)) dims)"

definition nonZeroDims :: "Dimensions list \<Rightarrow> bool" where
  "nonZeroDims dims = list_all (\<lambda>d. dimSize d \<noteq> 0) dims"

definition trueTotal :: "'f OutputTensorApParams list \<Rightarrow> nat" where
  "trueTotal aps = sum_list (map (\<lambda>ap. dimProduct (vecDim ap)) aps)"

definition allNonZeroDims :: "'f OutputTensorApParams list \<Rightarrow> bool" where
  "allNonZeroDims aps = list_all (\<lambda>ap. nonZeroDims (vecDim ap)) aps"


subsection \<open>Concrete inputs\<close>

text \<open>
  The float operations computed over the reals, without rounding: \<^verbatim>\<open>round\<close> goes to the
  nearest integer, halfway cases away from zero; a conversion to an unsigned integer
  truncates, and yields 0 out of the range of the target type. The concrete inputs below
  are evaluated with them. Their float values are integers and halves of small size, on
  which binary32 arithmetic computes the same results.
\<close>

definition round_away :: "real \<Rightarrow> real" where
  "round_away x = (if 0 \<le> x then of_int \<lfloor>x + 1 / 2\<rfloor> else of_int \<lceil>x - 1 / 2\<rceil>)"

definition realOps :: "real float_ops" where
  "realOps =
     \<lparr> f_zero = 0, f_of_int = of_int, f_mul = (\<lambda>x y. x * y), f_div = (\<lambda>x y. x / y),
       f_ceil = (\<lambda>x. of_int \<lceil>x\<rceil>), f_round = round_away, f_less = (\<lambda>x y. x < y),
       f_to_u8 = (\<lambda>x. if 0 \<le> x \<and> x < 256 then word_of_int \<lfloor>x\<rfloor> else 0),
       f_to_u16 = (\<lambda>x. if 0 \<le> x \<and> x < 65536 then word_of_int \<lfloor>x\<rfloor> else 0),
       f_to_u32 = (\<lambda>x. if 0 \<le> x \<and> x < 4294967296 then word_of_int \<lfloor>x\<rfloor> else 0) \<rparr>"

definition mkDim :: "u8 \<Rightarrow> u16 \<Rightarrow> u8 \<Rightarrow> Dimensions" where
  "mkDim ord sz ser = \<lparr> ordinal = ord, dimSize = sz, serializationIndex = ser, padding = 0 \<rparr>"

text \<open>An unsigned 8-bit tensor with shift 0 and scale 1 of the given dimensions.\<close>

definition mkTensor :: "Dimensions list \<Rightarrow> real OutputTensorApParams" where
  "mkTensor dims =
     \<lparr> tensorId = 0, name = ''t'', numDimensions = word_of_nat (length dims), bitsPerElement = 8,
       vecDim = dims, shift = 0, scale = 1, format = TYPE_UNSIGNED \<rparr>"

text \<open>A header of a valid frame with the given \<open>maxLineLen\<close>.\<close>

definition mkHeader :: "u16 \<Rightarrow> DnnHeader" where
  "mkHeader mll =
     \<lparr> frameValid = 1, frameCount = 0, maxLineLen = mll, apParamSize = 0, networkId = 0,
       tensorType = 0 \<rparr>"

text \<open>A tensor with one dimension of size 0, and one whose sizes multiply to \<open>65535 ^ 3\<close>.\<close>

definition zeroSizeTensor :: "real OutputTensorApParams" where
  "zeroSizeTensor = mkTensor [mkDim 0 0 0]"

definition hugeTensor :: "real OutputTensorApParams" where
  "hugeTensor = mkTensor [mkDim 0 65535 0, mkDim 1 65535 1, mkDim 2 65535 2]"

text \<open>A tensor of four dimensions, sizes \<open>[2, 1, 1, 2]\<close>, whose first two are stored swapped.\<close>

definition rank4Tensor :: "real OutputTensorApParams" where
  "rank4Tensor = mkTensor [mkDim 0 2 1, mkDim 1 1 0, mkDim 2 1 2, mkDim 3 2 3]"

text \<open>A tensor with a single element.\<close>

definition unitTensor :: "real OutputTensorApParams" where
  "unitTensor = mkTensor [mkDim 0 1 0]"

text \<open>
  An unsigned 16-bit tensor of \<open>256 * 256 = 65536\<close> elements with shift 0 and scale 1, stored
  in order; its plan for \<open>maxLineLen = 2\<close> and a given line count; and a buffer of 65536
  lines of stride 4064, all bytes 1.
\<close>

definition wideTensor16 :: "real OutputTensorApParams" where
  "wideTensor16 = (mkTensor [mkDim 0 256 0, mkDim 1 256 1])\<lparr>bitsPerElement := 16\<rparr>"

definition widePlan :: "u16 \<Rightarrow> TensorPlan" where
  "widePlan nl =
     \<lparr> numLines = nl, outSize = 131072, offset = 0, srcPos = 0,
       serializedDim = [\<lparr> ordinal = 0, dimSize = 256, serializationIndex = 0, padding = 0 \<rparr>,
                        \<lparr> ordinal = 0, dimSize = 256, serializationIndex = 1, padding = 0 \<rparr>],
       actualDim = [\<lparr> ordinal = 0, dimSize = 256, serializationIndex = 0, padding = 0 \<rparr>,
                    \<lparr> ordinal = 0, dimSize = 256, serializationIndex = 1, padding = 0 \<rparr>] \<rparr>"

definition wideBody :: "u8 list" where
  "wideBody = replicate 266338304 1"

text \<open>
  The tensor of the permutation property: ordinal sizes \<open>[2, 3]\<close>, serialization indices
  reversed, 8 bits per element; sign, shift and scale are arguments.
\<close>

definition transposeTensor :: "u8 \<Rightarrow> u16 \<Rightarrow> 'f \<Rightarrow> 'f OutputTensorApParams" where
  "transposeTensor fmt sh sc =
     \<lparr> tensorId = 0, name = ''t'', numDimensions = 2, bitsPerElement = 8,
       vecDim = [mkDim 0 2 1, mkDim 1 3 0], shift = sh, scale = sc, format = fmt \<rparr>"

text \<open>The schema table with one network, of id 0, holding the given output tensors.\<close>

definition tableOf :: "'f FBOutputTensor list \<Rightarrow> u8 list \<Rightarrow> 'f FBApParams" where
  "tableOf ts bytes = \<lparr> networks = [\<lparr> fbn_id = 0, fbn_type = ''ssd'', fbn_outputTensors = ts \<rparr>] \<rparr>"

definition fbTensor :: "FBDimension list \<Rightarrow> real FBOutputTensor" where
  "fbTensor dims =
     \<lparr> fbt_id = 0, fbt_name = ''t'', fbt_numOfDimensions = word_of_nat (length dims),
       fbt_dimensions = dims, fbt_bitsPerElement = 8, fbt_shift = 0, fbt_scale = 1,
       fbt_format = TYPE_UNSIGNED \<rparr>"

definition fbDim :: "u8 \<Rightarrow> u16 \<Rightarrow> u8 \<Rightarrow> FBDimension" where
  "fbDim i sz ser = \<lparr> fb_id = i, fb_size = sz, fb_serializationIndex = ser, fb_padding = 0 \<rparr>"

text \<open>The first twelve bytes of a valid frame with \<open>maxLineLen = 64\<close> and an empty schema.\<close>

definition headerBytes :: "u8 list" where
  "headerBytes = [1, 0, 64, 0, 0, 0, 0, 0, 0, 0, 0, 0]"

definition stageConfig :: "real MobileNet" where
  "stageConfig =
     \<lparr> maxDetections = 10, threshold = 3 / 10, classLabels = [''a'', ''b'', ''c''],
       streamSize = \<lparr> width = 101, height = 201 \<rparr> \<rparr>"

text \<open>
  Candidate \<open>i\<close> of a 61-element output array: its corners in pixels, as
  \<^verbatim>\<open>analyseObjectDetectionSsdOutput\<close> computes them from the four box fields.
\<close>

definition pixelBox :: "'f float_ops \<Rightarrow> Size \<Rightarrow> 'f list \<Rightarrow> nat \<Rightarrow> PplBbox" where
  "pixelBox F sz data i =
     \<lparr> mXmin = f_to_u16 F (f_round F (f_mul F (data ! (10 + i)) (f_of_int F (uint (width sz - 1))))),
       mYmin = f_to_u16 F (f_round F (f_mul F (data ! i) (f_of_int F (uint (height sz - 1))))),
       mXmax = f_to_u16 F (f_round F (f_mul F (data ! (30 + i)) (f_of_int F (uint (width sz - 1))))),
       mYmax = f_to_u16 F (f_round F (f_mul F (data ! (20 + i)) (f_of_int F (uint (height sz - 1))))) \<rparr>"

text \<open>
  The candidates that survive, by index: of the first \<open>min numDetections 10\<close> those for which
  the comparison \<open>score < threshold\<close> is false, the score being at position \<open>50 + i\<close>, cut
  to the first \<open>maxDetections\<close>.
\<close>

definition survivors :: "'f float_ops \<Rightarrow> 'f list \<Rightarrow> 'f \<Rightarrow> u32 \<Rightarrow> nat list" where
  "survivors F data thr maxDet =
     take (unat maxDet)
       (filter (\<lambda>i. \<not> f_less F (data ! (50 + i)) thr)
          [0..<min (unat (f_to_u32 F (data ! 60))) 10])"

text \<open>
  An output array of 61 values: ten boxes with all corners 1/2, the classes
  \<open>1, 0, 2, 0, \<dots>\<close>, the scores \<open>0.75, 0.125, 0.5, 0, \<dots>\<close> and a count of 3.
\<close>

definition exampleOutput :: "real list" where
  "exampleOutput =
     replicate 40 (1 / 2) @ [1, 0, 2, 0, 0, 0, 0, 0, 0, 0]
       @ [3 / 4, 1 / 8, 1 / 2, 0, 0, 0, 0, 0, 0, 0] @ [3]"







text \<open>
  The operations of \<open>realOps\<close> on the reals extended by one more value, \<open>None\<close>, that
  stands for NaN: an operation on a NaN yields a NaN, a comparison with a NaN is false, and
  the conversion of a NaN to an unsigned integer yields 0. \<open>nan_le\<close> is the comparison
  \<open>\<le>\<close> of two such values.
\<close>

definition nanOps :: "real option float_ops" where
  "nanOps =
     \<lparr> f_zero = Some 0, f_of_int = (\<lambda>i. Some (of_int i)),
       f_mul = (\<lambda>x y. case x of None \<Rightarrow> None
                       | Some a \<Rightarrow> (case y of None \<Rightarrow> None | Some b \<Rightarrow> Some (a * b))),
       f_div = (\<lambda>x y. case x of None \<Rightarrow> None
                       | Some a \<Rightarrow> (case y of None \<Rightarrow> None | Some b \<Rightarrow> Some (a / b))),
       f_ceil = (\<lambda>x. case x of None \<Rightarrow> None | Some a \<Rightarrow> Some (of_int \<lceil>a\<rceil>)),
       f_round = (\<lambda>x. case x of None \<Rightarrow> None | Some a \<Rightarrow> Some (round_away a)),
       f_less = (\<lambda>x y. case x of None \<Rightarrow> False
                        | Some a \<Rightarrow> (case y of None \<Rightarrow> False | Some b \<Rightarrow> a < b)),
       f_to_u8 = (\<lambda>x. case x of None \<Rightarrow> 0 | Some a \<Rightarrow> f_to_u8 realOps a),
       f_to_u16 = (\<lambda>x. case x of None \<Rightarrow> 0 | Some a \<Rightarrow> f_to_u16 realOps a),
       f_to_u32 = (\<lambda>x. case x of None \<Rightarrow> 0 | Some a \<Rightarrow> f_to_u32 realOps a) \<rparr>"

definition nan_le :: "real option \<Rightarrow> real option \<Rightarrow> bool" where
  "nan_le x y =
     (case x of None \<Rightarrow> False | Some a \<Rightarrow> (case y of None \<Rightarrow> False | Some b \<Rightarrow> a \<le> b))"

text \<open>
  An output array of 61 values with a count of 1, whose first candidate has the box corners
  1/2, the class 1 and a NaN for its score.
\<close>

definition nanOutput :: "real option list" where
  "nanOutput =
     replicate 40 (Some (1 / 2)) @ [Some 1] @ replicate 9 (Some 0) @ [None]
       @ replicate 9 (Some 0) @ [Some 1]"

text \<open>
  De-quantization as the specification words it: the raw value, signed or unsigned as the
  descriptor's format says, minus the shift, times the scale. The difference is an integer;
  its conversion to \<^verbatim>\<open>float\<close> and the product are float operations.
\<close>

definition dequantized8 :: "'f float_ops \<Rightarrow> 'f OutputTensorApParams \<Rightarrow> u8 \<Rightarrow> 'f" where
  "dequantized8 F param b =
     f_mul F
       (f_of_int F ((if format param = TYPE_SIGNED then sint b else uint b) - uint (shift param)))
       (scale param)"

text \<open>The value \<open>v\<close> of 16 bits read as a two's complement number.\<close>

definition signed16 :: "int \<Rightarrow> int" where
  "signed16 v = (if v < 32768 then v else v - 65536)"

text \<open>The same for a 16-bit element assembled low byte first, \<open>byte0 + 256 * byte1\<close>.\<close>

definition dequantized16 :: "'f float_ops \<Rightarrow> 'f OutputTensorApParams \<Rightarrow> u8 \<Rightarrow> u8 \<Rightarrow> 'f" where
  "dequantized16 F param byte0 byte1 =
     f_mul F
       (f_of_int F ((if format param = TYPE_SIGNED
                     then signed16 (uint byte0 + 256 * uint byte1)
                     else uint byte0 + 256 * uint byte1) - uint (shift param)))
       (scale param)"

text \<open>
  A signed 8-bit tensor of three elements with shift 1 and scale 1/2, its plan for
  \<open>maxLineLen = 2\<close>, and a buffer of two lines of stride 4 that holds its three bytes.
\<close>

definition signedTensor :: "real OutputTensorApParams" where
  "signedTensor =
     \<lparr> tensorId = 0, name = ''t'', numDimensions = 1, bitsPerElement = 8,
       vecDim = [mkDim 0 3 0], shift = 1, scale = 1 / 2, format = TYPE_SIGNED \<rparr>"

definition signedPlan :: TensorPlan where
  "signedPlan =
     \<lparr> numLines = 2, outSize = 3, offset = 0, srcPos = 0,
       serializedDim = [mkDim 0 3 0], actualDim = [mkDim 0 3 0] \<rparr>"

definition twoLines :: "u8 list" where
  "twoLines = [200, 1, 99, 99, 255, 99, 99, 99]"

text \<open>
  A signed 16-bit tensor of three elements with shift 1 and scale 1/2, its plan for
  \<open>maxLineLen = 4\<close>, and a buffer of two lines of stride 8 that holds its six bytes.
\<close>

definition signedTensor16 :: "real OutputTensorApParams" where
  "signedTensor16 =
     \<lparr> tensorId = 0, name = ''t'', numDimensions = 1, bitsPerElement = 16,
       vecDim = [mkDim 0 3 0], shift = 1, scale = 1 / 2, format = TYPE_SIGNED \<rparr>"

definition signedPlan16 :: TensorPlan where
  "signedPlan16 =
     \<lparr> numLines = 2, outSize = 6, offset = 0, srcPos = 0,
       serializedDim = [mkDim 0 3 0], actualDim = [mkDim 0 3 0] \<rparr>"

definition twoLines16 :: "u8 list" where
  "twoLines16 = [2, 1, 255, 255, 99, 99, 99, 99, 0, 128, 99, 99, 99, 99, 99, 99]"

text \<open>The plan of \<open>transposeTensor\<close> for \<open>maxLineLen = 4\<close>.\<close>

definition transposePlan :: TensorPlan where
  "transposePlan =
     \<lparr> numLines = 2, outSize = 6, offset = 0, srcPos = 0,
       serializedDim = [\<lparr> ordinal = 0, dimSize = 3, serializationIndex = 1, padding = 0 \<rparr>,
                        \<lparr> ordinal = 0, dimSize = 2, serializationIndex = 0, padding = 0 \<rparr>],
       actualDim = [\<lparr> ordinal = 0, dimSize = 2, serializationIndex = 1, padding = 0 \<rparr>,
                    \<lparr> ordinal = 0, dimSize = 3, serializationIndex = 0, padding = 0 \<rparr>] \<rparr>"


subsection \<open>Evaluating the loops on numerals\<close>

named_theorems unroll

lemma replicate_numeral_unroll [unroll]:
  "replicate (numeral k) x = x # replicate (pred_numeral k) x"
  by (simp add: numeral_eq_Suc)

lemma upt_numeral_unroll [unroll]:
  "[0..<numeral k] = [0..<pred_numeral k] @ [pred_numeral k]"
  by (simp add: numeral_eq_Suc)

lemma list_update_numeral_unroll [unroll]:
  "(x # xs)[numeral k := y] = x # xs[pred_numeral k := y]"
  by (simp add: numeral_eq_Suc)

lemma copyApParams_numeral [unroll]:
  "copyApParams buf stride src i (numeral k) = copyApParams buf stride src i (Suc (pred_numeral k))"
  by (simp add: numeral_eq_Suc)

lemma parseDimensions_numeral [unroll]:
  "parseDimensions fb j (numeral k) = parseDimensions fb j (Suc (pred_numeral k))"
  by (simp add: numeral_eq_Suc)

lemma dimensionLoop_numeral [unroll]:
  "dimensionLoop param idx (numeral k) st = dimensionLoop param idx (Suc (pred_numeral k)) st"
  by (simp add: numeral_eq_Suc)

lemma readLines8_numeral [unroll]:
  "readLines8 F buf param mll ots off stride (numeral k) src e tmpDst =
   readLines8 F buf param mll ots off stride (Suc (pred_numeral k)) src e tmpDst"
  by (simp add: numeral_eq_Suc)

lemma readLines16_numeral [unroll]:
  "readLines16 F buf param mll ots off stride (numeral k) src e tmpDst =
   readLines16 F buf param mll ots off stride (Suc (pred_numeral k)) src e tmpDst"
  by (simp add: numeral_eq_Suc)

lemma coefLoop_numeral [unroll]:
  "coefLoop actDim (numeral k) c = coefLoop actDim (Suc (pred_numeral k)) c"
  by (simp add: numeral_eq_Suc)

lemma prepLoop_numeral [unroll]:
  "prepLoop serDim actDim i (numeral k) st = prepLoop serDim actDim i (Suc (pred_numeral k)) st"
  by (simp add: numeral_eq_Suc)

lemma bboxLoop_numeral [unroll]:
  "bboxLoop data count td i (numeral k) = bboxLoop data count td i (Suc (pred_numeral k))"
  by (simp add: numeral_eq_Suc)

lemma valueLoop_numeral [unroll]:
  "valueLoop data count (numeral k) = valueLoop data count (Suc (pred_numeral k))"
  by (simp add: numeral_eq_Suc)

lemma analyseLoop_numeral [unroll]:
  "analyseLoop F tensor thr sz i (numeral k) = analyseLoop F tensor thr sz i (Suc (pred_numeral k))"
  by (simp add: numeral_eq_Suc)

lemma detectionLoop_numeral [unroll]:
  "detectionLoop labels data i (numeral k) = detectionLoop labels data i (Suc (pred_numeral k))"
  by (simp add: numeral_eq_Suc)


lemma copyApParams_contiguous:
  "stride \<noteq> 0 \<Longrightarrow> i \<le> stride \<Longrightarrow> src + i + n \<le> length buf \<Longrightarrow>
   copyApParams buf stride src i n = Inr (take n (drop (src + i) buf))"
proof (induction n arbitrary: src i)
  case 0
  then show ?case by simp
next
  case (Suc n)
  let ?wrap = "stride \<noteq> 0 \<and> i \<ge> stride"
  let ?i' = "if ?wrap then 0 else i"
  let ?src' = "if ?wrap then src + stride + MipiPhSize else src"
  have pos: "?src' + ?i' = src + i"
    using Suc.prems by (auto simp: MipiPhSize_def)
  have le: "?i' + 1 \<le> stride"
    using Suc.prems by auto
  have "copyApParams buf stride ?src' (?i' + 1) n = Inr (take n (drop (?src' + (?i' + 1)) buf))"
    using Suc.prems pos by (intro Suc.IH le) auto
  then have rec: "copyApParams buf stride ?src' (?i' + 1) n = Inr (take n (drop (Suc (src + i)) buf))"
    using pos by (simp add: add.assoc [symmetric])
  have inb: "src + i < length buf"
    using Suc.prems by simp
  have "take (Suc n) (drop (src + i) buf) = buf ! (src + i) # take n (drop (Suc (src + i)) buf)"
    using inb by (simp add: take_Suc_conv_app_nth Cons_nth_drop_Suc [symmetric])
  then show ?case
    using rec pos inb by (simp add: Let_def del: One_nat_def)
qed

lemma parseHeader_contiguous:
  assumes "12 \<le> unat stride"
    and "frameValid (readDnnHeader buf) \<noteq> 0"
    and "12 + unat (apParamSize (readDnnHeader buf)) \<le> length buf"
  shows "parseHeader buf stride =
           Inr (readDnnHeader buf, take (unat (apParamSize (readDnnHeader buf))) (drop 12 buf))"
proof -
  have "copyApParams buf (unat stride) 0 12 (unat (apParamSize (readDnnHeader buf))) =
          Inr (take (unat (apParamSize (readDnnHeader buf))) (drop (0 + 12) buf))"
    using assms by (intro copyApParams_contiguous) auto
  then show ?thesis
    using assms by (simp add: parseHeader_def DnnHeaderSize_def Let_def)
qed

lemma line_offset_identity: "(k div s) * s + k mod s = (k::nat)"
  by simp

text \<open>
  C3. For a stride greater than 12, a valid frame and a buffer that holds the header and
  the \<open>N = apParamSize\<close> schema bytes, \<^verbatim>\<open>parseHeader\<close> succeeds and byte \<open>j\<close> of the
  recovered schema is the raw byte at line \<open>(12 + j) div stride\<close>, offset
  \<open>(12 + j) mod stride\<close>. The schema is therefore the \<open>N\<close> bytes that start at buffer
  offset 12 (in particular when \<open>N < stride - 12\<close>), and the first byte taken from each
  later line \<open>L\<close> is the byte at offset 0 of that line, \<open>buf ! (L * stride)\<close>.
\<close>

theorem parseHeader_destripe:
  assumes "12 < unat stride"
    and "frameValid (readDnnHeader buf) \<noteq> 0"
    and "12 + unat (apParamSize (readDnnHeader buf)) \<le> length buf"
  shows "\<exists>schema. parseHeader buf stride = Inr (readDnnHeader buf, schema)
           \<and> length schema = unat (apParamSize (readDnnHeader buf))
           \<and> (\<forall>j < unat (apParamSize (readDnnHeader buf)).
                 schema ! j = buf ! (((12 + j) div unat stride) * unat stride + (12 + j) mod unat stride))
           \<and> schema = take (unat (apParamSize (readDnnHeader buf))) (drop 12 buf)
           \<and> (\<forall>L. 1 \<le> L \<and> L * unat stride < 12 + unat (apParamSize (readDnnHeader buf))
                 \<longrightarrow> schema ! (L * unat stride - 12) = buf ! (L * unat stride + 0))"
proof -
  let ?N = "unat (apParamSize (readDnnHeader buf))"
  let ?schema = "take ?N (drop 12 buf)"
  have ph: "parseHeader buf stride = Inr (readDnnHeader buf, ?schema)"
    using assms by (intro parseHeader_contiguous) auto
  have len: "length ?schema = ?N"
    using assms(3) by simp
  have nth: "?schema ! j = buf ! (12 + j)" if "j < ?N" for j
    using that assms(3) by simp
  have wrap: "?schema ! (L * unat stride - 12) = buf ! (L * unat stride + 0)"
    if "1 \<le> L \<and> L * unat stride < 12 + ?N" for L
  proof -
    have "unat stride \<le> L * unat stride"
      using that by (cases L) auto
    then have ge: "12 \<le> L * unat stride"
      using assms(1) by linarith
    then have "L * unat stride - 12 < ?N"
      using that by linarith
    then have "?schema ! (L * unat stride - 12) = buf ! (12 + (L * unat stride - 12))"
      by (rule nth)
    then show ?thesis
      using ge by simp
  qed
  show ?thesis
    using ph len nth wrap by (intro exI [of _ ?schema]) (simp add: line_offset_identity)
qed

theorem parseHeader_destripe_witness:
  "12 < unat (16 :: u32)
   \<and> parseHeader [1, 0, 0, 0, 6, 0, 0, 0, 0, 0, 0, 0, 10, 11, 12, 13, 14, 15, 16, 17] 16 =
       Inr (\<lparr> frameValid = 1, frameCount = 0, maxLineLen = 0, apParamSize = 6, networkId = 0,
              tensorType = 0 \<rparr>, [10, 11, 12, 13, 14, 15])"
  using parseHeader_destripe [of 16 "[1, 0, 0, 0, 6, 0, 0, 0, 0, 0, 0, 0, 10, 11, 12, 13, 14, 15, 16, 17]"]
  by (auto simp: readDnnHeader_def le16_def)

subsection \<open>Layout planner: overflow checks\<close>

lemma unat_ucast_16_32: "unat (ucast (x :: u16) :: u32) = unat x"
proof -
  have "unat x < 2 ^ 16"
    using unsigned_less [of x] by simp
  then have "unat x < 2 ^ 32"
    by simp
  then show ?thesis
    by (simp add: unsigned_ucast_eq take_bit_nat_eq_self)
qed

lemma UINT32_MAX_unat: "unat UINT32_MAX = 4294967295"
  by (simp add: UINT32_MAX_def)

lemma nat_lt_div_mult: "0 < s \<Longrightarrow> (a::nat) < m div s \<Longrightarrow> a * s < m"
  by (metis div_mult_self_is_m less_mult_imp_div_less nat_neq_iff order.asym)

lemma dim_step_no_wrap:
  assumes "dimSize d \<noteq> 0" and "\<not> (acc \<ge> UINT32_MAX div ucast (dimSize d))"
  shows "unat acc * unat (dimSize d) < 4294967295"
    and "unat (acc * ucast (dimSize d) :: u32) = unat acc * unat (dimSize d)"
proof -
  let ?s = "unat (dimSize d)"
  have spos: "0 < ?s" using assms(1) by (simp add: unat_gt_0)
  have "unat acc < unat (UINT32_MAX div ucast (dimSize d))"
    using assms(2) by (simp add: word_le_nat_alt not_le)
  then have lt: "unat acc < 4294967295 div ?s"
    by (simp add: unat_div UINT32_MAX_unat unat_ucast_16_32)
  show small: "unat acc * ?s < 4294967295"
    using spos lt by (rule nat_lt_div_mult)
  have "unat acc * unat (ucast (dimSize d) :: u32) < 2 ^ LENGTH(32)"
    using small by (simp add: unat_ucast_16_32)
  then have "unat (acc * ucast (dimSize d) :: u32) = unat acc * unat (ucast (dimSize d) :: u32)"
    by (simp only: unat_mult_lem)
  then show "unat (acc * ucast (dimSize d) :: u32) = unat acc * unat (dimSize d)"
    by (simp add: unat_ucast_16_32)
qed

text \<open>
  With no dimension of size 0, a count that the inner loop returns is the true product
  of the sizes, and a true product above \<open>UINT32_MAX\<close> ends the loop with an error.
\<close>

lemma totalDimensionSizeLoop_exact:
  "nonZeroDims dims \<Longrightarrow> totalDimensionSizeLoop dims acc = Inr t \<Longrightarrow>
   unat t = unat acc * dimProduct dims"
proof (induction dims arbitrary: acc)
  case Nil
  then show ?case by (simp add: dimProduct_def)
next
  case (Cons d dims)
  from Cons.prems have nz: "dimSize d \<noteq> 0" and nzs: "nonZeroDims dims"
    by (simp_all add: nonZeroDims_def)
  from Cons.prems nz have ok: "\<not> (acc \<ge> UINT32_MAX div ucast (dimSize d))"
    and rec: "totalDimensionSizeLoop dims (acc * ucast (dimSize d)) = Inr t"
    by (auto split: if_splits)
  have "unat t = unat (acc * ucast (dimSize d) :: u32) * dimProduct dims"
    using nzs rec by (rule Cons.IH)
  then show ?case
    using dim_step_no_wrap(2) [OF nz ok] by (simp add: dimProduct_def mult.assoc)
qed

lemma totalDimensionSizeLoop_overflow:
  "nonZeroDims dims \<Longrightarrow> 4294967295 < unat acc * dimProduct dims \<Longrightarrow>
   totalDimensionSizeLoop dims acc = Inl (Error InvalidTotalDimensionSize)"
proof (induction dims arbitrary: acc)
  case Nil
  have "unat acc < 4294967296"
    using unsigned_less [of acc] by simp
  with Nil show ?case
    by (simp add: dimProduct_def)
next
  case (Cons d dims)
  from Cons.prems have nz: "dimSize d \<noteq> 0" and nzs: "nonZeroDims dims"
    by (simp_all add: nonZeroDims_def)
  show ?case
  proof (cases "acc \<ge> UINT32_MAX div ucast (dimSize d)")
    case True
    then show ?thesis using nz by simp
  next
    case False
    have "4294967295 < unat (acc * ucast (dimSize d) :: u32) * dimProduct dims"
      using Cons.prems(2) dim_step_no_wrap(2) [OF nz False]
      by (simp add: dimProduct_def mult.assoc)
    then have "totalDimensionSizeLoop dims (acc * ucast (dimSize d)) =
                 Inl (Error InvalidTotalDimensionSize)"
      using nzs by (intro Cons.IH)
    then show ?thesis using nz False by simp
  qed
qed

lemma totalDimensionSizeLoop_failure:
  "nonZeroDims dims \<Longrightarrow> totalDimensionSizeLoop dims acc = Inl f \<Longrightarrow>
   f = Error InvalidTotalDimensionSize"
  by (induction dims arbitrary: acc) (auto simp: nonZeroDims_def split: if_splits)

lemma out_step_no_wrap:
  assumes "\<not> (acc \<ge> UINT32_MAX - (t :: u32))"
  shows "unat (acc + t) = unat acc + unat t" and "unat acc + unat t < 4294967295"
proof -
  have "unat t < 4294967296"
    using unsigned_less [of t] by simp
  then have "t \<le> UINT32_MAX"
    by (simp add: UINT32_MAX_def word_le_nat_alt)
  then have "unat (UINT32_MAX - t) = 4294967295 - unat t"
    by (simp add: unat_sub UINT32_MAX_unat)
  then have "unat acc < 4294967295 - unat t"
    using assms by (simp add: word_le_nat_alt not_le)
  then show small: "unat acc + unat t < 4294967295"
    by linarith
  then have "unat acc + unat t < 2 ^ LENGTH(32)"
    by simp
  then show "unat (acc + t) = unat acc + unat t"
    by (simp only: unat_add_lem)
qed

lemma totalOutSizeLoop_exact:
  "allNonZeroDims aps \<Longrightarrow> totalOutSizeLoop aps acc = Inr t \<Longrightarrow>
   unat t = unat acc + trueTotal aps"
proof (induction aps arbitrary: acc)
  case Nil
  then show ?case by (simp add: trueTotal_def)
next
  case (Cons ap aps)
  from Cons.prems(1) have nz: "nonZeroDims (vecDim ap)" and nzs: "allNonZeroDims aps"
    by (simp_all add: allNonZeroDims_def)
  from Cons.prems(2) obtain c where
    c: "totalDimensionSizeLoop (vecDim ap) 1 = Inr c"
    and ok: "\<not> (acc \<ge> UINT32_MAX - c)"
    and rec: "totalOutSizeLoop aps (acc + c) = Inr t"
    by (auto split: sum.splits if_splits)
  have "unat c = dimProduct (vecDim ap)"
    using totalDimensionSizeLoop_exact [OF nz c] by simp
  moreover have "unat t = unat (acc + c) + trueTotal aps"
    using nzs rec by (rule Cons.IH)
  ultimately show ?case
    using out_step_no_wrap(1) [OF ok] by (simp add: trueTotal_def)
qed

lemma totalOutSizeLoop_overflow:
  "allNonZeroDims aps \<Longrightarrow> 4294967295 < unat acc + trueTotal aps \<Longrightarrow>
   totalOutSizeLoop aps acc = Inl (Error InvalidTotalDimensionSize)
   \<or> totalOutSizeLoop aps acc = Inl (Error InvalidTotalOutSize)"
proof (induction aps arbitrary: acc)
  case Nil
  have "unat acc < 4294967296"
    using unsigned_less [of acc] by simp
  with Nil show ?case
    by (simp add: trueTotal_def)
next
  case (Cons ap aps)
  from Cons.prems(1) have nz: "nonZeroDims (vecDim ap)" and nzs: "allNonZeroDims aps"
    by (simp_all add: allNonZeroDims_def)
  show ?case
  proof (cases "totalDimensionSizeLoop (vecDim ap) 1")
    case (Inl f)
    then have "f = Error InvalidTotalDimensionSize"
      using nz by (intro totalDimensionSizeLoop_failure)
    with Inl show ?thesis by simp
  next
    case (Inr c)
    have cval: "unat c = dimProduct (vecDim ap)"
      using totalDimensionSizeLoop_exact [OF nz Inr] by simp
    show ?thesis
    proof (cases "acc \<ge> UINT32_MAX - c")
      case True
      with Inr show ?thesis by simp
    next
      case False
      have "4294967295 < unat (acc + c) + trueTotal aps"
        using Cons.prems(2) cval out_step_no_wrap(1) [OF False] by (simp add: trueTotal_def)
      then have "totalOutSizeLoop aps (acc + c) = Inl (Error InvalidTotalDimensionSize)
        \<or> totalOutSizeLoop aps (acc + c) = Inl (Error InvalidTotalOutSize)"
        using nzs by (intro Cons.IH)
      then show ?thesis using Inr False by auto
    qed
  qed
qed

text \<open>
  The layout planner on descriptors without a dimension of size 0: a plan it returns
  holds the true total, and a true total above \<open>UINT32_MAX\<close> (in particular a true
  product above it) is refused by one of the two overflow checks.
\<close>

lemma populateOutputBodyInfo_exact:
  assumes "allNonZeroDims aps" and "populateOutputBodyInfo F aps = Inr info"
  shows "totalSize info = trueTotal aps" and "length (address info) = trueTotal aps"
proof -
  from assms(2) obtain t where t: "totalOutSizeLoop aps 0 = Inr t"
    and info: "totalSize info = unat t" "length (address info) = unat t"
    by (auto simp: populateOutputBodyInfo_def Let_def split: sum.splits if_splits)
  have "unat t = trueTotal aps"
    using totalOutSizeLoop_exact [OF assms(1) t] by simp
  with info show "totalSize info = trueTotal aps" and "length (address info) = trueTotal aps"
    by simp_all
qed

lemma populateOutputBodyInfo_overflow:
  assumes "allNonZeroDims aps" and "4294967295 < trueTotal aps"
  shows "populateOutputBodyInfo F aps = Inl (Error InvalidTotalDimensionSize)
     \<or> populateOutputBodyInfo F aps = Inl (Error InvalidTotalOutSize)"
  using totalOutSizeLoop_overflow [OF assms(1), of 0] assms(2)
  by (auto simp: populateOutputBodyInfo_def)


subsection \<open>The decoder on concrete descriptors\<close>

lemma numLinesOf_word:
  assumes "mll \<noteq> 0" and "- (- uint t div uint mll) < 65536"
  shows "numLinesOf realOps t mll = word_of_int (- (- uint t div uint mll))"
proof -
  let ?n = "- (- uint t div uint mll)"
  have ceil: "\<lceil>(of_int (uint t) :: real) / of_int (uint mll)\<rceil> = ?n"
    by (simp only: ceiling_divide_eq_div)
  have "0 < uint mll"
    using assms(1) by (metis unsigned_0 word_less_iff_unsigned unat_gt_0)
  moreover have "0 \<le> uint t"
    by simp
  ultimately have "- uint t div uint mll \<le> 0"
    by (metis div_0 div_minus_right linorder_le_cases neg_imp_zdiv_nonneg_iff
        neg_less_0_iff_less verit_la_disequality)
  then have n0: "0 \<le> ?n"
    by simp
  have "numLinesOf realOps t mll =
      (if 0 \<le> (of_int ?n :: real) \<and> (of_int ?n :: real) < 65536
       then word_of_int \<lfloor>(of_int ?n :: real)\<rfloor> else 0)"
    unfolding numLinesOf_def realOps_def by (simp only: float_ops.simps ceil)
  also have "\<dots> = word_of_int ?n"
    using n0 assms(2) by simp
  finally show ?thesis .
qed

lemma realOps_simps:
  "f_zero realOps = 0"
  "f_of_int realOps i = of_int i"
  "f_mul realOps x y = x * y"
  "f_div realOps x y = x / y"
  "f_ceil realOps x = of_int \<lceil>x\<rceil>"
  "f_round realOps x = round_away x"
  "f_less realOps x y = (x < y)"
  "f_to_u8 realOps x = (if 0 \<le> x \<and> x < 256 then word_of_int \<lfloor>x\<rfloor> else 0)"
  "f_to_u16 realOps x = (if 0 \<le> x \<and> x < 65536 then word_of_int \<lfloor>x\<rfloor> else 0)"
  "f_to_u32 realOps x = (if 0 \<le> x \<and> x < 4294967296 then word_of_int \<lfloor>x\<rfloor> else 0)"
  by (simp_all add: realOps_def)

lemmas example_defs =
  realOps_simps mkDim_def mkTensor_def mkHeader_def zeroSizeTensor_def hugeTensor_def
  rank4Tensor_def unitTensor_def transposeTensor_def tableOf_def fbTensor_def fbDim_def
  headerBytes_def stageConfig_def TYPE_UNSIGNED_def TYPE_SIGNED_def

lemmas planner_defs =
  populateOutputBodyInfo_def UINT32_MAX_def Let_def word_le_nat_alt word_less_nat_alt

lemmas body_defs =
  parseOutputTensorBody_def numLinesOf_word zeroDimensions_def UINT32_MAX_def
  word_le_nat_alt word_less_nat_alt
  Let_def sortIdxs_def sortStep_def tensorTask_def sortingRequired_def getVal8_uint8_def
  getVal8_int8_def at32_def DimensionMax_def dstIndexes_def memcpyFloats_def

lemma populate_zeroSize:
  "populateOutputBodyInfo realOps [zeroSizeTensor] = Inl (Fault DivisionByZero)"
  by (simp add: example_defs planner_defs)

lemma populate_zero_then_huge:
  "populateOutputBodyInfo realOps [zeroSizeTensor, hugeTensor] = Inl (Fault DivisionByZero)"
  by (simp add: example_defs planner_defs)

lemma populate_huge:
  "populateOutputBodyInfo realOps [hugeTensor] = Inl (Error InvalidTotalDimensionSize)"
  by (simp add: example_defs planner_defs)

lemma populate_unit:
  "populateOutputBodyInfo realOps [unitTensor] =
     Inr \<lparr> address = [0], totalSize = 1, tensorNum = 1, tensorDataNum = [0] \<rparr>"
  by (simp add: example_defs planner_defs)

lemma populate_rank4:
  "populateOutputBodyInfo realOps [rank4Tensor] =
     Inr \<lparr> address = [0, 0, 0, 0], totalSize = 4, tensorNum = 1, tensorDataNum = [0] \<rparr>"
  by (simp add: example_defs planner_defs unroll del: Suc_numeral)

lemma body_unit:
  "parseOutputTensorBody realOps (mkHeader 64) [unitTensor]
     \<lparr> address = [0], totalSize = 1, tensorNum = 1, tensorDataNum = [0] \<rparr> [42] 0 64 =
   Inr (0, \<lparr> address = [42], totalSize = 1, tensorNum = 1, tensorDataNum = [1] \<rparr>)"
  by (simp add: example_defs body_defs unroll del: Suc_numeral)

lemma body_rank4:
  "parseOutputTensorBody realOps (mkHeader 64) [rank4Tensor]
     \<lparr> address = [0, 0, 0, 0], totalSize = 4, tensorNum = 1, tensorDataNum = [0] \<rparr>
     [10, 11, 12, 13] 0 64 =
   Inr (0, \<lparr> address = [10, 11, 0, 0], totalSize = 4, tensorNum = 1, tensorDataNum = [4] \<rparr>)"
  by (simp add: example_defs body_defs unroll del: Suc_numeral)


lemmas header_defs =
  parseHeader_def readDnnHeader_def le16_def DnnHeaderSize_def MipiPhSize_def ProcessStride_def

lemmas schema_defs =
  parseApParams_def

lemma parseHeader_headerBytes:
  "parseHeader (headerBytes @ rest) ProcessStride = Inr (mkHeader 64, [])"
  by (simp add: example_defs header_defs)

lemma parseHeader_short:
  "parseHeader (take 9 headerBytes) ProcessStride = Inl (Fault OutOfBoundsRead)"
  by (simp add: example_defs header_defs)

lemma parseApParams_table:
  "parseApParams (tableOf [fbTensor [fbDim 0 sz 0]] bytes) (mkHeader 64) = Inr [mkTensor [mkDim 0 sz 0]]"
  by (simp add: example_defs schema_defs unroll del: Suc_numeral)

lemma decode_zeroSize:
  "decode realOps (tableOf [fbTensor [fbDim 0 0 0]]) stageConfig headerBytes =
     Inl (Fault DivisionByZero)"
  using parseHeader_headerBytes [of "[]"] parseApParams_table [of 0 "[]"] populate_zeroSize
  by (simp add: decode_def bindF_def zeroSizeTensor_def)

lemma decode_short_header:
  "decode realOps (tableOf [fbTensor [fbDim 0 1 0]]) stageConfig (take 9 headerBytes) =
     Inl (Fault OutOfBoundsRead)"
  using parseHeader_short by (simp add: decode_def bindF_def)

lemma body_unit_short:
  "parseOutputTensorBody realOps (mkHeader 64) [unitTensor]
     \<lparr> address = [0], totalSize = 1, tensorNum = 1, tensorDataNum = [0] \<rparr> headerBytes 4064 4064 =
   Inl (Fault OutOfBoundsRead)"
  by (simp add: example_defs body_defs unroll del: Suc_numeral)

lemma decode_short_body:
  "decode realOps (tableOf [fbTensor [fbDim 0 1 0]]) stageConfig headerBytes =
     Inl (Fault OutOfBoundsRead)"
  using parseHeader_headerBytes [of "[]"] parseApParams_table [of 1 "[]"] populate_unit body_unit_short
  by (simp add: decode_def bindF_def unitTensor_def ProcessStride_def)

lemma body_unit_at_stride:
  "parseOutputTensorBody realOps (mkHeader 64) [unitTensor]
     \<lparr> address = [0], totalSize = 1, tensorNum = 1, tensorDataNum = [0] \<rparr>
     (headerBytes @ replicate 4052 0 @ [42]) 4064 4064 =
   Inr (0, \<lparr> address = [42], totalSize = 1, tensorNum = 1, tensorDataNum = [1] \<rparr>)"
  by (simp add: example_defs body_defs nth_append unroll del: Suc_numeral replicate_numeral_unroll)

lemma decode_unit:
  "decode realOps (tableOf [fbTensor [fbDim 0 1 0]]) stageConfig
     (headerBytes @ replicate 4052 0 @ [42]) = Inr emptySsdData"
  using parseHeader_headerBytes [of "replicate 4052 0 @ [42]"] parseApParams_table [of 1 "[]"]
    populate_unit body_unit_at_stride
  by (simp add: decode_def bindF_def unitTensor_def ProcessStride_def processOutputTensor_def
      PplDnnOutputTensorSize_def)


section \<open>Properties\<close>

subsection \<open>Topology gate\<close>

lemma parseOutputTensorBody_totalSize:
  "parseOutputTensorBody F hdr aps info buf src stride = Inr (ret, info') \<Longrightarrow>
   totalSize info' = totalSize info"
  by (auto simp: parseOutputTensorBody_def Let_def split: if_splits sum.splits prod.splits)

lemma processOutputTensor_gate:
  "totalSize info \<noteq> PplDnnOutputTensorSize \<Longrightarrow>
   processOutputTensor F info md thr sz = Inr emptySsdData"
  by (simp add: processOutputTensor_def)

lemma decode_gate:
  assumes "parseHeader buf ProcessStride = Inr (hdr, apParams)"
    and "parseApParams (G apParams) hdr = Inr aps"
    and "populateOutputBodyInfo F aps = Inr info"
    and "totalSize info \<noteq> PplDnnOutputTensorSize"
  shows "(case decode F G this buf of Inl f \<Rightarrow> True | Inr data \<Rightarrow> data = emptySsdData)"
proof (cases "parseOutputTensorBody F hdr aps info buf (unat ProcessStride) ProcessStride")
  case (Inl f)
  then show ?thesis
    using assms by (simp add: decode_def bindF_def)
next
  case (Inr r)
  obtain ret info' where r: "r = (ret, info')"
    by (cases r)
  have "totalSize info' \<noteq> PplDnnOutputTensorSize"
    using parseOutputTensorBody_totalSize [of F hdr aps info buf _ _ ret info'] Inr r assms(4)
    by simp
  then have "processOutputTensor F info' (maxDetections this) (threshold this) (streamSize this) =
      Inr emptySsdData"
    by (rule processOutputTensor_gate)
  then show ?thesis
    using assms Inr r by (simp add: decode_def bindF_def)
qed

text \<open>
  C1, counterexample. For a schema with one tensor of a single element the planned total
  is 1, not 61. The layout planner returns a plan all the same, and the tensor body is
  decoded: the raw byte 42 arrives in the output array.
\<close>

theorem topology_gate_counterexample:
  "populateOutputBodyInfo realOps [unitTensor] =
     Inr \<lparr> address = [0], totalSize = 1, tensorNum = 1, tensorDataNum = [0] \<rparr>
   \<and> parseOutputTensorBody realOps (mkHeader 64) [unitTensor]
       \<lparr> address = [0], totalSize = 1, tensorNum = 1, tensorDataNum = [0] \<rparr>
       (headerBytes @ replicate 4052 0 @ [42]) 4064 4064 =
     Inr (0, \<lparr> address = [42], totalSize = 1, tensorNum = 1, tensorDataNum = [1] \<rparr>)
   \<and> decode realOps (tableOf [fbTensor [fbDim 0 1 0]]) stageConfig
       (headerBytes @ replicate 4052 0 @ [42]) = Inr emptySsdData"
  using populate_unit body_unit_at_stride decode_unit by simp

text \<open>
  C1, amended. When the layout planner returns a plan whose total is not 61, a decode that
  returns has no detections and \<open>Process\<close> returns \<open>false\<close> without setting the metadata
  entry. The total is compared with 61 by \<^verbatim>\<open>processOutputTensor\<close>, after the tensor bodies
  have been decoded, and the result is an empty detection record, not an error code.
\<close>

theorem topology_gate:
  assumes "parseHeader buf ProcessStride = Inr (hdr, apParams)"
    and "parseApParams (G apParams) hdr = Inr aps"
    and "populateOutputBodyInfo F aps = Inr info"
    and "totalSize info \<noteq> PplDnnOutputTensorSize"
  shows "(case decode F G this buf of Inl f \<Rightarrow> True | Inr data \<Rightarrow> data = emptySsdData)
    \<and> (case Process F G this (Some buf) of
         Inl f \<Rightarrow> (case f of Fault x \<Rightarrow> True | Error e \<Rightarrow> False)
       | Inr (r, m) \<Rightarrow> r = False \<and> m = None)"
proof -
  have d: "(case decode F G this buf of Inl f \<Rightarrow> True | Inr data \<Rightarrow> data = emptySsdData)"
    using assms by (rule decode_gate)
  then have "(case Process F G this (Some buf) of
         Inl f \<Rightarrow> (case f of Fault x \<Rightarrow> True | Error e \<Rightarrow> False)
       | Inr (r, m) \<Rightarrow> r = False \<and> m = None)"
    by (auto simp: Process_def emptySsdData_def split: sum.splits failure.splits)
  with d show ?thesis by simp
qed

theorem topology_gate_witness:
  "parseHeader (headerBytes @ replicate 4052 0 @ [42]) ProcessStride = Inr (mkHeader 64, [])
   \<and> parseApParams (tableOf [fbTensor [fbDim 0 1 0]] []) (mkHeader 64) = Inr [unitTensor]
   \<and> populateOutputBodyInfo realOps [unitTensor] =
       Inr \<lparr> address = [0], totalSize = 1, tensorNum = 1, tensorDataNum = [0] \<rparr>
   \<and> totalSize \<lparr> address = [0], totalSize = 1, tensorNum = 1, tensorDataNum = [0::u32] \<rparr>
       \<noteq> PplDnnOutputTensorSize
   \<and> Process realOps (tableOf [fbTensor [fbDim 0 1 0]]) stageConfig
       (Some (headerBytes @ replicate 4052 0 @ [42])) = Inr (False, None)"
proof -
  have h1: "parseHeader (headerBytes @ replicate 4052 0 @ [42]) ProcessStride = Inr (mkHeader 64, [])"
    by (rule parseHeader_headerBytes)
  have h2: "parseApParams (tableOf [fbTensor [fbDim 0 1 0]] []) (mkHeader 64) = Inr [unitTensor]"
    using parseApParams_table [of 1 "[]"] by (simp add: unitTensor_def)
  have h3: "populateOutputBodyInfo realOps [unitTensor] =
       Inr \<lparr> address = [0], totalSize = 1, tensorNum = 1, tensorDataNum = [0] \<rparr>"
    by (rule populate_unit)
  have h4: "totalSize \<lparr> address = [0], totalSize = 1, tensorNum = 1, tensorDataNum = [0::u32] \<rparr>
       \<noteq> PplDnnOutputTensorSize"
    by (simp add: PplDnnOutputTensorSize_def)
  have "Process realOps (tableOf [fbTensor [fbDim 0 1 0]]) stageConfig
       (Some (headerBytes @ replicate 4052 0 @ [42])) = Inr (False, None)"
    using topology_gate [where G = "tableOf [fbTensor [fbDim 0 1 0]]" and F = realOps
        and this = stageConfig, OF h1 h2 h3 h4] decode_unit
    by (simp add: Process_def emptySsdData_def)
  with h1 h2 h3 h4 show ?thesis by simp
qed

subsection \<open>Malformed input\<close>

text \<open>
  C2. Three malformed inputs on which \<open>Process\<close> does not end with an error result. A
  schema with a dimension of size 0 makes the layout planner divide by zero in
  \<^verbatim>\<open>UINT32_MAX / dim.size\<close>; a buffer of 9 bytes is read past its end by the copy of the
  header; a buffer that ends before the tensor body is read past its end by the body
  decoder.
\<close>

theorem malformed_input_faults:
  "Process realOps (tableOf [fbTensor [fbDim 0 0 0]]) stageConfig (Some headerBytes) =
     Inl (Fault DivisionByZero)
   \<and> Process realOps (tableOf [fbTensor [fbDim 0 1 0]]) stageConfig (Some (take 9 headerBytes)) =
     Inl (Fault OutOfBoundsRead)
   \<and> Process realOps (tableOf [fbTensor [fbDim 0 1 0]]) stageConfig (Some headerBytes) =
     Inl (Fault OutOfBoundsRead)"
  using decode_zeroSize decode_short_header decode_short_body
  by (simp add: Process_def)

subsection \<open>Overflow safety\<close>

text \<open>
  C6. The sizes of \<open>hugeTensor\<close> multiply to more than \<open>UINT32_MAX\<close>, and alone it is
  refused with the overflow error. Behind a tensor with a dimension of size 0 the planner
  never reaches it: it divides by zero first. (On descriptors without a dimension of size 0
  the two overflow checks are exact, see \<open>populateOutputBodyInfo_overflow\<close> and
  \<open>populateOutputBodyInfo_exact\<close>.)
\<close>

theorem overflow_behind_zero_size:
  "4294967295 < dimProduct (vecDim hugeTensor)
   \<and> populateOutputBodyInfo realOps [hugeTensor] = Inl (Error InvalidTotalDimensionSize)
   \<and> populateOutputBodyInfo realOps [zeroSizeTensor, hugeTensor] = Inl (Fault DivisionByZero)"
  using populate_huge populate_zero_then_huge
  by (simp add: dimProduct_def hugeTensor_def mkTensor_def mkDim_def)

subsection \<open>Reorder of more than three dimensions\<close>

text \<open>
  C4. \<open>rank4Tensor\<close> has four dimensions and needs a reorder. Its decode returns 0, and
  the output array holds two decoded values and two elements that were never written.
\<close>

theorem rank4_reorder_succeeds:
  "sortingRequired rank4Tensor = Inr True
   \<and> unat (numDimensions rank4Tensor) = 4
   \<and> populateOutputBodyInfo realOps [rank4Tensor] =
       Inr \<lparr> address = [0, 0, 0, 0], totalSize = 4, tensorNum = 1, tensorDataNum = [0] \<rparr>
   \<and> parseOutputTensorBody realOps (mkHeader 64) [rank4Tensor]
       \<lparr> address = [0, 0, 0, 0], totalSize = 4, tensorNum = 1, tensorDataNum = [0] \<rparr>
       [10, 11, 12, 13] 0 64 =
     Inr (0, \<lparr> address = [10, 11, 0, 0], totalSize = 4, tensorNum = 1, tensorDataNum = [4] \<rparr>)"
  using populate_rank4 body_rank4
  by (simp add: sortingRequired_def rank4Tensor_def mkTensor_def mkDim_def)


subsection \<open>Detection interpreter\<close>

lemma bboxLoop_eq:
  "count + i + 3 * td + n \<le> length data \<Longrightarrow>
   bboxLoop data count td i n =
     Inr (map (\<lambda>j. \<lparr> xMin = data ! (count + j + 1 * td), yMin = data ! (count + j),
                      xMax = data ! (count + j + 3 * td), yMax = data ! (count + j + 2 * td) \<rparr>)
            [i..<i + n])"
proof (induction n arbitrary: i)
  case 0
  then show ?case by simp
next
  case (Suc n)
  have rec: "bboxLoop data count td (i + 1) n =
     Inr (map (\<lambda>j. \<lparr> xMin = data ! (count + j + 1 * td), yMin = data ! (count + j),
                      xMax = data ! (count + j + 3 * td), yMax = data ! (count + j + 2 * td) \<rparr>)
            [i + 1..<i + 1 + n])"
    using Suc.prems by (intro Suc.IH) simp
  show ?case
    using Suc.prems rec by (simp add: data_at_def upt_conv_Cons del: upt_Suc)
qed

lemma valueLoop_eq:
  "count + n \<le> length data \<Longrightarrow> count + n \<le> Suc PplDnnOutputTensorSize \<Longrightarrow>
   valueLoop data count n = Inr (map (\<lambda>j. data ! j) [count..<count + n], count + n)"
proof (induction n arbitrary: count)
  case 0
  then show ?case by simp
next
  case (Suc n)
  have rec: "valueLoop data (count + 1) n =
      Inr (map (\<lambda>j. data ! j) [count + 1..<count + 1 + n], count + 1 + n)"
    using Suc.prems by (intro Suc.IH) simp_all
  show ?case
    using Suc.prems rec by (simp add: data_at_def upt_conv_Cons del: upt_Suc)
qed

lemma createObjectDetectionSsdData_61:
  assumes "length data = 61"
  shows "createObjectDetectionSsdData F data PplTotalDetections =
     Inr \<lparr> tensorNumDetections =
             (if unat (f_to_u32 F (data ! 60)) > 10 then 10 else f_to_u32 F (data ! 60)),
           bboxes = map (\<lambda>j. \<lparr> xMin = data ! (10 + j), yMin = data ! j,
                                xMax = data ! (30 + j), yMax = data ! (20 + j) \<rparr>) [0..<10],
           scores = map (\<lambda>j. data ! j) [50..<60],
           classes = map (\<lambda>j. data ! j) [40..<50] \<rparr>"
proof -
  have b: "bboxLoop data 0 10 0 10 =
     Inr (map (\<lambda>j. \<lparr> xMin = data ! (0 + j + 1 * 10), yMin = data ! (0 + j),
                      xMax = data ! (0 + j + 3 * 10), yMax = data ! (0 + j + 2 * 10) \<rparr>)
            [0..<0 + 10])"
    using assms by (intro bboxLoop_eq) simp
  have c1: "valueLoop data 40 10 = Inr (map (\<lambda>j. data ! j) [40..<40 + 10], 40 + 10)"
    using assms by (intro valueLoop_eq) (simp_all add: PplDnnOutputTensorSize_def)
  have c2: "valueLoop data 50 10 = Inr (map (\<lambda>j. data ! j) [50..<50 + 10], 50 + 10)"
    using assms by (intro valueLoop_eq) (simp_all add: PplDnnOutputTensorSize_def)
  have bb: "map (\<lambda>j. \<lparr> xMin = data ! (0 + j + 1 * 10), yMin = data ! (0 + j),
                      xMax = data ! (0 + j + 3 * 10), yMax = data ! (0 + j + 2 * 10) \<rparr>) [0..<0 + 10]
      = map (\<lambda>j. \<lparr> xMin = data ! (10 + j), yMin = data ! j,
                                xMax = data ! (30 + j), yMax = data ! (20 + j) \<rparr>) [0..<10]"
    by (simp add: add.commute)
  show ?thesis
    unfolding createObjectDetectionSsdData_def PplTotalDetections_def Let_def
    using assms b c1 c2 bb
    by (simp add: PplDnnOutputTensorSize_def data_at_def del: upt_Suc)
qed

lemma analyseLoop_eq:
  assumes "i + n \<le> length (scores t)"
    and "i + n \<le> length (bboxes t)"
    and "i + n \<le> length (classes t)"
  shows "analyseLoop F t thr sz i n =
     Inr \<lparr> numDetections = 0,
           vBbox = map (\<lambda>j. \<lparr> mXmin = f_to_u16 F (f_round F (f_mul F (xMin (bboxes t ! j)) (f_of_int F (uint (width sz - 1))))),
                               mYmin = f_to_u16 F (f_round F (f_mul F (yMin (bboxes t ! j)) (f_of_int F (uint (height sz - 1))))),
                               mXmax = f_to_u16 F (f_round F (f_mul F (xMax (bboxes t ! j)) (f_of_int F (uint (width sz - 1))))),
                               mYmax = f_to_u16 F (f_round F (f_mul F (yMax (bboxes t ! j)) (f_of_int F (uint (height sz - 1))))) \<rparr>)
                     (filter (\<lambda>j. \<not> f_less F (scores t ! j) thr) [i..<i + n]),
           vScores = map (\<lambda>j. scores t ! j) (filter (\<lambda>j. \<not> f_less F (scores t ! j) thr) [i..<i + n]),
           vClasses = map (\<lambda>j. f_to_u8 F (classes t ! j))
                        (filter (\<lambda>j. \<not> f_less F (scores t ! j) thr) [i..<i + n]) \<rparr>"
  using assms
proof (induction n arbitrary: i)
  case 0
  then show ?case by (simp add: emptySsdData_def)
next
  case (Suc n)
  have rec: "analyseLoop F t thr sz (i + 1) n =
     Inr \<lparr> numDetections = 0,
           vBbox = map (\<lambda>j. \<lparr> mXmin = f_to_u16 F (f_round F (f_mul F (xMin (bboxes t ! j)) (f_of_int F (uint (width sz - 1))))),
                               mYmin = f_to_u16 F (f_round F (f_mul F (yMin (bboxes t ! j)) (f_of_int F (uint (height sz - 1))))),
                               mXmax = f_to_u16 F (f_round F (f_mul F (xMax (bboxes t ! j)) (f_of_int F (uint (width sz - 1))))),
                               mYmax = f_to_u16 F (f_round F (f_mul F (yMax (bboxes t ! j)) (f_of_int F (uint (height sz - 1))))) \<rparr>)
                     (filter (\<lambda>j. \<not> f_less F (scores t ! j) thr) [i + 1..<i + 1 + n]),
           vScores = map (\<lambda>j. scores t ! j) (filter (\<lambda>j. \<not> f_less F (scores t ! j) thr) [i + 1..<i + 1 + n]),
           vClasses = map (\<lambda>j. f_to_u8 F (classes t ! j))
                        (filter (\<lambda>j. \<not> f_less F (scores t ! j) thr) [i + 1..<i + 1 + n]) \<rparr>"
    using Suc.prems by (intro Suc.IH) simp_all
  show ?case
    using Suc.prems rec by (simp add: upt_conv_Cons Let_def del: upt_Suc)
qed

lemma unat_clamp10:
  "unat (if unat (x :: u32) > 10 then 10 else x) = min (unat x) 10"
  by simp

lemma unat_of_nat_small: "n \<le> 10 \<Longrightarrow> unat (word_of_nat n :: u32) = n"
  by (simp add: unat_of_nat)

lemma nth_upt_map: "j < b - a \<Longrightarrow> map f [a..<b] ! j = f (a + j)"
  by simp

text \<open>
  C9, counterexample. In \<open>nanOutput\<close> the score of the first candidate is a NaN, which is
  not at least the threshold 1/4. The candidate is not discarded: the comparison
  \<open>score < threshold\<close> is false.
\<close>

theorem detections_are_first_survivors_counterexample:
  "processOutputTensor nanOps
     \<lparr> address = nanOutput, totalSize = 61, tensorNum = 1, tensorDataNum = [61] \<rparr>
     10 (Some (1 / 4)) \<lparr> width = 101, height = 201 \<rparr> =
   Inr \<lparr> numDetections = 1,
         vBbox = [\<lparr> mXmin = 50, mYmin = 100, mXmax = 50, mYmax = 100 \<rparr>],
         vScores = [None], vClasses = [1] \<rparr>
   \<and> nanOutput ! 50 = None
   \<and> \<not> nan_le (Some (1 / 4)) (nanOutput ! 50)"
proof -
  have len: "length nanOutput = 61"
    by (simp add: nanOutput_def)
  have at: "nanOutput ! 0 = Some (1 / 2)" "nanOutput ! 10 = Some (1 / 2)"
    "nanOutput ! 20 = Some (1 / 2)" "nanOutput ! 30 = Some (1 / 2)"
    "nanOutput ! 40 = Some 1" "nanOutput ! 50 = None" "nanOutput ! 60 = Some 1"
    by (simp_all add: nanOutput_def nth_append)
  have ops: "f_to_u32 nanOps (Some 1) = 1" "f_to_u8 nanOps (Some 1) = 1"
    "f_less nanOps None (Some (1 / 4)) = False"
    "f_to_u16 nanOps (f_round nanOps (f_mul nanOps (Some (1 / 2)) (f_of_int nanOps 100))) = 50"
    "f_to_u16 nanOps (f_round nanOps (f_mul nanOps (Some (1 / 2)) (f_of_int nanOps 200))) = 100"
    by (simp_all add: nanOps_def realOps_simps round_away_def)
  have "processOutputTensor nanOps
     \<lparr> address = nanOutput, totalSize = 61, tensorNum = 1, tensorDataNum = [61] \<rparr>
     10 (Some (1 / 4)) \<lparr> width = 101, height = 201 \<rparr> =
   Inr \<lparr> numDetections = 1,
         vBbox = [\<lparr> mXmin = 50, mYmin = 100, mXmax = 50, mYmax = 100 \<rparr>],
         vScores = [None], vClasses = [1] \<rparr>"
    by (simp add: processOutputTensor_def PplDnnOutputTensorSize_def
        createObjectDetectionSsdData_61 [OF len] analyseObjectDetectionSsdOutput_def at ops
        emptySsdData_def Let_def word_less_nat_alt del: upt_rec_numeral)
  then show ?thesis
    using at(6) by (simp add: nan_le_def)
qed

text \<open>
  C9, amended. For an output array of 61 values, \<^verbatim>\<open>processOutputTensor\<close> returns the
  detections of the candidates \<open>survivors\<close>, in that order: of the first
  \<open>min numDetections 10\<close> candidates (the declared count, converted to an unsigned integer,
  is clamped to 10, not refused) those for which the float comparison
  \<open>score < threshold\<close> is false, cut to the first \<open>maxDetections\<close> in array order. The
  corners of a box are the float products of the box fields and the width or height less
  one, rounded and converted to 16 bits.
\<close>

theorem detections_are_first_survivors:
  assumes "length (address info) = 61" and "totalSize info = 61"
  shows "\<exists>data. processOutputTensor F info maxDet thr sz = Inr data
           \<and> vScores data = map (\<lambda>i. address info ! (50 + i)) (survivors F (address info) thr maxDet)
           \<and> vClasses data =
               map (\<lambda>i. f_to_u8 F (address info ! (40 + i))) (survivors F (address info) thr maxDet)
           \<and> vBbox data = map (pixelBox F sz (address info)) (survivors F (address info) thr maxDet)
           \<and> unat (numDetections data) = length (survivors F (address info) thr maxDet)"
proof -
  let ?d = "address info"
  define t where "t = \<lparr> tensorNumDetections =
             (if unat (f_to_u32 F (?d ! 60)) > 10 then 10 else f_to_u32 F (?d ! 60)),
           bboxes = map (\<lambda>j. \<lparr> xMin = ?d ! (10 + j), yMin = ?d ! j,
                                xMax = ?d ! (30 + j), yMax = ?d ! (20 + j) \<rparr>) [0..<10],
           scores = map (\<lambda>j. ?d ! j) [50..<60],
           classes = map (\<lambda>j. ?d ! j) [40..<50] \<rparr>"
  let ?n = "min (unat (f_to_u32 F (?d ! 60))) 10"
  let ?S = "filter (\<lambda>i. \<not> f_less F (?d ! (50 + i)) thr) [0..<?n]"
  have create: "createObjectDetectionSsdData F ?d PplTotalDetections = Inr t"
    unfolding t_def using assms(1) by (rule createObjectDetectionSsdData_61)
  have n: "unat (tensorNumDetections t) = ?n"
    by (simp add: t_def)
  have n10: "?n \<le> 10"
    by simp
  have lens: "length (scores t) = 10" "length (bboxes t) = 10" "length (classes t) = 10"
    by (simp_all add: t_def del: upt_rec_numeral)
  have sc_nth: "scores t ! j = ?d ! (50 + j)" if "j < 10" for j
    using that by (simp add: t_def del: upt_rec_numeral)
  have cl_nth: "classes t ! j = ?d ! (40 + j)" if "j < 10" for j
    using that by (simp add: t_def del: upt_rec_numeral)
  have bb_nth: "bboxes t ! j = \<lparr> xMin = ?d ! (10 + j), yMin = ?d ! j,
                                xMax = ?d ! (30 + j), yMax = ?d ! (20 + j) \<rparr>" if "j < 10" for j
    using that by (simp add: t_def del: upt_rec_numeral)
  have inS: "j < 10" if "j \<in> set ?S" for j
    using that n10 by auto
  have filt: "filter (\<lambda>j. \<not> f_less F (scores t ! j) thr) [0..<0 + ?n] = ?S"
    by (rule filter_cong) (auto simp: sc_nth)
  have loop: "analyseLoop F t thr sz 0 ?n =
     Inr \<lparr> numDetections = 0,
           vBbox = map (\<lambda>j. \<lparr> mXmin = f_to_u16 F (f_round F (f_mul F (xMin (bboxes t ! j)) (f_of_int F (uint (width sz - 1))))),
                               mYmin = f_to_u16 F (f_round F (f_mul F (yMin (bboxes t ! j)) (f_of_int F (uint (height sz - 1))))),
                               mXmax = f_to_u16 F (f_round F (f_mul F (xMax (bboxes t ! j)) (f_of_int F (uint (width sz - 1))))),
                               mYmax = f_to_u16 F (f_round F (f_mul F (yMax (bboxes t ! j)) (f_of_int F (uint (height sz - 1))))) \<rparr>) ?S,
           vScores = map (\<lambda>j. scores t ! j) ?S,
           vClasses = map (\<lambda>j. f_to_u8 F (classes t ! j)) ?S \<rparr>"
    using analyseLoop_eq [of 0 ?n t F thr sz] n10 lens unfolding filt by simp
  have sc: "map (\<lambda>j. scores t ! j) ?S = map (\<lambda>i. ?d ! (50 + i)) ?S"
    by (rule map_cong) (auto dest: inS simp: sc_nth)
  have cl: "map (\<lambda>j. f_to_u8 F (classes t ! j)) ?S = map (\<lambda>i. f_to_u8 F (?d ! (40 + i))) ?S"
    by (rule map_cong) (auto dest: inS simp: cl_nth)
  have bx: "map (\<lambda>j. \<lparr> mXmin = f_to_u16 F (f_round F (f_mul F (xMin (bboxes t ! j)) (f_of_int F (uint (width sz - 1))))),
                               mYmin = f_to_u16 F (f_round F (f_mul F (yMin (bboxes t ! j)) (f_of_int F (uint (height sz - 1))))),
                               mXmax = f_to_u16 F (f_round F (f_mul F (xMax (bboxes t ! j)) (f_of_int F (uint (width sz - 1))))),
                               mYmax = f_to_u16 F (f_round F (f_mul F (yMax (bboxes t ! j)) (f_of_int F (uint (height sz - 1))))) \<rparr>) ?S
      = map (pixelBox F sz ?d) ?S"
    by (rule map_cong) (auto dest: inS simp: pixelBox_def bb_nth)
  have lenS: "length ?S \<le> 10"
    using length_filter_le [of "\<lambda>i. \<not> f_less F (?d ! (50 + i)) thr" "[0..<?n]"] n10 by simp
  have surv: "survivors F ?d thr maxDet = take (unat maxDet) ?S"
    by (simp add: survivors_def)
  have cmp: "(word_of_nat (length ?S) :: u32) > maxDet \<longleftrightarrow> unat maxDet < length ?S"
    using lenS by (simp add: word_less_nat_alt unat_of_nat_small)
  have an: "analyseObjectDetectionSsdOutput F t maxDet thr sz =
      Inr (if unat maxDet < length ?S
           then \<lparr> numDetections = maxDet,
                  vBbox = take (unat maxDet) (map (pixelBox F sz ?d) ?S),
                  vScores = take (unat maxDet) (map (\<lambda>i. ?d ! (50 + i)) ?S),
                  vClasses = take (unat maxDet) (map (\<lambda>i. f_to_u8 F (?d ! (40 + i))) ?S) \<rparr>
           else \<lparr> numDetections = word_of_nat (length ?S),
                  vBbox = map (pixelBox F sz ?d) ?S,
                  vScores = map (\<lambda>i. ?d ! (50 + i)) ?S,
                  vClasses = map (\<lambda>i. f_to_u8 F (?d ! (40 + i))) ?S \<rparr>)"
    unfolding analyseObjectDetectionSsdOutput_def n loop sc cl bx
    using cmp by (simp add: Let_def)
  have po: "processOutputTensor F info maxDet thr sz = analyseObjectDetectionSsdOutput F t maxDet thr sz"
    using assms(2) create by (simp add: processOutputTensor_def PplDnnOutputTensorSize_def)
  show ?thesis
  proof (cases "unat maxDet < length ?S")
    case True
    then show ?thesis
      unfolding po an surv by (simp add: take_map)
  next
    case False
    then show ?thesis
      unfolding po an surv using lenS by (simp add: unat_of_nat_small)
  qed
qed

lemma survivors_example:
  "survivors realOps exampleOutput (1 / 4) 10 = [0, 2]"
  by (simp add: survivors_def exampleOutput_def realOps_simps nth_append unroll
      del: Suc_numeral)

theorem detections_are_first_survivors_witness:
  "length (address \<lparr> address = exampleOutput, totalSize = 61, tensorNum = 1, tensorDataNum = [61] \<rparr>) = 61
   \<and> totalSize \<lparr> address = exampleOutput, totalSize = 61, tensorNum = 1, tensorDataNum = [61::u32] \<rparr> = 61
   \<and> (\<exists>data. processOutputTensor realOps
                \<lparr> address = exampleOutput, totalSize = 61, tensorNum = 1, tensorDataNum = [61] \<rparr>
                10 (1 / 4) \<lparr> width = 101, height = 201 \<rparr> = Inr data
            \<and> vScores data = [3 / 4, 1 / 2]
            \<and> vClasses data = [1, 2]
            \<and> unat (numDetections data) = 2)"
proof -
  let ?I = "\<lparr> address = exampleOutput, totalSize = 61, tensorNum = 1, tensorDataNum = [61::u32] \<rparr>"
  have len: "length (address ?I) = 61"
    by (simp add: exampleOutput_def)
  have tot: "totalSize ?I = 61"
    by simp
  have cls: "map (\<lambda>i. f_to_u8 realOps (exampleOutput ! (40 + i))) [0, 2] = [1, 2]"
    by (simp add: exampleOutput_def realOps_simps nth_append)
  have scs: "map (\<lambda>i. exampleOutput ! (50 + i)) [0, 2] = [3 / 4, 1 / 2]"
    by (simp add: exampleOutput_def nth_append)
  from detections_are_first_survivors [OF len tot, of realOps 10 "1 / 4" "\<lparr> width = 101, height = 201 \<rparr>"]
  obtain data where
    "processOutputTensor realOps ?I 10 (1 / 4) \<lparr> width = 101, height = 201 \<rparr> = Inr data"
    "vScores data = map (\<lambda>i. address ?I ! (50 + i)) (survivors realOps (address ?I) (1 / 4) 10)"
    "vClasses data = map (\<lambda>i. f_to_u8 realOps (address ?I ! (40 + i)))
        (survivors realOps (address ?I) (1 / 4) 10)"
    "unat (numDetections data) = length (survivors realOps (address ?I) (1 / 4) 10)"
    by blast
  then have "processOutputTensor realOps ?I 10 (1 / 4) \<lparr> width = 101, height = 201 \<rparr> = Inr data
            \<and> vScores data = [3 / 4, 1 / 2]
            \<and> vClasses data = [1, 2]
            \<and> unat (numDetections data) = 2"
    using cls scs by (simp add: survivors_example)
  then show ?thesis
    using len tot by blast
qed

subsection \<open>The return value of the stage\<close>

lemma detectionLoop_length:
  "detectionLoop labels data i n = Inr ds \<Longrightarrow> length ds = n"
  by (induction n arbitrary: i ds) (auto split: if_splits sum.splits)

lemma detectionLoop_fault:
  "detectionLoop labels data i n = Inl f \<Longrightarrow> (case f of Fault x \<Rightarrow> True | Error e \<Rightarrow> False)"
  by (induction n arbitrary: i) (auto split: if_splits sum.splits)

text \<open>
  C10. \<open>Process\<close> never returns \<open>true\<close>: a run that returns gives \<open>false\<close>, with no output
  tensor in the metadata, after a step that returned an error, and after a complete
  decode alike. It sets the metadata entry only after a decode that returned a record with
  \<open>numDetections \<noteq> 0\<close>, with that many detections.
\<close>

theorem Process_returns_false:
  "(case Process F G this output of
      Inl f \<Rightarrow> (case f of Fault x \<Rightarrow> True | Error e \<Rightarrow> False)
    | Inr (r, m) \<Rightarrow>
        r = False \<and>
        (case m of
           None \<Rightarrow> True
         | Some ds \<Rightarrow>
             (case output of
                None \<Rightarrow> False
              | Some buf \<Rightarrow>
                  (case decode F G this buf of
                     Inl f \<Rightarrow> False
                   | Inr data \<Rightarrow> numDetections data \<noteq> 0 \<and> length ds = unat (numDetections data)))))
   \<and> Process F G this None = Inr (False, None)
   \<and> (case output of
        None \<Rightarrow> True
      | Some buf \<Rightarrow>
          (case decode F G this buf of
             Inl f \<Rightarrow> (case f of Fault x \<Rightarrow> True | Error e \<Rightarrow> Process F G this output = Inr (False, None))
           | Inr data \<Rightarrow> True))"
proof -
  have p1: "Process F G this None = Inr (False, None)"
    by (simp add: Process_def)
  have p2: "(case Process F G this output of
      Inl f \<Rightarrow> (case f of Fault x \<Rightarrow> True | Error e \<Rightarrow> False)
    | Inr (r, m) \<Rightarrow>
        r = False \<and>
        (case m of
           None \<Rightarrow> True
         | Some ds \<Rightarrow>
             (case output of
                None \<Rightarrow> False
              | Some buf \<Rightarrow>
                  (case decode F G this buf of
                     Inl f \<Rightarrow> False
                   | Inr data \<Rightarrow> numDetections data \<noteq> 0 \<and> length ds = unat (numDetections data)))))"
  proof (cases "output")
    case None
    then show ?thesis by (simp add: Process_def)
  next
    case (Some buf)
    show ?thesis
    proof (cases "decode F G this buf")
      case (Inl f)
      then show ?thesis
        using Some by (cases f) (simp_all add: Process_def)
    next
      case (Inr data)
      show ?thesis
      proof (cases "numDetections data = 0")
        case True
        then show ?thesis using Some Inr by (simp add: Process_def)
      next
        case False
        show ?thesis
        proof (cases "detectionLoop (classLabels this) data 0 (unat (numDetections data))")
          case (Inl f)
          have "case f of Fault x \<Rightarrow> True | Error e \<Rightarrow> False"
            using Inl by (rule detectionLoop_fault)
          then show ?thesis
            using Some Inr False Inl by (simp add: Process_def)
        next
          case (Inr ds)
          then have "length ds = unat (numDetections data)"
            by (rule detectionLoop_length)
          then show ?thesis
            using Some \<open>decode F G this buf = Inr data\<close> False Inr by (simp add: Process_def)
        qed
      qed
    qed
  qed
  have p3: "(case output of
        None \<Rightarrow> True
      | Some buf \<Rightarrow>
          (case decode F G this buf of
             Inl f \<Rightarrow> (case f of Fault x \<Rightarrow> True | Error e \<Rightarrow> Process F G this output = Inr (False, None))
           | Inr data \<Rightarrow> True))"
    by (auto simp: Process_def split: option.splits sum.splits failure.splits)
  from p1 p2 p3 show ?thesis by simp
qed


subsection \<open>The plan of a tensor\<close>

lemma dimensionLoop_bound:
  "dimensionLoop param idx n (s, a, t) = Inr (s', a', t') \<Longrightarrow> unat t < 536870912 \<Longrightarrow>
   unat t' < 536870912"
proof (induction n arbitrary: idx s a t)
  case 0
  then show ?case by simp
next
  case (Suc n)
  let ?d = "vecDim param ! idx"
  let ?t1 = "t * ucast (dimSize ?d)"
  let ?lim = "UINT32_MAX div ucast (bitsPerElement param) div 8"
  from Suc.prems(1) obtain s2 a2 where
    chk: "\<not> ?lim \<le> ?t1"
    and rec: "dimensionLoop param (idx + 1) n (s2, a2, ?t1) = Inr (s', a', t')"
    by (auto simp: Let_def split: if_splits)
  have "unat ?lim = unat UINT32_MAX div unat (ucast (bitsPerElement param) :: u32) div 8"
    by (simp add: unat_div)
  also have "\<dots> \<le> unat UINT32_MAX div 8"
    by (intro div_le_mono div_le_dividend)
  also have "\<dots> = 536870911"
    by (simp add: UINT32_MAX_def)
  finally have "unat ?lim \<le> 536870911" .
  moreover have "unat ?t1 < unat ?lim"
    using chk by (simp add: word_le_nat_alt)
  ultimately have "unat ?t1 < 536870912"
    by simp
  with rec show ?case
    by (rule Suc.IH)
qed

lemma dimensionLoop_even:
  "dimensionLoop param idx n (s, a, t) = Inr (s', a', t') \<Longrightarrow> even t \<Longrightarrow> even t'"
proof (induction n arbitrary: idx s a t)
  case 0
  then show ?case by simp
next
  case (Suc n)
  let ?t1 = "t * ucast (dimSize (vecDim param ! idx))"
  from Suc.prems(1) obtain s2 a2 where
    rec: "dimensionLoop param (idx + 1) n (s2, a2, ?t1) = Inr (s', a', t')"
    by (auto simp: Let_def split: if_splits)
  have "even ?t1"
    using Suc.prems(2) by simp
  with rec show ?case
    by (rule Suc.IH)
qed

lemma even_unat32:
  assumes "even (w :: u32)"
  shows "even (unat w)"
proof -
  from assms obtain v where "w = 2 * v"
    by (auto elim: evenE)
  then have "unat w = (2 * unat v) mod 4294967296"
    by (simp add: unat_word_ariths)
  moreover have "(2::nat) dvd 4294967296"
    by simp
  ultimately show ?thesis
    by (simp only: dvd_mod_iff dvd_triv_left)
qed

text \<open>
  What the planning loop records for each tensor: the line count is the float
  computation on the tensor's size in bytes, the size of a 16-bit tensor is even, and
  \<open>offset + index\<close> does not wrap around for the indices of the tensor.
\<close>

lemma planLoop_plan:
  assumes "planLoop F hdr stride totalSz aps i src1 off tdn = Inr (plans, tdn')"
    and "totalSz \<le> unat (UINT32_MAX div 4)"
    and "unat off \<le> totalSz"
    and "k < length aps"
  shows "numLines (plans ! k) = numLinesOf F (outSize (plans ! k)) (maxLineLen hdr)
    \<and> unat (offset (plans ! k)) + unat (outSize (plans ! k)) \<le> 4294967296
    \<and> (bitsPerElement (aps ! k) = 16 \<longrightarrow> even (outSize (plans ! k)))"
  using assms(1,3,4)
proof (induction aps arbitrary: i src1 off tdn plans tdn' k)
  case Nil
  then show ?case by simp
next
  case (Cons param params)
  let ?n = "unat (numDimensions param)"
  let ?b = "bitsPerElement param div 8"
  have lim: "totalSz \<le> 1073741823"
    using assms(2) by (simp add: UINT32_MAX_def unat_div)
  from Cons.prems(1) obtain serDim actDim tos plans0 where
    dl: "dimensionLoop param 0 ?n (replicate ?n zeroDimensions, replicate ?n zeroDimensions, ucast ?b)
           = Inr (serDim, actDim, tos)"
    and b0: "?b \<noteq> 0"
    and fit: "\<not> totalSz < unat (off + tos div ucast ?b)"
    and rec: "planLoop F hdr stride totalSz params (i + 1)
                (src1 + unat (ucast (numLinesOf F tos (maxLineLen hdr)) * stride))
                (off + tos div ucast ?b) (tdn[i := tos div ucast ?b]) = Inr (plans0, tdn')"
    and pl: "plans = \<lparr> numLines = numLinesOf F tos (maxLineLen hdr), outSize = tos, offset = off,
                       srcPos = src1, serializedDim = serDim, actualDim = actDim \<rparr> # plans0"
    by (auto simp: Let_def split: sum.splits prod.splits if_splits)
  have "unat ?b \<le> 31"
  proof -
    have "unat ?b = unat (bitsPerElement param) div 8"
      by (simp add: unat_div)
    moreover have "unat (bitsPerElement param) < 256"
      using unsigned_less [of "bitsPerElement param"] by simp
    ultimately show ?thesis by simp
  qed
  then have "unat (ucast ?b :: u32) < 536870912"
    by (simp add: unsigned_ucast_eq take_bit_nat_eq_self)
  with dl have tos: "unat tos < 536870912"
    by (rule dimensionLoop_bound)
  show ?case
  proof (cases k)
    case 0
    have "bitsPerElement param = 16 \<longrightarrow> even tos"
    proof
      assume "bitsPerElement param = 16"
      then have "even (ucast ?b :: u32)"
        by simp
      with dl show "even tos"
        by (rule dimensionLoop_even)
    qed
    then show ?thesis
      using 0 pl tos Cons.prems(2) lim by simp
  next
    case (Suc k')
    have "unat (off + tos div ucast ?b) \<le> totalSz"
      using fit by simp
    moreover have "k' < length params"
      using Suc Cons.prems(3) by simp
    ultimately have "numLines (plans0 ! k') = numLinesOf F (outSize (plans0 ! k')) (maxLineLen hdr)
      \<and> unat (offset (plans0 ! k')) + unat (outSize (plans0 ! k')) \<le> 4294967296
      \<and> (bitsPerElement (params ! k') = 16 \<longrightarrow> even (outSize (plans0 ! k')))"
      using rec by (intro Cons.IH)
    then show ?thesis
      using Suc pl by simp
  qed
qed


subsection \<open>De-quantization of 8-bit elements\<close>

declare readLine8.simps [simp del]
declare readLine16.simps [simp del]

lemma at32_small: "unat off + n < 4294967296 \<Longrightarrow> at32 off n = unat off + n"
proof -
  assume a: "unat off + n < 4294967296"
  then have "n < 2 ^ LENGTH(32)"
    by simp
  then have "unat (word_of_nat n :: u32) = n"
    by (simp add: unat_of_nat)
  then have "unat off + unat (word_of_nat n :: u32) < 2 ^ LENGTH(32)"
    using a by simp
  then have "unat (off + word_of_nat n) = unat off + unat (word_of_nat n :: u32)"
    by (simp only: unat_add_lem)
  then show ?thesis
    using \<open>unat (word_of_nat n :: u32) = n\<close> by (simp add: at32_def)
qed

lemma getVal8_dequantized8:
  "(if format param = TYPE_SIGNED then getVal8_int8 F b param else getVal8_uint8 F b param) =
   dequantized8 F param b"
  by (simp add: getVal8_int8_def getVal8_uint8_def dequantized8_def)

lemma readLine8_spec:
  assumes "readLine8 F buf param mll ots off src l e tmp = Inr (e', tmp')"
    and "e < ots" and "unat off + ots \<le> 4294967296"
  shows "e' = min ots (e + (mll - l))
    \<and> length tmp' = length tmp
    \<and> (\<forall>k < e' - e. tmp' ! (unat off + e + k) = dequantized8 F param (buf ! (src + l + k)))
    \<and> (\<forall>j. j < unat off + e \<or> unat off + e' \<le> j \<longrightarrow> tmp' ! j = tmp ! j)"
  using assms
proof (induction "mll - l" arbitrary: l e tmp)
  case 0
  then have "\<not> l < mll" by simp
  with "0.prems"(1) have "e' = e" "tmp' = tmp"
    by (simp_all add: readLine8.simps [of F buf param mll ots off src l e tmp])
  with \<open>\<not> l < mll\<close> "0.prems"(2) show ?case by simp
next
  case (Suc m)
  then have lt: "l < mll" by simp
  have at: "at32 off e = unat off + e"
    using Suc.prems(2,3) by (intro at32_small) simp
  let ?v = "dequantized8 F param (buf ! (src + l))"
  let ?tmp1 = "tmp[unat off + e := ?v]"
  from Suc.prems(1) lt have inb: "src + l < length buf" and inw: "unat off + e < length tmp"
    and step: "(if e + 1 = ots then Inr (e + 1, ?tmp1)
               else readLine8 F buf param mll ots off src (l + 1) (e + 1) ?tmp1) = Inr (e', tmp')"
    by (simp_all add: readLine8.simps [of F buf param mll ots off src l e tmp] at Let_def
        getVal8_dequantized8 split: if_splits)
  show ?case
  proof (cases "e + 1 = ots")
    case True
    with step have r: "e' = e + 1" "tmp' = ?tmp1" by simp_all
    show ?thesis
      using r True lt inw by (auto simp: min_def)
  next
    case False
    with step have rec: "readLine8 F buf param mll ots off src (l + 1) (e + 1) ?tmp1 = Inr (e', tmp')"
      by simp
    have m: "m = mll - (l + 1)"
      using Suc.hyps(2) by simp
    have e1: "e + 1 < ots"
      using Suc.prems(2) False by simp
    have IH: "e' = min ots (e + 1 + (mll - (l + 1)))
      \<and> length tmp' = length ?tmp1
      \<and> (\<forall>k < e' - (e + 1). tmp' ! (unat off + (e + 1) + k) = dequantized8 F param (buf ! (src + (l + 1) + k)))
      \<and> (\<forall>j. j < unat off + (e + 1) \<or> unat off + e' \<le> j \<longrightarrow> tmp' ! j = ?tmp1 ! j)"
      using Suc.hyps(1) [OF m rec e1 Suc.prems(3)] .
    have "e + 1 + (mll - (l + 1)) = e + (mll - l)"
      using lt by simp
    moreover have "e' = min ots (e + 1 + (mll - (l + 1)))"
      using IH by blast
    ultimately have e'1: "e' = min ots (e + (mll - l))"
      by simp
    have len: "length tmp' = length tmp"
      using IH by simp
    have first: "tmp' ! (unat off + e) = ?v"
      using IH inw by simp
    have elems: "tmp' ! (unat off + e + k) = dequantized8 F param (buf ! (src + l + k))"
      if "k < e' - e" for k
    proof (cases k)
      case 0
      then show ?thesis using first by simp
    next
      case (Suc k')
      then have "k' < e' - (e + 1)"
        using that by simp
      then have "tmp' ! (unat off + (e + 1) + k') = dequantized8 F param (buf ! (src + (l + 1) + k'))"
        using IH by blast
      then show ?thesis
        using Suc by (simp add: add.assoc)
    qed
    have frame: "tmp' ! j = tmp ! j" if "j < unat off + e \<or> unat off + e' \<le> j" for j
    proof -
      have ge: "e + 1 \<le> e'"
        using e'1 e1 lt by (auto simp: min_def)
      have "j < unat off + (e + 1) \<or> unat off + e' \<le> j"
        using that by auto
      then have "tmp' ! j = ?tmp1 ! j"
        using IH by blast
      moreover have "j \<noteq> unat off + e"
        using that ge by auto
      ultimately show ?thesis by simp
    qed
    show ?thesis
      using e'1 len elems frame by blast
  qed
qed


lemma readLines8_spec:
  assumes "readLines8 F buf param mll ots off stride n src e tmp = Inr (e', tmp')"
    and "e < ots" and "unat off + ots \<le> 4294967296"
  shows "e' = min ots (e + n * mll)
    \<and> length tmp' = length tmp
    \<and> (\<forall>k < e' - e. tmp' ! (unat off + e + k) =
          dequantized8 F param (buf ! (src + (k div mll) * stride + k mod mll)))
    \<and> (\<forall>j. j < unat off + e \<or> unat off + e' \<le> j \<longrightarrow> tmp' ! j = tmp ! j)"
  using assms(1,2)
proof (induction n arbitrary: src e tmp)
  case 0
  then show ?case by (simp add: min_def)
next
  case (Suc n)
  from Suc.prems(1) obtain e1 tmp1 where
    line: "readLine8 F buf param mll ots off src 0 e tmp = Inr (e1, tmp1)"
    and rest: "(if e1 = ots then Inr (e1, tmp1)
                else readLines8 F buf param mll ots off stride n (src + stride) e1 tmp1) = Inr (e', tmp')"
    by (auto split: sum.splits)
  have L: "e1 = min ots (e + (mll - 0))
    \<and> length tmp1 = length tmp
    \<and> (\<forall>k < e1 - e. tmp1 ! (unat off + e + k) = dequantized8 F param (buf ! (src + 0 + k)))
    \<and> (\<forall>j. j < unat off + e \<or> unat off + e1 \<le> j \<longrightarrow> tmp1 ! j = tmp ! j)"
    using line Suc.prems(2) assms(3) by (rule readLine8_spec)
  have e1: "e1 = min ots (e + mll)" and len1: "length tmp1 = length tmp"
    using L by simp_all
  have el1: "tmp1 ! (unat off + e + k) = dequantized8 F param (buf ! (src + k))" if "k < e1 - e" for k
    using L that by simp
  have fr1: "tmp1 ! j = tmp ! j" if "j < unat off + e \<or> unat off + e1 \<le> j" for j
    using L that by blast
  show ?case
  proof (cases "e1 = ots")
    case True
    with rest have r: "e' = ots" "tmp' = tmp1" by simp_all
    have le: "ots \<le> e + mll"
      using e1 True by (simp add: min_def split: if_splits)
    have "e + mll \<le> e + Suc n * mll"
      by simp
    then have m: "min ots (e + Suc n * mll) = ots"
      using le by simp
    have "tmp1 ! (unat off + e + k) = dequantized8 F param (buf ! (src + (k div mll) * stride + k mod mll))"
      if "k < ots - e" for k
    proof -
      have "k < mll" using that le by simp
      then show ?thesis
        using el1 [of k] that True by simp
    qed
    then show ?thesis
      using r m len1 fr1 True by simp
  next
    case False
    with rest have rec: "readLines8 F buf param mll ots off stride n (src + stride) e1 tmp1 = Inr (e', tmp')"
      by simp
    have e1v: "e1 = e + mll" and e1lt: "e1 < ots"
      using e1 False by (simp_all add: min_def split: if_splits)
    have IH: "e' = min ots (e1 + n * mll)
      \<and> length tmp' = length tmp1
      \<and> (\<forall>k < e' - e1. tmp' ! (unat off + e1 + k) =
            dequantized8 F param (buf ! (src + stride + (k div mll) * stride + k mod mll)))
      \<and> (\<forall>j. j < unat off + e1 \<or> unat off + e' \<le> j \<longrightarrow> tmp' ! j = tmp1 ! j)"
      using rec e1lt by (rule Suc.IH)
    have e': "e' = min ots (e + Suc n * mll)"
      using IH e1v by (simp add: add.assoc)
    have ge: "e1 \<le> e'"
      using IH e1lt by (simp add: min_def)
    have elems: "tmp' ! (unat off + e + k) =
        dequantized8 F param (buf ! (src + (k div mll) * stride + k mod mll))" if "k < e' - e" for k
    proof (cases "k < mll")
      case True
      then have "unat off + e + k < unat off + e1"
        using e1v by simp
      then have "tmp' ! (unat off + e + k) = tmp1 ! (unat off + e + k)"
        using IH by blast
      also have "\<dots> = dequantized8 F param (buf ! (src + k))"
        using True e1v by (intro el1) simp
      finally show ?thesis
        using True by simp
    next
      case False
      define k' where "k' = k - mll"
      have k: "k = mll + k'"
        using False by (simp add: k'_def)
      have "k' < e' - e1"
        using that k e1v by simp
      then have X: "tmp' ! (unat off + e1 + k') =
            dequantized8 F param (buf ! (src + stride + (k' div mll) * stride + k' mod mll))"
        using IH by blast
      have mpos: "0 < mll"
      proof (rule ccontr)
        assume "\<not> 0 < mll"
        then have "e' = e"
          using IH e1v e1lt by simp
        then show False
          using that by simp
      qed
      have dm: "k div mll = Suc (k' div mll)" "k mod mll = k' mod mll"
        using k mpos by simp_all
      show ?thesis
        using X dm k e1v by (simp add: add.assoc add.left_commute)
    qed
    have frame: "tmp' ! j = tmp ! j" if "j < unat off + e \<or> unat off + e' \<le> j" for j
    proof -
      have "j < unat off + e1 \<or> unat off + e' \<le> j"
        using that e1v by auto
      then have "tmp' ! j = tmp1 ! j"
        using IH by blast
      moreover have "j < unat off + e \<or> unat off + e1 \<le> j"
        using that ge by auto
      ultimately show ?thesis
        using fr1 by simp
    qed
    have "length tmp' = length tmp"
      using IH len1 by simp
    then show ?thesis
      using e' elems frame by blast
  qed
qed


lemma memcpyFloats_nth:
  assumes "memcpyFloats off n tmp dst = Inr dst'" and "k < n"
  shows "dst' ! (off + k) = tmp ! (off + k)" and "length dst' = length dst"
proof -
  from assms(1) have b: "off + n \<le> length tmp" "off + n \<le> length dst"
    and d: "dst' = take off dst @ take n (drop off tmp) @ drop (off + n) dst"
    by (simp_all add: memcpyFloats_def split: if_splits)
  show "dst' ! (off + k) = tmp ! (off + k)"
    using b assms(2) by (simp add: d nth_append)
  show "length dst' = length dst"
    using b by (simp add: d)
qed

text \<open>The parts of a task that returns, for a tensor of 8-bit elements.\<close>

lemma tensorTask_8bit:
  assumes "tensorTask F hdr aps plans stride buf idx (tmp, dst) = Inr (tmp', dst')"
    and "bitsPerElement (aps ! idx) = 8"
  shows "unat (outSize (plans ! idx)) \<noteq> 0
    \<and> (\<exists>e1. readLines8 F buf (aps ! idx) (unat (maxLineLen hdr)) (unat (outSize (plans ! idx)))
               (offset (plans ! idx)) (unat stride) (unat (numLines (plans ! idx)))
               (srcPos (plans ! idx)) 0 tmp = Inr (e1, tmp'))
    \<and> (sortingRequired (aps ! idx) = Inr False \<longrightarrow>
         memcpyFloats (unat (offset (plans ! idx))) (unat (outSize (plans ! idx))) tmp' dst = Inr dst')"
  using assms
  by (auto simp: tensorTask_def Let_def split: if_splits sum.splits prod.splits)

text \<open>
  The elements that the extraction loop of an 8-bit tensor reaches. The plan is the one the
  planning loop computes, under the bound on the total size that \<^verbatim>\<open>parseOutputTensorBody\<close>
  checks first. The line count of a tensor is the float
  computation \<open>numLinesOf\<close> on its size. For a tensor of 8-bit elements, a task that returns
  has stored in the staging array, for every element \<open>k\<close> below both the tensor's size and
  \<open>numLines * maxLineLen\<close>, the float product of \<open>raw - shift\<close>, converted to \<^verbatim>\<open>float\<close>, and the
  scale, where \<open>raw\<close> is the byte at position \<open>k mod maxLineLen\<close> of line \<open>k div maxLineLen\<close>
  of the tensor, read as signed or unsigned as the format says. When the tensor needs no
  reorder the output array holds the same value at the same index. The elements from
  \<open>numLines * maxLineLen\<close> on are not decoded: the staging array keeps what it held. For an
  unsigned byte 200 and shift 128 the value is the float product of 72 and the scale.
\<close>

lemma extracted_8bit:
  assumes "planLoop F hdr stride totalSz aps 0 src 0 tdn = Inr (plans, tdn')"
    and "totalSz \<le> unat (UINT32_MAX div 4)"
    and "idx < length aps"
    and "bitsPerElement (aps ! idx) = 8"
    and "tensorTask F hdr aps plans stride buf idx (tmp, dst) = Inr (tmp', dst')"
  shows "numLines (plans ! idx) = numLinesOf F (outSize (plans ! idx)) (maxLineLen hdr)
    \<and> (\<forall>k < min (unat (outSize (plans ! idx)))
                 (unat (numLines (plans ! idx)) * unat (maxLineLen hdr)).
          tmp' ! (unat (offset (plans ! idx)) + k) =
            dequantized8 F (aps ! idx)
              (buf ! (srcPos (plans ! idx) + (k div unat (maxLineLen hdr)) * unat stride
                      + k mod unat (maxLineLen hdr)))
          \<and> (sortingRequired (aps ! idx) = Inr False \<longrightarrow>
               dst' ! (unat (offset (plans ! idx)) + k) = tmp' ! (unat (offset (plans ! idx)) + k)))
    \<and> (\<forall>k. unat (numLines (plans ! idx)) * unat (maxLineLen hdr) \<le> k \<longrightarrow>
             tmp' ! (unat (offset (plans ! idx)) + k) = tmp ! (unat (offset (plans ! idx)) + k))
    \<and> getVal8_uint8 F 200 ((aps ! idx)\<lparr>shift := 128\<rparr>) =
        f_mul F (f_of_int F 72) (scale (aps ! idx))"
proof -
  let ?param = "aps ! idx"
  let ?plan = "plans ! idx"
  let ?ots = "unat (outSize ?plan)"
  let ?mll = "unat (maxLineLen hdr)"
  let ?off = "offset ?plan"
  let ?n = "unat (numLines ?plan)"
  have P: "numLines ?plan = numLinesOf F (outSize ?plan) (maxLineLen hdr)
    \<and> unat ?off + ?ots \<le> 4294967296
    \<and> (bitsPerElement ?param = 16 \<longrightarrow> even (outSize ?plan))"
    using assms(1,2) _ assms(3) by (rule planLoop_plan) simp
  have nl: "numLines ?plan = numLinesOf F (outSize ?plan) (maxLineLen hdr)"
    and nowrap: "unat ?off + ?ots \<le> 4294967296"
    using P by simp_all
  have T: "?ots \<noteq> 0
    \<and> (\<exists>e1. readLines8 F buf ?param ?mll ?ots ?off (unat stride) ?n (srcPos ?plan) 0 tmp
              = Inr (e1, tmp'))
    \<and> (sortingRequired ?param = Inr False \<longrightarrow>
         memcpyFloats (unat ?off) ?ots tmp' dst = Inr dst')"
    using assms(5,4) by (rule tensorTask_8bit)
  then obtain e1 where ots: "?ots \<noteq> 0"
    and rl: "readLines8 F buf ?param ?mll ?ots ?off (unat stride) ?n (srcPos ?plan) 0 tmp
              = Inr (e1, tmp')"
    by blast
  have mc: "memcpyFloats (unat ?off) ?ots tmp' dst = Inr dst'"
    if "sortingRequired ?param = Inr False"
    using T that by blast
  have S: "e1 = min ?ots (0 + ?n * ?mll)
    \<and> length tmp' = length tmp
    \<and> (\<forall>k < e1 - 0. tmp' ! (unat ?off + 0 + k) =
          dequantized8 F ?param (buf ! (srcPos ?plan + (k div ?mll) * unat stride + k mod ?mll)))
    \<and> (\<forall>j. j < unat ?off + 0 \<or> unat ?off + e1 \<le> j \<longrightarrow> tmp' ! j = tmp ! j)"
    using rl _ nowrap by (rule readLines8_spec) (use ots in simp)
  have e1: "e1 = min ?ots (?n * ?mll)"
    using S by simp
  have staged: "tmp' ! (unat ?off + k) =
      dequantized8 F ?param (buf ! (srcPos ?plan + (k div ?mll) * unat stride + k mod ?mll))"
    if "k < min ?ots (?n * ?mll)" for k
    using S that e1 by simp
  have copied: "dst' ! (unat ?off + k) = tmp' ! (unat ?off + k)"
    if "k < min ?ots (?n * ?mll)" and "sortingRequired ?param = Inr False" for k
  proof -
    have "k < ?ots" using that(1) by simp
    then show ?thesis
      using mc [OF that(2)] by (intro memcpyFloats_nth)
  qed
  have kept: "tmp' ! (unat ?off + k) = tmp ! (unat ?off + k)" if "?n * ?mll \<le> k" for k
  proof -
    have "unat ?off + e1 \<le> unat ?off + k"
      using that e1 by simp
    then show ?thesis
      using S by blast
  qed
  have ex: "getVal8_uint8 F 200 (?param\<lparr>shift := 128\<rparr>) = f_mul F (f_of_int F 72) (scale ?param)"
    by (simp add: getVal8_uint8_def)
  show ?thesis
    using nl staged copied kept ex by blast
qed

lemma plan_signedTensor:
  "planLoop realOps (mkHeader 2) 4 3 [signedTensor] 0 0 0 [0] = Inr ([signedPlan], [3])"
  by (simp add: signedTensor_def signedPlan_def example_defs numLinesOf_word zeroDimensions_def
      UINT32_MAX_def word_le_nat_alt word_less_nat_alt Let_def unroll del: Suc_numeral)

lemma task_signedTensor:
  "tensorTask realOps (mkHeader 2) [signedTensor] [signedPlan] 4 twoLines 0 ([0, 0, 0], [0, 0, 0]) =
     Inr ([- 57 / 2, 0, - 1], [- 57 / 2, 0, - 1])"
  by (simp add: signedTensor_def signedPlan_def twoLines_def example_defs body_defs
      readLine8.simps unroll del: Suc_numeral)

lemma extracted_8bit_example:
  "planLoop realOps (mkHeader 2) 4 3 [signedTensor] 0 0 0 [0] = Inr ([signedPlan], [3])
   \<and> 3 \<le> unat (UINT32_MAX div 4)
   \<and> 0 < length [signedTensor]
   \<and> bitsPerElement ([signedTensor] ! 0) = 8
   \<and> tensorTask realOps (mkHeader 2) [signedTensor] [signedPlan] 4 twoLines 0
       ([0, 0, 0], [0, 0, 0]) = Inr ([- 57 / 2, 0, - 1], [- 57 / 2, 0, - 1])
   \<and> sortingRequired ([signedTensor] ! 0) = Inr False
   \<and> numLines signedPlan = numLinesOf realOps 3 2
   \<and> [- 57 / 2, 0, - 1] ! 2 = of_int (sint (twoLines ! 4) - 1) * (1 / 2 :: real)
   \<and> getVal8_uint8 realOps 200 (signedTensor\<lparr>shift := 128\<rparr>) = 36"
proof -
  have p: "planLoop realOps (mkHeader 2) 4 3 [signedTensor] 0 0 0 [0] = Inr ([signedPlan], [3])"
    by (rule plan_signedTensor)
  have z: "3 \<le> unat (UINT32_MAX div 4)"
    by (simp add: UINT32_MAX_def unat_div)
  have i: "0 < length [signedTensor]"
    by simp
  have b: "bitsPerElement ([signedTensor] ! 0) = 8"
    by (simp add: signedTensor_def)
  have t: "tensorTask realOps (mkHeader 2) [signedTensor] [signedPlan] 4 twoLines 0
       ([0, 0, 0], [0, 0, 0]) = Inr ([- 57 / 2, 0, - 1], [- 57 / 2, 0, - 1])"
    by (rule task_signedTensor)
  have s: "sortingRequired ([signedTensor] ! 0) = Inr False"
    by (simp add: signedTensor_def sortingRequired_def mkDim_def)
  note D = extracted_8bit [OF p z i b t]
  have n: "numLines signedPlan = numLinesOf realOps 3 2"
    using D [THEN conjunct1] by (simp add: signedPlan_def mkHeader_def)
  have "[- 57 / 2, 0, - 1] ! 2 = of_int (sint (twoLines ! 4) - 1) * (1 / 2 :: real)"
    using D [THEN conjunct2, THEN conjunct1, THEN spec, of 2]
    by (simp add: signedTensor_def signedPlan_def twoLines_def mkHeader_def TYPE_SIGNED_def
        dequantized8_def realOps_simps)
  moreover have "getVal8_uint8 realOps 200 (signedTensor\<lparr>shift := 128\<rparr>) = 36"
    using D [THEN conjunct2, THEN conjunct2, THEN conjunct2]
    by (simp add: signedTensor_def realOps_simps)
  ultimately show ?thesis
    using p z i b t s n by blast
qed

















subsection \<open>De-quantization of 16-bit elements\<close>

lemma mask8: "mask 8 = (255::int)"
  by (simp add: mask_eq_exp_minus_1)

lemma and255: "uint (b :: u8) AND 255 = uint b"
proof -
  have "uint b < 2 ^ 8"
    using uint_lt2p [of b] by simp
  then have "take_bit 8 (uint b) = uint b"
    by (simp add: take_bit_int_eq_self)
  then have "uint b AND mask 8 = uint b"
    by (simp only: take_bit_eq_mask)
  then show ?thesis
    by (simp only: mask8)
qed

text \<open>The macros assemble the two bytes low byte first.\<close>

lemma bytes_to_16_value: "bytes_to_16 MSB LSB = uint LSB + 256 * uint MSB"
proof -
  have lo: "take_bit 8 (uint LSB) = uint LSB"
    using uint_lt2p [of LSB] by (simp add: take_bit_int_eq_self)
  have "push_bit 8 (uint MSB) OR uint LSB = take_bit 8 (uint LSB) OR push_bit 8 (uint MSB)"
    by (simp only: lo or.commute)
  also have "\<dots> = concat_bit 8 (uint LSB) (uint MSB)"
    by (simp only: concat_bit_def)
  also have "\<dots> = take_bit 8 (uint LSB) + push_bit 8 (uint MSB)"
    by (simp only: concat_bit_eq)
  also have "\<dots> = uint LSB + 256 * uint MSB"
    by (simp add: lo push_bit_eq_mult)
  finally show ?thesis
    by (simp only: bytes_to_16_def and255)
qed

lemma bytes_to_16_range: "0 \<le> bytes_to_16 MSB LSB \<and> bytes_to_16 MSB LSB < 65536"
proof -
  have "uint LSB < 256" "uint MSB < 256"
    using uint_lt2p [of LSB] uint_lt2p [of MSB] by simp_all
  then show ?thesis
    by (simp add: bytes_to_16_value)
qed

lemma uint_u16_of_int: "0 \<le> v \<Longrightarrow> v < 65536 \<Longrightarrow> uint (word_of_int v :: u16) = v"
  by (simp add: uint_word_of_int)

lemma sint_u16_of_int:
  assumes "0 \<le> v" and "v < 65536"
  shows "sint (word_of_int v :: u16) = signed16 v"
proof -
  have "sint (word_of_int v :: u16) = (v + 32768) mod 65536 - 32768"
    by (simp add: int_word_sint)
  also have "\<dots> = signed16 v"
  proof (cases "v < 32768")
    case True
    then have "(v + 32768) mod 65536 = v + 32768"
      using assms by (intro mod_pos_pos_trivial) simp_all
    then show ?thesis using True by (simp add: signed16_def)
  next
    case False
    have "v + 32768 = v - 32768 + 65536"
      by simp
    then have "(v + 32768) mod 65536 = (v - 32768 + 65536) mod 65536"
      by (simp only:)
    also have "\<dots> = (v - 32768) mod 65536"
      by (simp only: mod_add_self2)
    also have "\<dots> = v - 32768"
      using assms False by (intro mod_pos_pos_trivial) simp_all
    finally show ?thesis using False by (simp add: signed16_def)
  qed
  finally show ?thesis .
qed

lemma getVal16_dequantized16:
  "(if format param = TYPE_SIGNED then getVal16_int16 F MSB LSB param
    else getVal16_uint16 F MSB LSB param) = dequantized16 F param LSB MSB"
proof -
  have r: "0 \<le> bytes_to_16 MSB LSB" "bytes_to_16 MSB LSB < 65536"
    using bytes_to_16_range [of MSB LSB] by simp_all
  have "sint (word_of_int (bytes_to_16 MSB LSB) :: u16) = signed16 (uint LSB + 256 * uint MSB)"
    using sint_u16_of_int [OF r] by (simp add: bytes_to_16_value)
  moreover have "uint (word_of_int (bytes_to_16 MSB LSB) :: u16) = uint LSB + 256 * uint MSB"
    using uint_u16_of_int [OF r] by (simp add: bytes_to_16_value)
  ultimately show ?thesis
    by (simp add: getVal16_int16_def getVal16_uint16_def dequantized16_def)
qed

lemma half_step: "l < mll \<Longrightarrow> (mll - l + 1) div 2 = 1 + (mll - (l + 2) + 1) div (2::nat)"
  by (cases "mll - l = 1") auto

lemma readLine16_spec:
  assumes "readLine16 F buf param mll ots off src l e tmp = Inr (e', tmp')"
    and "e < ots div 2" and "unat off + ots \<le> 4294967296"
  shows "e' = min (ots div 2) (e + (mll - l + 1) div 2)
    \<and> length tmp' = length tmp
    \<and> (\<forall>k < e' - e. tmp' ! (unat off + e + k) =
          dequantized16 F param (buf ! (src + l + 2 * k)) (buf ! (src + l + 2 * k + 1)))
    \<and> (\<forall>j. j < unat off + e \<or> unat off + e' \<le> j \<longrightarrow> tmp' ! j = tmp ! j)"
  using assms
proof (induction "mll - l" arbitrary: l e tmp rule: less_induct)
  case less
  show ?case
  proof (cases "l < mll")
    case False
    with less.prems(1) have "e' = e" "tmp' = tmp"
      by (simp_all add: readLine16.simps [of F buf param mll ots off src l e tmp])
    with False less.prems(2) show ?thesis by simp
  next
    case lt: True
    have at: "at32 off e = unat off + e"
      using less.prems(2,3) by (intro at32_small) simp
    let ?v = "dequantized16 F param (buf ! (src + l)) (buf ! (src + l + 1))"
    let ?tmp1 = "tmp[unat off + e := ?v]"
    from less.prems(1) lt have inw: "unat off + e < length tmp"
      and step: "(if e + 1 \<ge> ots div 2 then Inr (e + 1, ?tmp1)
               else readLine16 F buf param mll ots off src (l + 2) (e + 1) ?tmp1) = Inr (e', tmp')"
      by (simp_all add: readLine16.simps [of F buf param mll ots off src l e tmp] at Let_def
          getVal16_dequantized16 split: if_splits)
    have half: "(mll - l + 1) div 2 = 1 + (mll - (l + 2) + 1) div 2"
      using lt by (rule half_step)
    show ?thesis
    proof (cases "e + 1 \<ge> ots div 2")
      case True
      with step have r: "e' = e + 1" "tmp' = ?tmp1" by simp_all
      have "min (ots div 2) (e + (mll - l + 1) div 2) = e + 1"
        using True less.prems(2) half by simp
      then show ?thesis
        using r inw by auto
    next
      case False
      with step have rec: "readLine16 F buf param mll ots off src (l + 2) (e + 1) ?tmp1 = Inr (e', tmp')"
        by simp
      have dec: "mll - (l + 2) < mll - l"
        using lt by simp
      have e1: "e + 1 < ots div 2"
        using False by simp
      have IH: "e' = min (ots div 2) (e + 1 + (mll - (l + 2) + 1) div 2)
        \<and> length tmp' = length ?tmp1
        \<and> (\<forall>k < e' - (e + 1). tmp' ! (unat off + (e + 1) + k) =
              dequantized16 F param (buf ! (src + (l + 2) + 2 * k)) (buf ! (src + (l + 2) + 2 * k + 1)))
        \<and> (\<forall>j. j < unat off + (e + 1) \<or> unat off + e' \<le> j \<longrightarrow> tmp' ! j = ?tmp1 ! j)"
        using less.hyps [OF dec rec e1 less.prems(3)] .
      have "e' = min (ots div 2) (e + 1 + (mll - (l + 2) + 1) div 2)"
        using IH by blast
      then have e'1: "e' = min (ots div 2) (e + (mll - l + 1) div 2)"
        using half by simp
      have len: "length tmp' = length tmp"
        using IH by simp
      have first: "tmp' ! (unat off + e) = ?v"
        using IH inw by simp
      have elems: "tmp' ! (unat off + e + k) =
          dequantized16 F param (buf ! (src + l + 2 * k)) (buf ! (src + l + 2 * k + 1))"
        if "k < e' - e" for k
      proof (cases k)
        case 0
        then show ?thesis using first by simp
      next
        case (Suc k')
        then have "k' < e' - (e + 1)"
          using that by simp
        then have "tmp' ! (unat off + (e + 1) + k') =
            dequantized16 F param (buf ! (src + (l + 2) + 2 * k')) (buf ! (src + (l + 2) + 2 * k' + 1))"
          using IH by blast
        then show ?thesis
          using Suc by (simp add: add.assoc)
      qed
      have frame: "tmp' ! j = tmp ! j" if "j < unat off + e \<or> unat off + e' \<le> j" for j
      proof -
        have ge: "e + 1 \<le> e'"
          using e'1 e1 half by (auto simp: min_def)
        have "j < unat off + (e + 1) \<or> unat off + e' \<le> j"
          using that by auto
        then have "tmp' ! j = ?tmp1 ! j"
          using IH by blast
        moreover have "j \<noteq> unat off + e"
          using that ge by auto
        ultimately show ?thesis by simp
      qed
      show ?thesis
        using e'1 len elems frame by blast
    qed
  qed
qed


lemma readLines16_spec:
  assumes "readLines16 F buf param mll ots off stride n src e tmp = Inr (e', tmp')"
    and "e < ots div 2" and "unat off + ots \<le> 4294967296"
  shows "e' = min (ots div 2) (e + n * ((mll + 1) div 2))
    \<and> length tmp' = length tmp
    \<and> (\<forall>k < e' - e. tmp' ! (unat off + e + k) =
          dequantized16 F param
            (buf ! (src + (k div ((mll + 1) div 2)) * stride + 2 * (k mod ((mll + 1) div 2))))
            (buf ! (src + (k div ((mll + 1) div 2)) * stride + 2 * (k mod ((mll + 1) div 2)) + 1)))
    \<and> (\<forall>j. j < unat off + e \<or> unat off + e' \<le> j \<longrightarrow> tmp' ! j = tmp ! j)"
  using assms(1,2)
proof (induction n arbitrary: src e tmp)
  case 0
  then show ?case by (simp add: min_def)
next
  case (Suc n)
  let ?epl = "(mll + 1) div 2"
  from Suc.prems(1) obtain e1 tmp1 where
    line: "readLine16 F buf param mll ots off src 0 e tmp = Inr (e1, tmp1)"
    and rest: "(if e1 \<ge> ots div 2 then Inr (e1, tmp1)
                else readLines16 F buf param mll ots off stride n (src + stride) e1 tmp1) = Inr (e', tmp')"
    by (auto split: sum.splits)
  have L: "e1 = min (ots div 2) (e + (mll - 0 + 1) div 2)
    \<and> length tmp1 = length tmp
    \<and> (\<forall>k < e1 - e. tmp1 ! (unat off + e + k) =
          dequantized16 F param (buf ! (src + 0 + 2 * k)) (buf ! (src + 0 + 2 * k + 1)))
    \<and> (\<forall>j. j < unat off + e \<or> unat off + e1 \<le> j \<longrightarrow> tmp1 ! j = tmp ! j)"
    using line Suc.prems(2) assms(3) by (rule readLine16_spec)
  have e1: "e1 = min (ots div 2) (e + ?epl)" and len1: "length tmp1 = length tmp"
    using L by simp_all
  have el1: "tmp1 ! (unat off + e + k) =
      dequantized16 F param (buf ! (src + 2 * k)) (buf ! (src + 2 * k + 1))" if "k < e1 - e" for k
    using L that by simp
  have fr1: "tmp1 ! j = tmp ! j" if "j < unat off + e \<or> unat off + e1 \<le> j" for j
    using L that by blast
  show ?case
  proof (cases "e1 \<ge> ots div 2")
    case True
    with rest have r: "e' = e1" "tmp' = tmp1" by simp_all
    have e1o: "e1 = ots div 2"
      using e1 True by (simp add: min_def split: if_splits)
    have le: "ots div 2 \<le> e + ?epl"
      using e1 e1o by (simp add: min_def split: if_splits)
    have "e + ?epl \<le> e + Suc n * ?epl"
      by simp
    then have m: "min (ots div 2) (e + Suc n * ?epl) = ots div 2"
      using le by simp
    have "tmp1 ! (unat off + e + k) =
        dequantized16 F param (buf ! (src + (k div ?epl) * stride + 2 * (k mod ?epl)))
          (buf ! (src + (k div ?epl) * stride + 2 * (k mod ?epl) + 1))"
      if "k < e1 - e" for k
    proof -
      have "k < ?epl" using that le e1o by simp
      then show ?thesis
        using el1 [of k] that by simp
    qed
    then show ?thesis
      using r m len1 fr1 e1o by simp
  next
    case False
    with rest have rec: "readLines16 F buf param mll ots off stride n (src + stride) e1 tmp1 = Inr (e', tmp')"
      by simp
    have e1v: "e1 = e + ?epl" and e1lt: "e1 < ots div 2"
      using e1 False by (simp_all add: min_def split: if_splits)
    have IH: "e' = min (ots div 2) (e1 + n * ?epl)
      \<and> length tmp' = length tmp1
      \<and> (\<forall>k < e' - e1. tmp' ! (unat off + e1 + k) =
            dequantized16 F param
              (buf ! (src + stride + (k div ?epl) * stride + 2 * (k mod ?epl)))
              (buf ! (src + stride + (k div ?epl) * stride + 2 * (k mod ?epl) + 1)))
      \<and> (\<forall>j. j < unat off + e1 \<or> unat off + e' \<le> j \<longrightarrow> tmp' ! j = tmp1 ! j)"
      using rec e1lt by (rule Suc.IH)
    have e': "e' = min (ots div 2) (e + Suc n * ?epl)"
      using IH e1v by (simp add: add.assoc)
    have ge: "e1 \<le> e'"
      using IH e1lt by (simp add: min_def)
    have elems: "tmp' ! (unat off + e + k) =
        dequantized16 F param (buf ! (src + (k div ?epl) * stride + 2 * (k mod ?epl)))
          (buf ! (src + (k div ?epl) * stride + 2 * (k mod ?epl) + 1))" if "k < e' - e" for k
    proof (cases "k < ?epl")
      case True
      then have "unat off + e + k < unat off + e1"
        using e1v by simp
      then have "tmp' ! (unat off + e + k) = tmp1 ! (unat off + e + k)"
        using IH by blast
      also have "\<dots> = dequantized16 F param (buf ! (src + 2 * k)) (buf ! (src + 2 * k + 1))"
        using True e1v by (intro el1) simp
      finally show ?thesis
        using True by simp
    next
      case False
      define k' where "k' = k - ?epl"
      have k: "k = ?epl + k'"
        using False by (simp add: k'_def)
      have "k' < e' - e1"
        using that k e1v by simp
      then have X: "tmp' ! (unat off + e1 + k') =
            dequantized16 F param
              (buf ! (src + stride + (k' div ?epl) * stride + 2 * (k' mod ?epl)))
              (buf ! (src + stride + (k' div ?epl) * stride + 2 * (k' mod ?epl) + 1))"
        using IH by blast
      have epl: "0 < ?epl"
      proof (rule ccontr)
        assume "\<not> 0 < ?epl"
        then have "e' = e"
          using IH e1v e1lt by simp
        then show False
          using that by simp
      qed
      have dm: "k div ?epl = Suc (k' div ?epl)" "k mod ?epl = k' mod ?epl"
        using k epl by simp_all
      show ?thesis
        using X dm k e1v by (simp add: add.assoc add.left_commute)
    qed
    have frame: "tmp' ! j = tmp ! j" if "j < unat off + e \<or> unat off + e' \<le> j" for j
    proof -
      have "j < unat off + e1 \<or> unat off + e' \<le> j"
        using that e1v by auto
      then have "tmp' ! j = tmp1 ! j"
        using IH by blast
      moreover have "j < unat off + e \<or> unat off + e1 \<le> j"
        using that ge by auto
      ultimately show ?thesis
        using fr1 by simp
    qed
    have "length tmp' = length tmp"
      using IH len1 by simp
    then show ?thesis
      using e' elems frame by blast
  qed
qed

text \<open>The parts of a task that returns, for a tensor of 16-bit elements.\<close>

lemma tensorTask_16bit:
  assumes "tensorTask F hdr aps plans stride buf idx (tmp, dst) = Inr (tmp', dst')"
    and "bitsPerElement (aps ! idx) = 16"
  shows "unat (outSize (plans ! idx)) \<noteq> 0
    \<and> (\<exists>e1. readLines16 F buf (aps ! idx) (unat (maxLineLen hdr)) (unat (outSize (plans ! idx)))
               (offset (plans ! idx)) (unat stride) (unat (numLines (plans ! idx)))
               (srcPos (plans ! idx)) 0 tmp = Inr (e1, tmp'))
    \<and> (sortingRequired (aps ! idx) = Inr False \<longrightarrow>
         memcpyFloats (unat (offset (plans ! idx))) (unat (outSize (plans ! idx)) div 2) tmp' dst
           = Inr dst')"
proof -
  have bits: "bitsPerElement (aps ! idx) \<noteq> 8"
    using assms(2) by simp
  show ?thesis
    using assms bits
    by (auto simp: tensorTask_def Let_def split: if_splits sum.splits prod.splits)
qed

text \<open>
  The elements that the extraction loop of a 16-bit tensor reaches. The plan is the one the
  planning loop computes, under the bound on the total size that \<^verbatim>\<open>parseOutputTensorBody\<close>
  checks first. The line count of a tensor is the float
  computation \<open>numLinesOf\<close> on its size in bytes, and a line holds \<open>(maxLineLen + 1) div 2\<close>
  elements. For a tensor of 16-bit elements, a task that returns has stored in the staging
  array, for every element \<open>k\<close> below both the element count and the number of elements of
  the \<open>numLines\<close> lines, the float product of \<open>v - shift\<close>, converted to \<^verbatim>\<open>float\<close>, and the
  scale, where \<open>v\<close> is the 16-bit number \<open>byte0 + 256 * byte1\<close> of two consecutive bytes of
  the tensor's line, low byte first, read as a two's complement number when the format is
  signed. When the tensor needs no reorder the output array holds the same value at the
  same index. The elements beyond the lines are not decoded: the staging array keeps what
  it held.
\<close>

lemma extracted_16bit:
  assumes "planLoop F hdr stride totalSz aps 0 src 0 tdn = Inr (plans, tdn')"
    and "totalSz \<le> unat (UINT32_MAX div 4)"
    and "idx < length aps"
    and "bitsPerElement (aps ! idx) = 16"
    and "tensorTask F hdr aps plans stride buf idx (tmp, dst) = Inr (tmp', dst')"
  shows "numLines (plans ! idx) = numLinesOf F (outSize (plans ! idx)) (maxLineLen hdr)
    \<and> (\<forall>k < min (unat (outSize (plans ! idx)) div 2)
                 (unat (numLines (plans ! idx)) * ((unat (maxLineLen hdr) + 1) div 2)).
          (\<exists>byte0 byte1.
             byte0 = buf ! (srcPos (plans ! idx)
                            + (k div ((unat (maxLineLen hdr) + 1) div 2)) * unat stride
                            + 2 * (k mod ((unat (maxLineLen hdr) + 1) div 2)))
             \<and> byte1 = buf ! (srcPos (plans ! idx)
                            + (k div ((unat (maxLineLen hdr) + 1) div 2)) * unat stride
                            + 2 * (k mod ((unat (maxLineLen hdr) + 1) div 2)) + 1)
             \<and> tmp' ! (unat (offset (plans ! idx)) + k) =
                 f_mul F
                   (f_of_int F ((if format (aps ! idx) = TYPE_SIGNED
                                 then signed16 (uint byte0 + 256 * uint byte1)
                                 else uint byte0 + 256 * uint byte1)
                                - uint (shift (aps ! idx))))
                   (scale (aps ! idx)))
          \<and> (sortingRequired (aps ! idx) = Inr False \<longrightarrow>
               dst' ! (unat (offset (plans ! idx)) + k) = tmp' ! (unat (offset (plans ! idx)) + k)))
    \<and> (\<forall>k. unat (numLines (plans ! idx)) * ((unat (maxLineLen hdr) + 1) div 2) \<le> k \<longrightarrow>
             tmp' ! (unat (offset (plans ! idx)) + k) = tmp ! (unat (offset (plans ! idx)) + k))"
proof -
  let ?param = "aps ! idx"
  let ?plan = "plans ! idx"
  let ?ots = "unat (outSize ?plan)"
  let ?mll = "unat (maxLineLen hdr)"
  let ?epl = "(?mll + 1) div 2"
  let ?off = "offset ?plan"
  let ?n = "unat (numLines ?plan)"
  have P: "numLines ?plan = numLinesOf F (outSize ?plan) (maxLineLen hdr)
    \<and> unat ?off + ?ots \<le> 4294967296
    \<and> (bitsPerElement ?param = 16 \<longrightarrow> even (outSize ?plan))"
    using assms(1,2) _ assms(3) by (rule planLoop_plan) simp
  have nl: "numLines ?plan = numLinesOf F (outSize ?plan) (maxLineLen hdr)"
    and nowrap: "unat ?off + ?ots \<le> 4294967296"
    and ev: "even (outSize ?plan)"
    using P assms(4) by simp_all
  have T: "?ots \<noteq> 0
    \<and> (\<exists>e1. readLines16 F buf ?param ?mll ?ots ?off (unat stride) ?n (srcPos ?plan) 0 tmp
              = Inr (e1, tmp'))
    \<and> (sortingRequired ?param = Inr False \<longrightarrow>
         memcpyFloats (unat ?off) (?ots div 2) tmp' dst = Inr dst')"
    using assms(5,4) by (rule tensorTask_16bit)
  then obtain e1 where ots: "?ots \<noteq> 0"
    and rl: "readLines16 F buf ?param ?mll ?ots ?off (unat stride) ?n (srcPos ?plan) 0 tmp
              = Inr (e1, tmp')"
    by blast
  have "even ?ots"
    using ev by (rule even_unat32)
  then have two: "0 < ?ots div 2"
    using ots by (auto elim: evenE)
  have mc: "memcpyFloats (unat ?off) (?ots div 2) tmp' dst = Inr dst'"
    if "sortingRequired ?param = Inr False"
    using T that by blast
  have S: "e1 = min (?ots div 2) (0 + ?n * ?epl)
    \<and> length tmp' = length tmp
    \<and> (\<forall>k < e1 - 0. tmp' ! (unat ?off + 0 + k) =
          dequantized16 F ?param
            (buf ! (srcPos ?plan + (k div ?epl) * unat stride + 2 * (k mod ?epl)))
            (buf ! (srcPos ?plan + (k div ?epl) * unat stride + 2 * (k mod ?epl) + 1)))
    \<and> (\<forall>j. j < unat ?off + 0 \<or> unat ?off + e1 \<le> j \<longrightarrow> tmp' ! j = tmp ! j)"
    using rl two nowrap by (rule readLines16_spec)
  have e1: "e1 = min (?ots div 2) (?n * ?epl)"
    using S by simp
  have staged: "tmp' ! (unat ?off + k) =
      dequantized16 F ?param
            (buf ! (srcPos ?plan + (k div ?epl) * unat stride + 2 * (k mod ?epl)))
            (buf ! (srcPos ?plan + (k div ?epl) * unat stride + 2 * (k mod ?epl) + 1))"
    if "k < min (?ots div 2) (?n * ?epl)" for k
    using S that e1 by simp
  have copied: "dst' ! (unat ?off + k) = tmp' ! (unat ?off + k)"
    if "k < min (?ots div 2) (?n * ?epl)" and "sortingRequired ?param = Inr False" for k
  proof -
    have "k < ?ots div 2" using that(1) by simp
    then show ?thesis
      using mc [OF that(2)] by (intro memcpyFloats_nth)
  qed
  have kept: "tmp' ! (unat ?off + k) = tmp ! (unat ?off + k)" if "?n * ?epl \<le> k" for k
  proof -
    have "unat ?off + e1 \<le> unat ?off + k"
      using that e1 by simp
    then show ?thesis
      using S by blast
  qed
  show ?thesis
    using nl staged copied kept by (simp add: dequantized16_def)
qed

lemma plan_signedTensor16:
  "planLoop realOps (mkHeader 4) 8 3 [signedTensor16] 0 0 0 [0] = Inr ([signedPlan16], [3])"
  by (simp add: signedTensor16_def signedPlan16_def example_defs numLinesOf_word zeroDimensions_def
      UINT32_MAX_def word_le_nat_alt word_less_nat_alt Let_def unroll del: Suc_numeral)

lemma task_signedTensor16:
  "tensorTask realOps (mkHeader 4) [signedTensor16] [signedPlan16] 8 twoLines16 0
     ([0, 0, 0], [0, 0, 0]) =
   Inr ([257 / 2, - 1, - 32769 / 2], [257 / 2, - 1, - 32769 / 2])"
  by (simp add: signedTensor16_def signedPlan16_def twoLines16_def example_defs body_defs
      readLine16.simps getVal16_int16_def bytes_to_16_value unroll del: Suc_numeral)

lemma extracted_16bit_example:
  "planLoop realOps (mkHeader 4) 8 3 [signedTensor16] 0 0 0 [0] = Inr ([signedPlan16], [3])
   \<and> 3 \<le> unat (UINT32_MAX div 4)
   \<and> 0 < length [signedTensor16]
   \<and> bitsPerElement ([signedTensor16] ! 0) = 16
   \<and> tensorTask realOps (mkHeader 4) [signedTensor16] [signedPlan16] 8 twoLines16 0
       ([0, 0, 0], [0, 0, 0]) =
     Inr ([257 / 2, - 1, - 32769 / 2], [257 / 2, - 1, - 32769 / 2])
   \<and> sortingRequired ([signedTensor16] ! 0) = Inr False
   \<and> numLines signedPlan16 = numLinesOf realOps 6 4
   \<and> [257 / 2, - 1, - 32769 / 2] ! 2 =
       of_int (signed16 (uint (twoLines16 ! 8) + 256 * uint (twoLines16 ! 9)) - 1) * (1 / 2 :: real)"
proof -
  have p: "planLoop realOps (mkHeader 4) 8 3 [signedTensor16] 0 0 0 [0] = Inr ([signedPlan16], [3])"
    by (rule plan_signedTensor16)
  have z: "3 \<le> unat (UINT32_MAX div 4)"
    by (simp add: UINT32_MAX_def unat_div)
  have i: "0 < length [signedTensor16]"
    by simp
  have b: "bitsPerElement ([signedTensor16] ! 0) = 16"
    by (simp add: signedTensor16_def)
  have t: "tensorTask realOps (mkHeader 4) [signedTensor16] [signedPlan16] 8 twoLines16 0
       ([0, 0, 0], [0, 0, 0]) =
     Inr ([257 / 2, - 1, - 32769 / 2], [257 / 2, - 1, - 32769 / 2])"
    by (rule task_signedTensor16)
  have s: "sortingRequired ([signedTensor16] ! 0) = Inr False"
    by (simp add: signedTensor16_def sortingRequired_def mkDim_def)
  note D = extracted_16bit [OF p z i b t]
  have n: "numLines signedPlan16 = numLinesOf realOps 6 4"
    using D [THEN conjunct1] by (simp add: signedPlan16_def mkHeader_def)
  have "[257 / 2, - 1, - 32769 / 2] ! 2 =
       of_int (signed16 (uint (twoLines16 ! 8) + 256 * uint (twoLines16 ! 9)) - 1) * (1 / 2 :: real)"
    using D [THEN conjunct2, THEN conjunct1, THEN spec, of 2]
    by (simp add: signedTensor16_def signedPlan16_def twoLines16_def mkHeader_def TYPE_SIGNED_def
        signed16_def realOps_simps)
  then show ?thesis
    using p z i b t s n by blast
qed

text \<open>The extraction loops return when the buffer holds the lines and the array the elements.\<close>

lemma readLine16_total:
  assumes "src + mll < length buf" and "unat off + ots div 2 \<le> length tmp"
    and "unat off + ots \<le> 4294967296" and "e < ots div 2"
  shows "\<exists>e' tmp'. readLine16 F buf param mll ots off src l e tmp = Inr (e', tmp')"
  using assms(2,4)
proof (induction "mll - l" arbitrary: l e tmp rule: less_induct)
  case less
  show ?case
  proof (cases "l < mll")
    case False
    then show ?thesis
      by (simp add: readLine16.simps [of F buf param mll ots off src l e tmp])
  next
    case lt: True
    have at: "at32 off e = unat off + e"
      using less.prems(2) assms(3) by (intro at32_small) simp
    let ?v = "dequantized16 F param (buf ! (src + l)) (buf ! (src + l + 1))"
    let ?tmp1 = "tmp[unat off + e := ?v]"
    have inb: "src + l + 1 < length buf"
      using lt assms(1) by simp
    have inw: "unat off + e < length tmp"
      using less.prems(1,2) by simp
    have step: "readLine16 F buf param mll ots off src l e tmp =
        (if e + 1 \<ge> ots div 2 then Inr (e + 1, ?tmp1)
         else readLine16 F buf param mll ots off src (l + 2) (e + 1) ?tmp1)"
      using lt inb inw
      by (simp add: readLine16.simps [of F buf param mll ots off src l e tmp] at Let_def
          getVal16_dequantized16)
    show ?thesis
    proof (cases "e + 1 \<ge> ots div 2")
      case True
      then show ?thesis using step by simp
    next
      case False
      have dec: "mll - (l + 2) < mll - l"
        using lt by simp
      have len: "unat off + ots div 2 \<le> length ?tmp1"
        using less.prems(1) by simp
      have e1: "e + 1 < ots div 2"
        using False by simp
      show ?thesis
        using less.hyps [OF dec len e1] step False by simp
    qed
  qed
qed

lemma readLines16_total:
  assumes "src + n * stride + mll < length buf" and "unat off + ots div 2 \<le> length tmp"
    and "unat off + ots \<le> 4294967296" and "e < ots div 2"
  shows "\<exists>e' tmp'. readLines16 F buf param mll ots off stride n src e tmp = Inr (e', tmp')"
  using assms(1,2,4)
proof (induction n arbitrary: src e tmp)
  case 0
  then show ?case by simp
next
  case (Suc n)
  have "src + mll < length buf"
    using Suc.prems(1) by simp
  then obtain e1 tmp1 where
    line: "readLine16 F buf param mll ots off src 0 e tmp = Inr (e1, tmp1)"
    using readLine16_total [OF _ Suc.prems(2) assms(3) Suc.prems(3)] by blast
  have L: "e1 = min (ots div 2) (e + (mll - 0 + 1) div 2)
    \<and> length tmp1 = length tmp
    \<and> (\<forall>k < e1 - e. tmp1 ! (unat off + e + k) =
          dequantized16 F param (buf ! (src + 0 + 2 * k)) (buf ! (src + 0 + 2 * k + 1)))
    \<and> (\<forall>j. j < unat off + e \<or> unat off + e1 \<le> j \<longrightarrow> tmp1 ! j = tmp ! j)"
    using line Suc.prems(3) assms(3) by (rule readLine16_spec)
  show ?case
  proof (cases "e1 \<ge> ots div 2")
    case True
    then show ?thesis using line by simp
  next
    case False
    have e1: "e1 < ots div 2"
      using False by simp
    have buf: "src + stride + n * stride + mll < length buf"
      using Suc.prems(1) by simp
    have len: "unat off + ots div 2 \<le> length tmp1"
      using L Suc.prems(2) by simp
    show ?thesis
      using Suc.IH [OF buf len e1] line False by simp
  qed
qed

lemma plan_wide:
  "planLoop F (mkHeader 2) 4064 65536 [wideTensor16] 0 0 0 [0] =
     Inr ([widePlan (numLinesOf F 131072 2)], [65536])"
  by (simp add: wideTensor16_def widePlan_def mkTensor_def mkDim_def mkHeader_def
      zeroDimensions_def UINT32_MAX_def word_le_nat_alt word_less_nat_alt Let_def unroll
      del: Suc_numeral)

text \<open>
  A line count is below 65536. Whatever it is, the task of \<open>wideTensor16\<close> returns and
  leaves the last element as it was.
\<close>

lemma task_wide:
  fixes F :: "real float_ops"
  shows "\<exists>tmp' dst'. tensorTask F (mkHeader 2) [wideTensor16] [widePlan nl] 4064 wideBody 0
       (replicate 65536 (f_zero F), replicate 65536 (f_zero F)) = Inr (tmp', dst')
     \<and> dst' ! 65535 = f_zero F"
proof -
  let ?tmp = "replicate 65536 (f_zero F)"
  let ?n = "unat nl"
  have n: "?n < 65536"
    using unsigned_less [of nl] by simp
  have s: "sortingRequired wideTensor16 = Inr False"
    by (simp add: sortingRequired_def wideTensor16_def mkTensor_def mkDim_def)
  have p: "bitsPerElement wideTensor16 = 16"
    by (simp add: wideTensor16_def mkTensor_def)
  have q: "unat (outSize (widePlan nl)) = 131072" "offset (widePlan nl) = 0"
    "numLines (widePlan nl) = nl" "srcPos (widePlan nl) = 0"
    by (simp_all add: widePlan_def)
  have "?n * 4064 \<le> 65535 * 4064"
    using n by (intro mult_le_mono1) simp
  then have b: "0 + ?n * 4064 + 2 < length wideBody"
    by (simp add: wideBody_def)
  have l: "unat (0::u32) + 131072 div 2 \<le> length ?tmp"
    by simp
  have w: "unat (0::u32) + 131072 \<le> 4294967296"
    by simp
  have z: "(0::nat) < 131072 div 2"
    by simp
  obtain e1 tmp' where
    rl: "readLines16 F wideBody wideTensor16 2 131072 0 4064 ?n 0 0 ?tmp = Inr (e1, tmp')"
    using readLines16_total [OF b l w z] by blast
  have S: "e1 = min (131072 div 2) (0 + ?n * ((2 + 1) div 2))
    \<and> length tmp' = length ?tmp
    \<and> (\<forall>k < e1 - 0. tmp' ! (unat (0::u32) + 0 + k) =
          dequantized16 F wideTensor16
            (wideBody ! (0 + (k div ((2 + 1) div 2)) * 4064 + 2 * (k mod ((2 + 1) div 2))))
            (wideBody ! (0 + (k div ((2 + 1) div 2)) * 4064 + 2 * (k mod ((2 + 1) div 2)) + 1)))
    \<and> (\<forall>j. j < unat (0::u32) + 0 \<or> unat (0::u32) + e1 \<le> j \<longrightarrow> tmp' ! j = ?tmp ! j)"
    using rl z w by (rule readLines16_spec)
  have e1: "e1 \<le> 65535"
    using S n by simp
  have len: "length tmp' = 65536"
    using S by simp
  have "tmp' ! 65535 = ?tmp ! 65535"
    using S e1 by simp
  then have last: "tmp' ! 65535 = f_zero F"
    by simp
  have mc: "memcpyFloats 0 65536 tmp' ?tmp = Inr tmp'"
    using len by (simp add: memcpyFloats_def)
  have "tensorTask F (mkHeader 2) [wideTensor16] [widePlan nl] 4064 wideBody 0 (?tmp, ?tmp) =
      Inr (tmp', tmp')"
    by (simp add: tensorTask_def s p q mkHeader_def rl mc Let_def)
  then show ?thesis
    using last by blast
qed

lemma wide_last_element:
  fixes F :: "real float_ops"
  shows "\<exists>out. parseOutputTensorBody F (mkHeader 2) [wideTensor16]
                \<lparr> address = replicate 65536 (f_zero F), totalSize = 65536, tensorNum = 1,
                  tensorDataNum = [0] \<rparr>
                wideBody 0 4064 =
              Inr (0, \<lparr> address = out, totalSize = 65536, tensorNum = 1,
                        tensorDataNum = [65536] \<rparr>)
           \<and> out ! 65535 = f_zero F"
proof -
  let ?plan = "widePlan (numLinesOf F 131072 2)"
  have i: "sortIdxs [?plan] = [0]"
    by (simp add: sortIdxs_def sortStep_def)
  obtain tmp' dst' where
    t: "tensorTask F (mkHeader 2) [wideTensor16] [?plan] 4064 wideBody 0
       (replicate 65536 (f_zero F), replicate 65536 (f_zero F)) = Inr (tmp', dst')"
    and o: "dst' ! 65535 = f_zero F"
    using task_wide [of F "numLinesOf F 131072 2"] by blast
  have "parseOutputTensorBody F (mkHeader 2) [wideTensor16]
                \<lparr> address = replicate 65536 (f_zero F), totalSize = 65536, tensorNum = 1,
                  tensorDataNum = [0] \<rparr>
                wideBody 0 4064 =
              Inr (0, \<lparr> address = dst', totalSize = 65536, tensorNum = 1,
                        tensorDataNum = [65536] \<rparr>)"
    by (simp add: parseOutputTensorBody_def UINT32_MAX_def plan_wide i t
        word_le_nat_alt word_less_nat_alt unat_div del: planLoop.simps)
  then show ?thesis
    using o by blast
qed







subsection \<open>Permutation of a 2 by 3 tensor\<close>

lemma populate_transpose:
  "populateOutputBodyInfo F [transposeTensor fmt sh sc] =
     Inr \<lparr> address = replicate 6 (f_zero F), totalSize = 6, tensorNum = 1, tensorDataNum = [0] \<rparr>"
  by (simp add: transposeTensor_def mkDim_def planner_defs)

lemma plan_transpose:
  "numLinesOf F 6 4 = 2 \<Longrightarrow>
   planLoop F (mkHeader 4) 8 6 [transposeTensor fmt sh sc] 0 0 0 [0] = Inr ([transposePlan], [6])"
  by (simp add: transposeTensor_def mkDim_def mkHeader_def transposePlan_def zeroDimensions_def
      UINT32_MAX_def word_le_nat_alt word_less_nat_alt Let_def unroll del: Suc_numeral)

lemma prep_transpose:
  "prepLoop (serializedDim transposePlan) (actualDim transposePlan) 0 2 ([1, 1, 1], [1, 1, 1]) =
     Inr ([3, 2, 1], [2, 1, 1])"
  by (simp add: transposePlan_def DimensionMax_def unroll del: Suc_numeral)

lemma dstIndexes_transpose: "dstIndexes [3, 2, 1] [2, 1, 1] = [0, 2, 4, 1, 3, 5]"
  by (simp add: dstIndexes_def unroll del: Suc_numeral)

lemma extract_transpose:
  "readLines8 F [b0, b1, b2, b3, x0, x1, x2, x3, b4, b5] (transposeTensor fmt sh sc) 4 6 0 8 2 0 0
     [z0, z1, z2, z3, z4, z5] =
   Inr (6, map (dequantized8 F (transposeTensor fmt sh sc)) [b0, b1, b2, b3, b4, b5])"
  by (simp add: readLine8.simps at32_def getVal8_dequantized8 Let_def unroll del: Suc_numeral)

lemma sort_transpose:
  "sortLoop 0 [0, 2, 4, 1, 3, 5] 0 [v0, v1, v2, v3, v4, v5] [z0, z1, z2, z3, z4, z5] =
     Inr [v0, v3, v1, v4, v2, v5]"
  by (simp add: at32_def unroll del: Suc_numeral)

lemma task_transpose:
  "tensorTask F (mkHeader 4) [transposeTensor fmt sh sc] [transposePlan] 8
     [b0, b1, b2, b3, x0, x1, x2, x3, b4, b5] 0
     ([z0, z1, z2, z3, z4, z5], [y0, y1, y2, y3, y4, y5]) =
   Inr (map (dequantized8 F (transposeTensor fmt sh sc)) [b0, b1, b2, b3, b4, b5],
        map (dequantized8 F (transposeTensor fmt sh sc)) [b0, b3, b1, b4, b2, b5])"
proof -
  have s: "sortingRequired (transposeTensor fmt sh sc) = Inr True"
    by (simp add: sortingRequired_def transposeTensor_def mkDim_def)
  have p: "bitsPerElement (transposeTensor fmt sh sc) = 8"
    "unat (numDimensions (transposeTensor fmt sh sc)) = 2"
    by (simp_all add: transposeTensor_def)
  have q: "unat (outSize transposePlan) = 6" "offset transposePlan = 0"
    "unat (numLines transposePlan) = 2" "srcPos transposePlan = 0"
    by (simp_all add: transposePlan_def)
  show ?thesis
    by (simp add: tensorTask_def s p q mkHeader_def extract_transpose prep_transpose
        dstIndexes_transpose sort_transpose Let_def del: sortLoop.simps)
qed

lemma body_transpose:
  "numLinesOf F 6 4 = 2 \<Longrightarrow>
   parseOutputTensorBody F (mkHeader 4) [transposeTensor fmt sh sc]
     \<lparr> address = replicate 6 (f_zero F), totalSize = 6, tensorNum = 1, tensorDataNum = [0] \<rparr>
     [b0, b1, b2, b3, x0, x1, x2, x3, b4, b5] 0 8 =
   Inr (0, \<lparr> address = map (dequantized8 F (transposeTensor fmt sh sc)) [b0, b3, b1, b4, b2, b5],
             totalSize = 6, tensorNum = 1, tensorDataNum = [6] \<rparr>)"
proof -
  assume n: "numLinesOf F 6 4 = 2"
  have i: "sortIdxs [transposePlan] = [0]"
    by (simp add: sortIdxs_def sortStep_def)
  show ?thesis
    by (simp add: parseOutputTensorBody_def UINT32_MAX_def plan_transpose [OF n] i task_transpose
        word_le_nat_alt word_less_nat_alt unroll del: Suc_numeral planLoop.simps)
qed

text \<open>
  C5. The tensor with ordinal sizes \<open>[2, 3]\<close> and reversed serialization indices, 8 bits
  per element, any sign, shift and scale, stored in two lines of \<open>maxLineLen = 4\<close>, for any
  float operations that count the two lines: the decode returns 0 and the output is the
  transpose of the de-quantized input in storage order,
  \<open>out ! (q * 2 + p) = input ! (p * 3 + q)\<close>. The loop counts are \<open>[3, 2, 1]\<close> and
  the coefficients \<open>[2, 1, 1]\<close>: the innermost serialized dimension is ordinal 1, whose
  coefficient is the size 2 of the ordinal before it; the next one is ordinal 0, with
  coefficient 1. The destination indices are \<open>2 * k + 1 * j\<close> for \<open>j < 2\<close>, \<open>k < 3\<close>.
\<close>

theorem transpose_2x3:
  assumes "numLinesOf F 6 4 = 2"
  shows "\<exists>out. parseOutputTensorBody F (mkHeader 4) [transposeTensor fmt sh sc]
            \<lparr> address = replicate 6 (f_zero F), totalSize = 6, tensorNum = 1,
              tensorDataNum = [0] \<rparr>
            [b0, b1, b2, b3, x0, x1, x2, x3, b4, b5] 0 8 =
          Inr (0, \<lparr> address = out, totalSize = 6, tensorNum = 1, tensorDataNum = [6] \<rparr>)
     \<and> length out = 6
     \<and> (\<forall>p < 2. \<forall>q < 3.
           out ! (q * 2 + p) =
             map (dequantized8 F (transposeTensor fmt sh sc)) [b0, b1, b2, b3, b4, b5] ! (p * 3 + q))
     \<and> planLoop F (mkHeader 4) 8 6 [transposeTensor fmt sh sc] 0 0 0 [0] = Inr ([transposePlan], [6])
     \<and> prepLoop (serializedDim transposePlan) (actualDim transposePlan) 0 2 ([1, 1, 1], [1, 1, 1]) =
         Inr ([3, 2, 1], [2, 1, 1])
     \<and> dstIndexes [3, 2, 1] [2, 1, 1] =
         concat (map (\<lambda>j. map (\<lambda>k. 2 * word_of_nat k + 1 * word_of_nat j) [0, 1, 2]) [0, 1])"
proof -
  let ?d = "dequantized8 F (transposeTensor fmt sh sc)"
  let ?out = "map ?d [b0, b3, b1, b4, b2, b5]"
  have perm: "?out ! (q * 2 + p) = map ?d [b0, b1, b2, b3, b4, b5] ! (p * 3 + q)"
    if "p < 2" "q < 3" for p q
  proof -
    have "p = 0 \<or> p = 1"
      using that(1) by auto
    moreover have "q = 0 \<or> q = 1 \<or> q = 2"
      using that(2) by auto
    ultimately show ?thesis
      by auto
  qed
  have idx: "dstIndexes [3, 2, 1] [2, 1, 1] =
         concat (map (\<lambda>j. map (\<lambda>k. 2 * word_of_nat k + 1 * word_of_nat j) [0, 1, 2]) [0, 1])"
    by (simp add: dstIndexes_transpose)
  show ?thesis
    using body_transpose [OF assms, of fmt sh sc b0 b1 b2 b3 x0 x1 x2 x3 b4 b5] perm
      plan_transpose [OF assms, of fmt sh sc] prep_transpose idx
    by (intro exI [of _ ?out]) simp
qed

lemma numLines_transpose: "numLinesOf realOps 6 4 = 2"
  by (simp add: numLinesOf_word)

theorem transpose_2x3_witness:
  "numLinesOf realOps 6 4 = 2
   \<and> (\<forall>fmt sh sc b0 b1 b2 b3 x0 x1 x2 x3 b4 b5.
        \<exists>out. parseOutputTensorBody realOps (mkHeader 4) [transposeTensor fmt sh sc]
                 \<lparr> address = [0, 0, 0, 0, 0, 0], totalSize = 6, tensorNum = 1,
                   tensorDataNum = [0] \<rparr>
                 [b0, b1, b2, b3, x0, x1, x2, x3, b4, b5] 0 8 =
               Inr (0, \<lparr> address = out, totalSize = 6, tensorNum = 1, tensorDataNum = [6] \<rparr>)
          \<and> length out = 6
          \<and> (\<forall>p < 2. \<forall>q < 3.
                out ! (q * 2 + p) =
                  map (dequantized8 realOps (transposeTensor fmt sh sc)) [b0, b1, b2, b3, b4, b5]
                    ! (p * 3 + q)))
   \<and> (\<exists>out. parseOutputTensorBody realOps (mkHeader 4) [transposeTensor TYPE_UNSIGNED 0 1]
               \<lparr> address = [0, 0, 0, 0, 0, 0], totalSize = 6, tensorNum = 1, tensorDataNum = [0] \<rparr>
               [10, 11, 12, 13, 0, 0, 0, 0, 14, 15] 0 8 =
             Inr (0, \<lparr> address = out, totalSize = 6, tensorNum = 1, tensorDataNum = [6] \<rparr>)
        \<and> out ! (2 * 2 + 1) = 15 \<and> out ! (1 * 2 + 0) = 11)"
proof -
  have z: "replicate 6 (f_zero realOps) = [0, 0, 0, 0, 0, 0]"
    by (simp add: realOps_simps unroll del: Suc_numeral)
  note T = transpose_2x3 [OF numLines_transpose, unfolded z]
  have gen: "\<exists>out. parseOutputTensorBody realOps (mkHeader 4) [transposeTensor fmt sh sc]
                 \<lparr> address = [0, 0, 0, 0, 0, 0], totalSize = 6, tensorNum = 1,
                   tensorDataNum = [0] \<rparr>
                 [b0, b1, b2, b3, x0, x1, x2, x3, b4, b5] 0 8 =
               Inr (0, \<lparr> address = out, totalSize = 6, tensorNum = 1, tensorDataNum = [6] \<rparr>)
          \<and> length out = 6
          \<and> (\<forall>p < 2. \<forall>q < 3.
                out ! (q * 2 + p) =
                  map (dequantized8 realOps (transposeTensor fmt sh sc)) [b0, b1, b2, b3, b4, b5]
                    ! (p * 3 + q))"
    for fmt sh sc b0 b1 b2 b3 x0 x1 x2 x3 b4 b5
    using T [of fmt sh sc b0 b1 b2 b3 x0 x1 x2 x3 b4 b5] by blast
  have d: "dequantized8 realOps (transposeTensor TYPE_UNSIGNED 0 1) b = of_int (uint b)" for b
    by (simp add: dequantized8_def transposeTensor_def TYPE_UNSIGNED_def TYPE_SIGNED_def
        realOps_simps)
  from gen [of TYPE_UNSIGNED 0 1 10 11 12 13 0 0 0 0 14 15]
  obtain out where
    b: "parseOutputTensorBody realOps (mkHeader 4) [transposeTensor TYPE_UNSIGNED 0 1]
            \<lparr> address = [0, 0, 0, 0, 0, 0], totalSize = 6, tensorNum = 1, tensorDataNum = [0] \<rparr>
            [10, 11, 12, 13, 0, 0, 0, 0, 14, 15] 0 8 =
          Inr (0, \<lparr> address = out, totalSize = 6, tensorNum = 1, tensorDataNum = [6] \<rparr>)"
    and p: "\<forall>p < 2. \<forall>q < 3. out ! (q * 2 + p) =
        map (dequantized8 realOps (transposeTensor TYPE_UNSIGNED 0 1)) [10, 11, 12, 13, 14, 15]
          ! (p * 3 + q)"
    by blast
  have "out ! (2 * 2 + 1) =
      map (dequantized8 realOps (transposeTensor TYPE_UNSIGNED 0 1)) [10, 11, 12, 13, 14, 15]
        ! (1 * 3 + 2)"
    using p [rule_format, of 1 2] by simp
  then have a: "out ! (2 * 2 + 1) = 15"
    by (simp add: d)
  have "out ! (1 * 2 + 0) =
      map (dequantized8 realOps (transposeTensor TYPE_UNSIGNED 0 1)) [10, 11, 12, 13, 14, 15]
        ! (0 * 3 + 1)"
    using p [rule_format, of 0 1] by simp
  then have "out ! (1 * 2 + 0) = 11"
    by (simp add: d)
  with a b have ex: "\<exists>out. parseOutputTensorBody realOps (mkHeader 4) [transposeTensor TYPE_UNSIGNED 0 1]
               \<lparr> address = [0, 0, 0, 0, 0, 0], totalSize = 6, tensorNum = 1, tensorDataNum = [0] \<rparr>
               [10, 11, 12, 13, 0, 0, 0, 0, 14, 15] 0 8 =
             Inr (0, \<lparr> address = out, totalSize = 6, tensorNum = 1, tensorDataNum = [6] \<rparr>)
        \<and> out ! (2 * 2 + 1) = 15 \<and> out ! (1 * 2 + 0) = 11"
    by blast
  show ?thesis
    using numLines_transpose gen ex by blast
qed


end
